(* ===== verification/Py_Prelude.thy ===== *)
theory Py_Prelude
  imports Complex_Main "HOL-Library.AList"
begin

text \<open>
  Shared vocabulary of the ledger development: the Python containers and string
  operations that the three \<open>accounts.py\<close> variants use, modelled once.
  \<^item> A Python \<open>dict\<close> is an association list with distinct keys in insertion order:
    \<open>d[k] = v\<close> is \<open>AList.update\<close> (in place when \<open>k\<close> is present, appended at the end
    otherwise, as CPython's ordered dict does), \<open>del d[k]\<close> is \<open>AList.delete\<close>,
    \<open>d.get(k, dflt)\<close> is \<open>dict_get\<close>, \<open>d.items()\<close> is the list itself.
  \<^item> \<open>str.upper\<close> is \<open>py_upper\<close>, on the byte characters of HOL strings (ASCII letters
    are mapped; Isabelle's \<open>char\<close> has no code points beyond a byte).
  \<^item> Python floats are modelled as \<open>real\<close> (exact arithmetic, no rounding, no NaN).
  The lemmas are the generic facts the component theories share: lookups after updates
  and deletions, preservation of distinct keys and of a property of all values, sums over
  a dict's items, and the round trip of appending a key and deleting it again.
\<close>

named_theorems dict_simps "lookup facts on Python dicts modelled as association lists"
named_theorems ledger_defs "unfolding rules of the ledger operations"

type_synonym symbol = string
type_synonym 'v pydict = "(string \<times> 'v) list"
type_synonym price_lookup = "symbol \<Rightarrow> real"

section \<open>Python dicts\<close>

definition dict_get :: "('k \<times> 'v) list \<Rightarrow> 'k \<Rightarrow> 'v \<Rightarrow> 'v" where
  "dict_get d k dflt = (case map_of d k of Some v \<Rightarrow> v | None \<Rightarrow> dflt)"

definition dict_keys :: "('k \<times> 'v) list \<Rightarrow> 'k set" where
  "dict_keys d = fst ` set d"

definition dict_distinct :: "('k \<times> 'v) list \<Rightarrow> bool" where
  "dict_distinct d \<longleftrightarrow> distinct (map fst d)"

definition dict_all_values :: "('v \<Rightarrow> bool) \<Rightarrow> ('k \<times> 'v) list \<Rightarrow> bool" where
  "dict_all_values P d \<longleftrightarrow> (\<forall>kv \<in> set d. P (snd kv))"

text \<open>\<open>sum(f(k, v) for k, v in d.items())\<close>: Python's \<open>sum\<close> starts at 0.\<close>

definition dict_sum :: "('k \<Rightarrow> 'v \<Rightarrow> 'a::comm_monoid_add) \<Rightarrow> ('k \<times> 'v) list \<Rightarrow> 'a" where
  "dict_sum f d = sum_list (map (\<lambda>(k, v). f k v) d)"

section \<open>Python values\<close>

text \<open>The values a dict built from a dataclass's \<open>__dict__\<close> holds: \<open>str\<close>, \<open>float\<close>,
  \<open>int\<close> and \<open>None\<close>.\<close>

datatype py_value = PyStr string | PyFloat real | PyInt int | PyNone

text \<open>An optional field's value: \<open>None\<close> or the value itself.\<close>

definition py_optional :: "('a \<Rightarrow> py_value) \<Rightarrow> 'a option \<Rightarrow> py_value" where
  "py_optional f x = (case x of None \<Rightarrow> PyNone | Some v \<Rightarrow> f v)"

section \<open>Python \<open>str.upper\<close>\<close>

definition py_upper_char :: "char \<Rightarrow> char" where
  "py_upper_char c =
     (let n = (of_char c :: nat) in if 97 \<le> n \<and> n \<le> 122 then char_of (n - 32) else c)"

definition py_upper :: "string \<Rightarrow> string" where
  "py_upper s = map py_upper_char s"

section \<open>Lists built by calls that may raise\<close>

text \<open>\<open>[f(x) for x in xs]\<close> where \<open>f\<close> may raise: the first exception, in list order,
  propagates and the list is never built.\<close>

fun map_or_raise :: "('a \<Rightarrow> 'e + 'b) \<Rightarrow> 'a list \<Rightarrow> 'e + 'b list" where
  "map_or_raise f [] = Inr []"
| "map_or_raise f (x # xs) =
     (case f x of
        Inl e \<Rightarrow> Inl e
      | Inr y \<Rightarrow> (case map_or_raise f xs of Inl e \<Rightarrow> Inl e | Inr ys \<Rightarrow> Inr (y # ys)))"

section \<open>Lemmas on dicts\<close>

lemma dict_get_Nil [simp, dict_simps]: "dict_get [] k dflt = dflt"
  by (simp add: dict_get_def)

lemma dict_get_Cons [simp, dict_simps]:
  "dict_get ((k, v) # d) k' dflt = (if k' = k then v else dict_get d k' dflt)"
  by (simp add: dict_get_def)

lemma dict_get_update [simp, dict_simps]:
  "dict_get (AList.update k v d) k' dflt = (if k' = k then v else dict_get d k' dflt)"
  by (simp add: dict_get_def update_conv')

lemma dict_get_delete [simp, dict_simps]:
  "dict_get (AList.delete k d) k' dflt = (if k' = k then dflt else dict_get d k' dflt)"
  by (simp add: dict_get_def delete_conv')

lemma dict_get_absent [dict_simps]: "k \<notin> dict_keys d \<Longrightarrow> dict_get d k dflt = dflt"
  by (simp add: dict_get_def dict_keys_def flip: map_of_eq_None_iff)

lemma dict_get_present:
  "map_of d k = Some v \<Longrightarrow> dict_get d k dflt = v"
  by (simp add: dict_get_def)

lemma dict_keys_update [simp, dict_simps]:
  "dict_keys (AList.update k v d) = insert k (dict_keys d)"
  by (auto simp add: dict_keys_def dom_update)

lemma dict_keys_delete [simp, dict_simps]:
  "dict_keys (AList.delete k d) = dict_keys d - {k}"
  by (auto simp add: dict_keys_def AList.delete_eq)

lemma dict_keys_map_of: "k \<in> dict_keys d \<longleftrightarrow> map_of d k \<noteq> None"
  by (simp add: dict_keys_def map_of_eq_None_iff)

lemma dict_distinct_update [intro, simp]:
  "dict_distinct d \<Longrightarrow> dict_distinct (AList.update k v d)"
  by (simp add: dict_distinct_def distinct_update)

lemma dict_distinct_delete [intro, simp]:
  "dict_distinct d \<Longrightarrow> dict_distinct (AList.delete k d)"
  by (simp add: dict_distinct_def distinct_delete)

lemma set_update_subset: "set (AList.update k v d) \<subseteq> insert (k, v) (set d)"
  by (induction d) auto

lemma dict_all_values_Nil [simp]: "dict_all_values P []"
  by (simp add: dict_all_values_def)

lemma dict_all_values_update [intro]:
  "dict_all_values P d \<Longrightarrow> P v \<Longrightarrow> dict_all_values P (AList.update k v d)"
  using set_update_subset [of k v d] by (auto simp add: dict_all_values_def)

lemma dict_all_values_delete [intro]:
  "dict_all_values P d \<Longrightarrow> dict_all_values P (AList.delete k d)"
  by (auto simp add: dict_all_values_def AList.delete_eq)

lemma dict_all_values_get:
  "dict_all_values P d \<Longrightarrow> map_of d k = Some v \<Longrightarrow> P v"
  using map_of_SomeD by (fastforce simp add: dict_all_values_def)

text \<open>A key whose \<open>get\<close> with default 0 is positive is present.\<close>

lemma dict_get_pos_present:
  fixes d :: "('k \<times> int) list"
  shows "0 < q \<Longrightarrow> q \<le> dict_get d k 0 \<Longrightarrow> map_of d k = Some (dict_get d k 0)"
  by (auto simp add: dict_get_def split: option.splits)

lemma dict_get_pos_key:
  fixes d :: "('k \<times> int) list"
  shows "0 < q \<Longrightarrow> q \<le> dict_get d k 0 \<Longrightarrow> k \<in> dict_keys d"
  by (auto simp add: dict_get_def dict_keys_map_of split: option.splits)

text \<open>Round trip: deleting a key just appended.\<close>

lemma delete_update_absent:
  "k \<notin> dict_keys d \<Longrightarrow> AList.delete k (AList.update k v d) = d"
  by (simp add: delete_update_same dict_keys_def)

section \<open>Sums over a dict's items\<close>

lemma dict_sum_Nil [simp]: "dict_sum f [] = 0"
  by (simp add: dict_sum_def)

lemma dict_sum_Cons [simp]: "dict_sum f ((k, v) # d) = f k v + dict_sum f d"
  by (simp add: dict_sum_def)

text \<open>
  With distinct keys, the sum over the items depends only on the map the dict denotes:
  the refinement of a Python dict by its abstract map.
\<close>

lemma dict_sum_map_of:
  "dict_distinct d \<Longrightarrow> dict_sum f d = (\<Sum>k \<in> dict_keys d. f k (the (map_of d k)))"
proof (induction d)
  case Nil
  then show ?case by (simp add: dict_keys_def)
next
  case (Cons kv d)
  obtain k v where kv: "kv = (k, v)" by (cases kv)
  with Cons.prems have k: "k \<notin> dict_keys d" and dd: "dict_distinct d"
    by (auto simp add: dict_distinct_def dict_keys_def)
  have "(\<Sum>k' \<in> dict_keys d. f k' (the (map_of (kv # d) k'))) =
        (\<Sum>k' \<in> dict_keys d. f k' (the (map_of d k')))"
    using k kv by (intro sum.cong) auto
  with Cons.IH [OF dd] k kv show ?case
    by (simp add: dict_keys_def)
qed

lemma finite_dict_keys [simp]: "finite (dict_keys d)"
  by (simp add: dict_keys_def)

lemma dict_sum_update:
  fixes f :: "'k \<Rightarrow> 'v::zero \<Rightarrow> 'a::ab_group_add"
  assumes "dict_distinct d" and "\<And>k. f k 0 = 0"
  shows "dict_sum f (AList.update k v d) = dict_sum f d - f k (dict_get d k 0) + f k v"
proof -
  let ?g = "\<lambda>d k'. f k' (dict_get d k' 0)"
  have eq: "\<And>d. dict_distinct d \<Longrightarrow> dict_sum f d = (\<Sum>k' \<in> dict_keys d. ?g d k')"
    by (auto simp add: dict_sum_map_of dict_get_def dict_keys_map_of intro!: sum.cong
        split: option.splits)
  have ins: "(\<Sum>k' \<in> insert k (dict_keys d). ?g d k') = (\<Sum>k' \<in> dict_keys d. ?g d k')"
    using assms(2) by (cases "k \<in> dict_keys d") (simp_all add: insert_absorb dict_get_absent)
  have "dict_sum f (AList.update k v d) = (\<Sum>k' \<in> insert k (dict_keys d). ?g (AList.update k v d) k')"
    using assms(1) by (simp add: eq)
  also have "\<dots> = (\<Sum>k' \<in> insert k (dict_keys d). ?g d k') - ?g d k + f k v"
    by (simp add: sum.remove [of _ k] if_distrib sum.cong [of _ _ "\<lambda>k'. if k' = k then _ else _"])
  finally show ?thesis
    using ins eq [OF assms(1)] by simp
qed

lemma dict_sum_delete:
  fixes f :: "'k \<Rightarrow> 'v::zero \<Rightarrow> 'a::ab_group_add"
  assumes "dict_distinct d" and "\<And>k. f k 0 = 0"
  shows "dict_sum f (AList.delete k d) = dict_sum f d - f k (dict_get d k 0)"
proof -
  let ?g = "\<lambda>d k'. f k' (dict_get d k' 0)"
  have eq: "\<And>d. dict_distinct d \<Longrightarrow> dict_sum f d = (\<Sum>k' \<in> dict_keys d. ?g d k')"
    by (auto simp add: dict_sum_map_of dict_get_def dict_keys_map_of intro!: sum.cong
        split: option.splits)
  have "dict_sum f (AList.delete k d) = (\<Sum>k' \<in> dict_keys d - {k}. ?g (AList.delete k d) k')"
    using assms(1) by (simp add: eq)
  also have "\<dots> = (\<Sum>k' \<in> dict_keys d - {k}. ?g d k')"
    by (intro sum.cong) auto
  also have "\<dots> = (\<Sum>k' \<in> dict_keys d. ?g d k') - ?g d k"
    using assms(2) by (simp add: sum_diff1 dict_get_absent)
  finally show ?thesis
    using eq [OF assms(1)] by simp
qed

section \<open>Lemmas on \<open>str.upper\<close>\<close>

lemma py_upper_char_idem [simp]: "py_upper_char (py_upper_char c) = py_upper_char c"
proof (cases "97 \<le> (of_char c :: nat) \<and> (of_char c :: nat) \<le> 122")
  case True
  then have "(of_char c - 32) mod 256 = (of_char c :: nat) - 32"
    by (intro mod_less) arith
  with True show ?thesis
    by (auto simp add: py_upper_char_def Let_def)
next
  case False
  then have "py_upper_char c = c"
    by (auto simp add: py_upper_char_def Let_def)
  then show ?thesis by simp
qed

lemma py_upper_idem [simp]: "py_upper (py_upper s) = py_upper s"
  by (simp add: py_upper_def comp_def)

text \<open>What \<open>simp\<close> needs to evaluate \<open>py_upper\<close> on a string literal.\<close>

lemmas py_upper_eval = py_upper_def py_upper_char_def char_of_eq_iff Let_def

lemma length_py_upper [simp]: "length (py_upper s) = length s"
  by (simp add: py_upper_def)

section \<open>Lemmas on lists built by calls that may raise\<close>

lemma map_or_raise_all_Inr:
  "list_all (\<lambda>x. \<not> isl (f x)) xs \<Longrightarrow> map_or_raise f xs = Inr (map (\<lambda>x. projr (f x)) xs)"
  by (induction xs) (auto split: sum.splits)

lemma map_or_raise_Inl:
  "map_or_raise f xs = Inl e \<Longrightarrow> \<exists>x \<in> set xs. f x = Inl e"
  by (induction xs) (auto split: sum.splits)

lemma map_or_raise_Inr_iff:
  "map_or_raise f xs = Inr ys \<longleftrightarrow>
     list_all (\<lambda>x. \<not> isl (f x)) xs \<and> ys = map (\<lambda>x. projr (f x)) xs"
proof
  assume r: "map_or_raise f xs = Inr ys"
  then show "list_all (\<lambda>x. \<not> isl (f x)) xs \<and> ys = map (\<lambda>x. projr (f x)) xs"
    by (induction xs arbitrary: ys) (auto split: sum.splits)
qed (simp add: map_or_raise_all_Inr)

lemma map_or_raise_isl [simp]:
  "\<not> isl (map_or_raise f xs) \<longleftrightarrow> list_all (\<lambda>x. \<not> isl (f x)) xs"
  using map_or_raise_all_Inr [of f xs] map_or_raise_Inr_iff [of f xs]
  by (cases "map_or_raise f xs") auto

lemma map_or_raise_Inr_map:
  assumes "map_or_raise f xs = Inr ys" and "\<And>x y. f x = Inr y \<Longrightarrow> g y = h x"
  shows "map g ys = map h xs"
  using assms(1) by (induction xs arbitrary: ys) (auto simp add: assms(2) split: sum.splits)

end
