(* ===== verification/Prices.thy ===== *)
theory Prices
  imports Py_Prelude
begin

text \<open>
  The price oracle. Each \<open>accounts.py\<close> variant hard-codes the same three-symbol price
  table in a free function \<open>get_share_price\<close>; the variants differ in whether the
  symbol is upper-cased before the lookup. The 4o variant takes the oracle as a
  parameter (\<open>price_lookup\<close>, defaulting to its \<open>get_share_price\<close>); the mini and new
  variants call their own table directly. An unknown symbol is priced 0.0, the
  sentinel that the ledger operations treat as "untradeable".
\<close>

text \<open>\<open>example_output_4o/accounts.py\<close>: \<open>_PRICE_MAP\<close> and \<open>get_share_price\<close>.\<close>

definition PRICE_MAP :: "real pydict" where
  "PRICE_MAP = [(''AAPL'', 150), (''TSLA'', 700), (''GOOGL'', 2800)]"

definition get_share_price :: price_lookup where
  "get_share_price symbol = dict_get PRICE_MAP (py_upper symbol) 0"

text \<open>\<open>example_output_mini/accounts.py\<close>: no upper-casing.\<close>

definition mini_get_share_price :: price_lookup where
  "mini_get_share_price symbol =
     dict_get [(''AAPL'', 150), (''TSLA'', 700), (''GOOGL'', 2800)] symbol 0"

text \<open>\<open>example_output_new/accounts.py\<close>: upper-cases like the 4o variant.\<close>

definition new_get_share_price :: price_lookup where
  "new_get_share_price symbol =
     dict_get [(''AAPL'', 150), (''TSLA'', 700), (''GOOGL'', 2800)] (py_upper symbol) 0"

text \<open>The symbols the table knows.\<close>

definition known_symbols :: "symbol set" where
  "known_symbols = {''AAPL'', ''TSLA'', ''GOOGL''}"

lemma table_lookup:
  "dict_get [(''AAPL'', 150), (''TSLA'', 700), (''GOOGL'', (2800::real))] s 0 =
     (if s = ''AAPL'' then 150 else if s = ''TSLA'' then 700 else if s = ''GOOGL'' then 2800 else 0)"
  by (simp add: dict_get_def)

lemmas price_table_defs = table_lookup get_share_price_def mini_get_share_price_def
  new_get_share_price_def PRICE_MAP_def

lemma get_share_price_nonneg: "0 \<le> get_share_price s"
  by (simp add: price_table_defs)

lemma mini_get_share_price_nonneg: "0 \<le> mini_get_share_price s"
  by (simp add: price_table_defs)

lemma new_get_share_price_nonneg: "0 \<le> new_get_share_price s"
  by (simp add: price_table_defs)

lemma get_share_price_pos_iff: "0 < get_share_price s \<longleftrightarrow> py_upper s \<in> known_symbols"
  by (simp add: price_table_defs known_symbols_def)

lemma mini_get_share_price_pos_iff: "0 < mini_get_share_price s \<longleftrightarrow> s \<in> known_symbols"
  by (simp add: price_table_defs known_symbols_def)

lemma new_get_share_price_eq: "new_get_share_price = get_share_price"
  by (simp add: fun_eq_iff price_table_defs)

lemma get_share_price_upper: "get_share_price (py_upper s) = get_share_price s"
  by (simp add: get_share_price_def)

lemma mini_get_share_price_upper_eq:
  "py_upper s = s \<Longrightarrow> mini_get_share_price s = get_share_price s"
  by (simp add: price_table_defs)

text \<open>A spelling of a known ticker that is not upper-case is unknown to the mini
  table, which does not upper-case.\<close>

lemma mini_get_share_price_other_spelling:
  assumes "py_upper s \<in> known_symbols" and "s \<noteq> py_upper s"
  shows "mini_get_share_price s = 0"
proof -
  have "s \<notin> known_symbols"
  proof
    assume "s \<in> known_symbols"
    then have "py_upper s = s" by (auto simp add: known_symbols_def py_upper_eval)
    with assms(2) show False by simp
  qed
  then show ?thesis
    using mini_get_share_price_pos_iff [of s] mini_get_share_price_nonneg [of s] by simp
qed

end
