(* ===== verification/Account.thy ===== *)
theory Account
  imports Prices
begin

text \<open>
  The 4o ledger, \<open>src/3_crew/engineering_team/example_output_4o/accounts.py\<close>, the
  variant the spec follows most closely: the \<open>Transaction\<close> dataclass, the \<open>Account\<close>
  class with its constructor, \<open>deposit\<close>, \<open>withdraw\<close>, \<open>buy_shares\<close>, \<open>sell_shares\<close>,
  the reporting accessors and \<open>get_profit_or_loss\<close>. A method that mutates \<open>self\<close>
  and returns a \<open>bool\<close> is a function from the account to the pair of the result and
  the new account. The lemmas give each operation's behaviour on every branch, the
  well-formedness invariant (non-negative cash, distinct holding keys, positive
  quantities) and its preservation by every operation.
\<close>

section \<open>Data\<close>

text \<open>\<open>@dataclass class Transaction\<close>; \<open>type\<close> is a string, the optional fields are \<open>None\<close>
  unless given.\<close>

record transaction =
  tx_type :: string
  tx_amount :: real
  tx_balance :: real
  tx_symbol :: "symbol option"
  tx_quantity :: "int option"
  tx_price :: "real option"
  tx_total :: "real option"

text \<open>\<open>Transaction(type=..., amount=..., balance=...)\<close>, the constructor call of
  \<open>__init__\<close>, \<open>deposit\<close> and \<open>withdraw\<close>.\<close>

definition cash_transaction :: "string \<Rightarrow> real \<Rightarrow> real \<Rightarrow> transaction" where
  "cash_transaction ty amount bal =
     \<lparr>tx_type = ty, tx_amount = amount, tx_balance = bal, tx_symbol = None,
      tx_quantity = None, tx_price = None, tx_total = None\<rparr>"

text \<open>The constructor call of \<open>buy_shares\<close> and \<open>sell_shares\<close>: \<open>amount\<close> and
  \<open>total\<close> are both the cash moved.\<close>

definition trade_transaction ::
  "string \<Rightarrow> symbol \<Rightarrow> int \<Rightarrow> real \<Rightarrow> real \<Rightarrow> real \<Rightarrow> transaction" where
  "trade_transaction ty symbol quantity price cash bal =
     \<lparr>tx_type = ty, tx_amount = cash, tx_balance = bal, tx_symbol = Some symbol,
      tx_quantity = Some quantity, tx_price = Some price, tx_total = Some cash\<rparr>"

text \<open>\<open>class Account\<close>: \<open>balance\<close>, \<open>_net_deposits\<close>, \<open>_holdings\<close> (a dict from symbol to
  share count) and \<open>_transactions\<close>.\<close>

record account =
  account_id :: string
  balance :: real
  net_deposits :: real
  holdings :: "int pydict"
  transactions :: "transaction list"

section \<open>Operations\<close>

definition init_account :: "string \<Rightarrow> real \<Rightarrow> account" where
  "init_account aid initial_deposit =
     (let b = max 0 initial_deposit in
      \<lparr>account_id = aid, balance = b, net_deposits = b, holdings = [],
       transactions = (if b \<noteq> 0 then [cash_transaction ''deposit'' b b] else [])\<rparr>)"

definition deposit :: "account \<Rightarrow> real \<Rightarrow> bool \<times> account" where
  "deposit a amount =
     (if amount \<le> 0 then (False, a)
      else let b = balance a + amount in
        (True, a\<lparr>balance := b, net_deposits := net_deposits a + amount,
                 transactions := transactions a @ [cash_transaction ''deposit'' amount b]\<rparr>))"

definition withdraw :: "account \<Rightarrow> real \<Rightarrow> bool \<times> account" where
  "withdraw a amount =
     (if amount \<le> 0 \<or> amount > balance a then (False, a)
      else let b = balance a - amount in
        (True, a\<lparr>balance := b, net_deposits := net_deposits a - amount,
                 transactions := transactions a @ [cash_transaction ''withdraw'' amount b]\<rparr>))"

definition buy_shares :: "account \<Rightarrow> symbol \<Rightarrow> int \<Rightarrow> price_lookup \<Rightarrow> bool \<times> account" where
  "buy_shares a symbol quantity price_lookup =
     (if quantity \<le> 0 then (False, a)
      else let price = price_lookup symbol in
        if price \<le> 0 then (False, a)
        else let total_cost = price * of_int quantity in
          if total_cost > balance a then (False, a)
          else let b = balance a - total_cost in
            (True, a\<lparr>balance := b,
                     holdings := AList.update symbol (dict_get (holdings a) symbol 0 + quantity)
                                   (holdings a),
                     transactions := transactions a @
                       [trade_transaction ''buy'' symbol quantity price total_cost b]\<rparr>))"

text \<open>\<open>self._holdings[symbol] -= quantity\<close> reads the entry with \<open>[]\<close>; the guard
  \<open>get(symbol, 0) >= quantity > 0\<close> makes it present (\<open>sell_shares_key_present\<close>), so
  the \<open>KeyError\<close> branch of the read is unreachable.\<close>

definition sell_shares :: "account \<Rightarrow> symbol \<Rightarrow> int \<Rightarrow> price_lookup \<Rightarrow> bool \<times> account" where
  "sell_shares a symbol quantity price_lookup =
     (if quantity \<le> 0 \<or> dict_get (holdings a) symbol 0 < quantity then (False, a)
      else let price = price_lookup symbol in
        if price \<le> 0 then (False, a)
        else let total_revenue = price * of_int quantity;
                 b = balance a + total_revenue;
                 h = AList.update symbol (the (map_of (holdings a) symbol) - quantity) (holdings a);
                 h' = (if the (map_of h symbol) = 0 then AList.delete symbol h else h)
          in (True, a\<lparr>balance := b, holdings := h',
                       transactions := transactions a @
                         [trade_transaction ''sell'' symbol quantity price total_revenue b]\<rparr>))"

text \<open>\<open>get_holdings\<close> returns a copy of the dict and \<open>get_transactions\<close> a fresh dict
  per transaction; in a value model a copy is the value itself, so no caller can reach
  the ledger's state through them.\<close>

definition get_holdings :: "account \<Rightarrow> int pydict" where
  "get_holdings a = holdings a"

text \<open>\<open>transaction.__dict__\<close>: the dataclass's fields in declaration order.\<close>

definition transaction_dict :: "transaction \<Rightarrow> (string \<times> py_value) list" where
  "transaction_dict t =
     [(''type'', PyStr (tx_type t)), (''amount'', PyFloat (tx_amount t)),
      (''balance'', PyFloat (tx_balance t)), (''symbol'', py_optional PyStr (tx_symbol t)),
      (''quantity'', py_optional PyInt (tx_quantity t)), (''price'', py_optional PyFloat (tx_price t)),
      (''total'', py_optional PyFloat (tx_total t))]"

definition get_transactions :: "account \<Rightarrow> (string \<times> py_value) list list" where
  "get_transactions a = [transaction_dict transaction. transaction \<leftarrow> transactions a]"

definition get_profit_or_loss :: "account \<Rightarrow> price_lookup \<Rightarrow> real" where
  "get_profit_or_loss a price_lookup =
     (let holdings_value = dict_sum (\<lambda>symbol quantity. price_lookup symbol * of_int quantity)
                             (holdings a)
      in (balance a + holdings_value) - net_deposits a)"

declare cash_transaction_def [ledger_defs] trade_transaction_def [ledger_defs]
  init_account_def [ledger_defs] deposit_def [ledger_defs] withdraw_def [ledger_defs]
  buy_shares_def [ledger_defs] sell_shares_def [ledger_defs]

section \<open>Well-formedness\<close>

definition account_inv :: "account \<Rightarrow> bool" where
  "account_inv a \<longleftrightarrow>
     0 \<le> balance a \<and> dict_distinct (holdings a) \<and> dict_all_values (\<lambda>q. 0 < q) (holdings a)"

section \<open>Behaviour of each operation\<close>

text \<open>When each operation succeeds: its guards, in the order the code checks them.\<close>

lemma deposit_success_iff: "fst (deposit a amount) \<longleftrightarrow> 0 < amount"
  by (simp add: deposit_def Let_def)

lemma withdraw_success_iff: "fst (withdraw a amount) \<longleftrightarrow> 0 < amount \<and> amount \<le> balance a"
  by (auto simp add: withdraw_def Let_def)

lemma buy_shares_success_iff:
  "fst (buy_shares a symbol quantity p) \<longleftrightarrow>
     0 < quantity \<and> 0 < p symbol \<and> p symbol * of_int quantity \<le> balance a"
  by (auto simp add: buy_shares_def Let_def)

lemma sell_shares_success_iff:
  "fst (sell_shares a symbol quantity p) \<longleftrightarrow>
     0 < quantity \<and> quantity \<le> dict_get (holdings a) symbol 0 \<and> 0 < p symbol"
  by (auto simp add: sell_shares_def Let_def)

text \<open>A failed call returns the account it was given.\<close>

lemma deposit_fail: "\<not> fst (deposit a amount) \<Longrightarrow> snd (deposit a amount) = a"
  by (auto simp add: deposit_def Let_def split: if_splits)

lemma withdraw_fail: "\<not> fst (withdraw a amount) \<Longrightarrow> snd (withdraw a amount) = a"
  by (auto simp add: withdraw_def Let_def split: if_splits)

lemma buy_shares_fail: "\<not> fst (buy_shares a symbol quantity p) \<Longrightarrow> snd (buy_shares a symbol quantity p) = a"
  by (auto simp add: buy_shares_def Let_def split: if_splits)

lemma sell_shares_fail: "\<not> fst (sell_shares a symbol quantity p) \<Longrightarrow> snd (sell_shares a symbol quantity p) = a"
  by (auto simp add: sell_shares_def Let_def split: if_splits)

lemmas ops_fail = deposit_fail withdraw_fail buy_shares_fail sell_shares_fail

text \<open>The key read by \<open>self._holdings[symbol]\<close> in \<open>sell_shares\<close> is present.\<close>

lemma sell_shares_key_present:
  "0 < quantity \<Longrightarrow> quantity \<le> dict_get (holdings a) symbol 0 \<Longrightarrow>
     map_of (holdings a) symbol = Some (dict_get (holdings a) symbol 0)"
  by (rule dict_get_pos_present)

text \<open>The effect of a successful call on each field.\<close>

lemma deposit_ok:
  "fst (deposit a amount) \<Longrightarrow>
     balance (snd (deposit a amount)) = balance a + amount \<and>
     net_deposits (snd (deposit a amount)) = net_deposits a + amount \<and>
     holdings (snd (deposit a amount)) = holdings a \<and>
     transactions (snd (deposit a amount)) =
       transactions a @ [cash_transaction ''deposit'' amount (balance a + amount)]"
  by (simp add: deposit_def Let_def split: if_splits)

lemma withdraw_ok:
  "fst (withdraw a amount) \<Longrightarrow>
     balance (snd (withdraw a amount)) = balance a - amount \<and>
     net_deposits (snd (withdraw a amount)) = net_deposits a - amount \<and>
     holdings (snd (withdraw a amount)) = holdings a \<and>
     transactions (snd (withdraw a amount)) =
       transactions a @ [cash_transaction ''withdraw'' amount (balance a - amount)]"
  by (simp add: withdraw_def Let_def split: if_splits)

lemma buy_shares_ok:
  "fst (buy_shares a symbol quantity p) \<Longrightarrow>
     balance (snd (buy_shares a symbol quantity p)) = balance a - p symbol * of_int quantity \<and>
     net_deposits (snd (buy_shares a symbol quantity p)) = net_deposits a \<and>
     holdings (snd (buy_shares a symbol quantity p)) =
       AList.update symbol (dict_get (holdings a) symbol 0 + quantity) (holdings a) \<and>
     transactions (snd (buy_shares a symbol quantity p)) =
       transactions a @ [trade_transaction ''buy'' symbol quantity (p symbol)
         (p symbol * of_int quantity) (balance a - p symbol * of_int quantity)]"
  by (simp add: buy_shares_def Let_def split: if_splits)

text \<open>The holdings after a sale: the entry drops by the quantity sold and is deleted
  when it reaches zero, in place otherwise.\<close>

definition sold_holdings :: "int pydict \<Rightarrow> symbol \<Rightarrow> int \<Rightarrow> int pydict" where
  "sold_holdings h symbol quantity =
     (if dict_get h symbol 0 = quantity then AList.delete symbol h
      else AList.update symbol (dict_get h symbol 0 - quantity) h)"

lemma sell_shares_ok:
  "fst (sell_shares a symbol quantity p) \<Longrightarrow>
     balance (snd (sell_shares a symbol quantity p)) = balance a + p symbol * of_int quantity \<and>
     net_deposits (snd (sell_shares a symbol quantity p)) = net_deposits a \<and>
     holdings (snd (sell_shares a symbol quantity p)) = sold_holdings (holdings a) symbol quantity \<and>
     transactions (snd (sell_shares a symbol quantity p)) =
       transactions a @ [trade_transaction ''sell'' symbol quantity (p symbol)
         (p symbol * of_int quantity) (balance a + p symbol * of_int quantity)]"
proof -
  assume ok: "fst (sell_shares a symbol quantity p)"
  then have q: "0 < quantity" "quantity \<le> dict_get (holdings a) symbol 0" "0 < p symbol"
    by (simp_all add: sell_shares_success_iff)
  then have "the (map_of (holdings a) symbol) = dict_get (holdings a) symbol 0"
    using sell_shares_key_present [OF q(1,2)] by simp
  with q show ?thesis
    by (auto simp add: sell_shares_def sold_holdings_def Let_def update_conv' delete_update_same)
qed

lemma dict_get_sold_holdings [simp]:
  "dict_get (sold_holdings h symbol quantity) s 0 =
     (if s = symbol then dict_get h symbol 0 - quantity else dict_get h s 0)"
  by (simp add: sold_holdings_def)

lemma account_id_ops [simp]:
  "account_id (snd (deposit a x)) = account_id a"
  "account_id (snd (withdraw a x)) = account_id a"
  "account_id (snd (buy_shares a s q p)) = account_id a"
  "account_id (snd (sell_shares a s q p)) = account_id a"
  by (simp_all add: ledger_defs Let_def)

section \<open>The value of the holdings under a trade\<close>

text \<open>A trade at the oracle's own price moves cash and quoted holdings by the same amount.\<close>

lemma buy_shares_holdings_value:
  assumes "dict_distinct (holdings a)" and "fst (buy_shares a s q p)"
  shows "dict_sum (\<lambda>s q. p s * of_int q) (holdings (snd (buy_shares a s q p))) =
         dict_sum (\<lambda>s q. p s * of_int q) (holdings a) + p s * of_int q"
  using assms by (simp add: buy_shares_ok dict_sum_update algebra_simps)

lemma sell_shares_holdings_value:
  assumes "dict_distinct (holdings a)" and "fst (sell_shares a s q p)"
  shows "dict_sum (\<lambda>s q. p s * of_int q) (holdings (snd (sell_shares a s q p))) =
         dict_sum (\<lambda>s q. p s * of_int q) (holdings a) - p s * of_int q"
  using assms by (auto simp add: sell_shares_ok sold_holdings_def dict_sum_update dict_sum_delete
      algebra_simps)

lemma buy_shares_profit_at_quote:
  assumes "dict_distinct (holdings a)"
  shows "get_profit_or_loss (snd (buy_shares a s q p)) p = get_profit_or_loss a p"
proof (cases "fst (buy_shares a s q p)")
  case True
  have v: "dict_sum (\<lambda>s q. p s * of_int q) (holdings (snd (buy_shares a s q p))) =
           dict_sum (\<lambda>s q. p s * of_int q) (holdings a) + p s * of_int q"
    by (rule buy_shares_holdings_value [OF assms True])
  from True have "balance (snd (buy_shares a s q p)) = balance a - p s * of_int q"
    and "net_deposits (snd (buy_shares a s q p)) = net_deposits a"
    by (simp_all add: buy_shares_ok)
  with v show ?thesis by (simp add: get_profit_or_loss_def)
next
  case False
  then show ?thesis by (simp add: ops_fail)
qed

lemma sell_shares_profit_at_quote:
  assumes "dict_distinct (holdings a)"
  shows "get_profit_or_loss (snd (sell_shares a s q p)) p = get_profit_or_loss a p"
proof (cases "fst (sell_shares a s q p)")
  case True
  have v: "dict_sum (\<lambda>s q. p s * of_int q) (holdings (snd (sell_shares a s q p))) =
           dict_sum (\<lambda>s q. p s * of_int q) (holdings a) - p s * of_int q"
    by (rule sell_shares_holdings_value [OF assms True])
  from True have "balance (snd (sell_shares a s q p)) = balance a + p s * of_int q"
    and "net_deposits (snd (sell_shares a s q p)) = net_deposits a"
    by (simp_all add: sell_shares_ok)
  with v show ?thesis by (simp add: get_profit_or_loss_def)
next
  case False
  then show ?thesis by (simp add: ops_fail)
qed

section \<open>The invariant is kept\<close>

text \<open>On a well-formed account a symbol is held exactly when its count is non-zero.\<close>

lemma account_inv_get_nonneg: "account_inv a \<Longrightarrow> 0 \<le> dict_get (holdings a) s 0"
  using dict_all_values_get [of "\<lambda>q. 0 < q" "holdings a" s]
  by (fastforce simp add: account_inv_def dict_get_def split: option.splits)

lemma account_inv_get_zero:
  "account_inv a \<Longrightarrow> dict_get (holdings a) s 0 = 0 \<longleftrightarrow> s \<notin> dict_keys (holdings a)"
  using dict_all_values_get [of "\<lambda>q. 0 < q" "holdings a" s]
  by (fastforce simp add: account_inv_def dict_get_def dict_keys_map_of split: option.splits)


lemma init_account_inv: "account_inv (init_account aid d)"
  by (simp add: account_inv_def init_account_def Let_def dict_distinct_def)

lemma deposit_inv: "account_inv a \<Longrightarrow> account_inv (snd (deposit a amount))"
  by (cases "fst (deposit a amount)") (auto simp add: account_inv_def deposit_ok ops_fail
      deposit_success_iff)

lemma withdraw_inv: "account_inv a \<Longrightarrow> account_inv (snd (withdraw a amount))"
  by (cases "fst (withdraw a amount)") (auto simp add: account_inv_def withdraw_ok ops_fail
      withdraw_success_iff)

lemma buy_shares_inv: "account_inv a \<Longrightarrow> account_inv (snd (buy_shares a symbol quantity p))"
proof (cases "fst (buy_shares a symbol quantity p)")
  case True
  assume inv: "account_inv a"
  from True have q: "0 < quantity" and cost: "p symbol * of_int quantity \<le> balance a"
    by (simp_all add: buy_shares_success_iff)
  have "0 \<le> dict_get (holdings a) symbol 0"
    using inv dict_all_values_get [of "\<lambda>q. 0 < q" "holdings a" symbol]
    by (auto simp add: account_inv_def dict_get_def split: option.splits)
  with q have "0 < dict_get (holdings a) symbol 0 + quantity" by simp
  with inv cost True show ?thesis
    by (auto simp add: account_inv_def buy_shares_ok)
next
  case False
  then show "account_inv a \<Longrightarrow> ?thesis" by (simp add: ops_fail)
qed

lemma sold_holdings_inv:
  assumes "dict_distinct h" "dict_all_values (\<lambda>q. 0 < q) h" "quantity \<le> dict_get h symbol 0"
  shows "dict_distinct (sold_holdings h symbol quantity) \<and>
         dict_all_values (\<lambda>q. 0 < q) (sold_holdings h symbol quantity)"
  using assms by (auto simp add: sold_holdings_def)

lemma sell_shares_inv: "account_inv a \<Longrightarrow> account_inv (snd (sell_shares a symbol quantity p))"
proof (cases "fst (sell_shares a symbol quantity p)")
  case True
  assume inv: "account_inv a"
  from True have "quantity \<le> dict_get (holdings a) symbol 0" and "0 < p symbol"
      and "0 < quantity"
    by (simp_all add: sell_shares_success_iff)
  moreover have "0 \<le> p symbol * of_int quantity"
    using calculation by simp
  ultimately show ?thesis
    using inv True sold_holdings_inv [of "holdings a" quantity symbol]
    by (simp add: account_inv_def sell_shares_ok)
next
  case False
  then show "account_inv a \<Longrightarrow> ?thesis" by (simp add: ops_fail)
qed

end
