(* ===== verification/Account_Runs.thy ===== *)
theory Account_Runs
  imports Account
begin

text \<open>
  Sequences of calls on one 4o \<open>Account\<close>. A caller (the Gradio UI or an agent tool)
  constructs an account and then calls its four mutating methods in some order, each
  with arguments and a price oracle of its choosing. \<open>account_op\<close> names one such call,
  \<open>apply_op\<close> dispatches it, \<open>run_ops\<close> runs a list of calls and collects their boolean
  results, and \<open>reachable\<close> is the set of accounts some run produces. Over these:
  the well-formedness invariant in every reachable state, the transaction-count law,
  the accounting invariant that the transaction log explains the cash balance, the
  net deposits and every share count, and the shape of every logged transaction
  (\<open>txn_wf\<close>, the spec's data model of a \<open>Transaction\<close>).
\<close>

datatype account_op =
    Deposit real
  | Withdraw real
  | Buy symbol int price_lookup
  | Sell symbol int price_lookup

fun apply_op :: "account \<Rightarrow> account_op \<Rightarrow> bool \<times> account" where
  "apply_op a (Deposit amount) = deposit a amount"
| "apply_op a (Withdraw amount) = withdraw a amount"
| "apply_op a (Buy symbol quantity p) = buy_shares a symbol quantity p"
| "apply_op a (Sell symbol quantity p) = sell_shares a symbol quantity p"

fun run_ops :: "account \<Rightarrow> account_op list \<Rightarrow> bool list \<times> account" where
  "run_ops a [] = ([], a)"
| "run_ops a (op # ops) =
     (let (r, a') = apply_op a op; (rs, a'') = run_ops a' ops in (r # rs, a''))"

inductive reachable :: "account \<Rightarrow> bool" where
  init: "reachable (init_account aid d)"
| step: "reachable a \<Longrightarrow> reachable (snd (apply_op a op))"

section \<open>What the log records\<close>

text \<open>The cash a logged transaction moved into the account, the owner's contribution it
  records, and the shares of one symbol it moved in.\<close>

definition txn_cash :: "transaction \<Rightarrow> real" where
  "txn_cash t =
     (if tx_type t = ''deposit'' \<or> tx_type t = ''sell'' then tx_amount t
      else if tx_type t = ''withdraw'' \<or> tx_type t = ''buy'' then - tx_amount t else 0)"

definition txn_contribution :: "transaction \<Rightarrow> real" where
  "txn_contribution t =
     (if tx_type t = ''deposit'' then tx_amount t
      else if tx_type t = ''withdraw'' then - tx_amount t else 0)"

definition txn_shares :: "symbol \<Rightarrow> transaction \<Rightarrow> int" where
  "txn_shares s t =
     (if tx_symbol t = Some s then
        (if tx_type t = ''buy'' then the (tx_quantity t)
         else if tx_type t = ''sell'' then - the (tx_quantity t) else 0)
      else 0)"

definition log_cash :: "transaction list \<Rightarrow> real" where
  "log_cash ts = sum_list (map txn_cash ts)"

definition log_net_deposits :: "transaction list \<Rightarrow> real" where
  "log_net_deposits ts = sum_list (map txn_contribution ts)"

definition log_shares :: "symbol \<Rightarrow> transaction list \<Rightarrow> int" where
  "log_shares s ts = sum_list (map (txn_shares s) ts)"

definition log_consistent :: "account \<Rightarrow> bool" where
  "log_consistent a \<longleftrightarrow>
     balance a = log_cash (transactions a) \<and>
     net_deposits a = log_net_deposits (transactions a) \<and>
     (\<forall>s. dict_get (holdings a) s 0 = log_shares s (transactions a)) \<and>
     (transactions a = [] \<or> tx_balance (last (transactions a)) = balance a)"

section \<open>The shape of a logged transaction\<close>

text \<open>The spec's data model of a \<open>Transaction\<close>: its kind is one of deposit, withdraw,
  buy and sell; a cash transaction has no symbol, quantity, price or total; a trade has
  all four, a positive quantity and price, and an amount equal to its total, price times
  quantity. Every amount is positive and every balance snapshot non-negative.\<close>

definition txn_wf :: "transaction \<Rightarrow> bool" where
  "txn_wf t \<longleftrightarrow>
     0 < tx_amount t \<and> 0 \<le> tx_balance t \<and>
     (if tx_type t = ''deposit'' \<or> tx_type t = ''withdraw''
      then tx_symbol t = None \<and> tx_quantity t = None \<and> tx_price t = None \<and> tx_total t = None
      else (tx_type t = ''buy'' \<or> tx_type t = ''sell'') \<and> tx_symbol t \<noteq> None \<and>
        (case (tx_quantity t, tx_price t, tx_total t) of
           (Some q, Some pr, Some tot) \<Rightarrow> 0 < q \<and> 0 < pr \<and> tot = pr * of_int q \<and> tx_amount t = tot
         | _ \<Rightarrow> False))"

definition log_wf :: "account \<Rightarrow> bool" where
  "log_wf a \<longleftrightarrow> (\<forall>t \<in> set (transactions a). txn_wf t)"

section \<open>Runs\<close>

lemma apply_op_fail: "\<not> fst (apply_op a op) \<Longrightarrow> snd (apply_op a op) = a"
  by (cases op) (simp_all add: ops_fail)

text \<open>A property kept by every successful call is kept by every call.\<close>

lemma apply_op_preserves:
  assumes "P a" and "fst (apply_op a op) \<Longrightarrow> P (snd (apply_op a op))"
  shows "P (snd (apply_op a op))"
  using assms apply_op_fail [of a op] by (cases "fst (apply_op a op)") auto

lemma apply_op_inv: "account_inv a \<Longrightarrow> account_inv (snd (apply_op a op))"
  by (cases op) (simp_all add: deposit_inv withdraw_inv buy_shares_inv sell_shares_inv)

lemma apply_op_transactions:
  "transactions (snd (apply_op a op)) =
     transactions a @ (if fst (apply_op a op) then [last (transactions (snd (apply_op a op)))] else [])"
  by (cases op) (auto simp add: deposit_ok withdraw_ok buy_shares_ok sell_shares_ok ops_fail)

lemma apply_op_appends:
  "\<exists>x. transactions (snd (apply_op a op)) = transactions a @ x \<and>
       length x = (if fst (apply_op a op) then 1 else 0)"
proof (cases "fst (apply_op a op)")
  case True
  then show ?thesis
    by (cases op) (simp_all add: deposit_ok withdraw_ok buy_shares_ok sell_shares_ok)
next
  case False
  then show ?thesis by (simp add: apply_op_fail)
qed

lemma account_id_apply_op [simp]: "account_id (snd (apply_op a op)) = account_id a"
  by (cases op) simp_all

lemma length_apply_op:
  "length (transactions (snd (apply_op a op))) =
     length (transactions a) + (if fst (apply_op a op) then 1 else 0)"
  by (subst apply_op_transactions) simp

lemma run_ops_Cons_split:
  "run_ops a (op # ops) =
     (fst (apply_op a op) # fst (run_ops (snd (apply_op a op)) ops),
      snd (run_ops (snd (apply_op a op)) ops))"
  by (simp add: split_def Let_def)

declare run_ops.simps [simp del]
lemmas run_ops_simps [simp] = run_ops.simps(1) run_ops_Cons_split

lemma length_run_ops:
  "length (transactions (snd (run_ops a ops))) =
     length (transactions a) + count_list (fst (run_ops a ops)) True"
  by (induction ops arbitrary: a) (simp_all add: length_apply_op)

lemma run_ops_append:
  "snd (run_ops a (ops @ [op])) = snd (apply_op (snd (run_ops a ops)) op)"
  by (induction ops arbitrary: a) simp_all

lemma run_ops_append_split:
  "run_ops a (xs @ ys) =
     (fst (run_ops a xs) @ fst (run_ops (snd (run_ops a xs)) ys), snd (run_ops (snd (run_ops a xs)) ys))"
  by (induction xs arbitrary: a) simp_all

lemma reachable_run_ops: "reachable a \<Longrightarrow> reachable (snd (run_ops a ops))"
  by (induction ops arbitrary: a) (simp_all add: reachable.step)

lemma reachable_is_run:
  "reachable a \<Longrightarrow> \<exists>aid d ops. a = snd (run_ops (init_account aid d) ops)"
proof (induction rule: reachable.induct)
  case (init aid d)
  have "init_account aid d = snd (run_ops (init_account aid d) [])" by simp
  then show ?case by blast
next
  case (step a op)
  then obtain aid d ops where "a = snd (run_ops (init_account aid d) ops)" by blast
  then have "snd (apply_op a op) = snd (run_ops (init_account aid d) (ops @ [op]))"
    by (simp add: run_ops_append)
  then show ?case by blast
qed

lemma reachable_inv: "reachable a \<Longrightarrow> account_inv a"
  by (induction rule: reachable.induct) (simp_all add: init_account_inv apply_op_inv)

section \<open>The log explains the state\<close>

lemmas log_defs = log_cash_def log_net_deposits_def log_shares_def txn_cash_def
  txn_contribution_def txn_shares_def cash_transaction_def trade_transaction_def

lemma init_log_consistent: "log_consistent (init_account aid d)"
  by (simp add: log_consistent_def init_account_def Let_def log_defs)

lemma apply_op_log_consistent:
  assumes "log_consistent a"
  shows "log_consistent (snd (apply_op a op))"
proof (rule apply_op_preserves [where P = log_consistent, OF assms])
  assume "fst (apply_op a op)"
  with assms show "log_consistent (snd (apply_op a op))"
    by (cases op) (auto simp add: deposit_ok withdraw_ok buy_shares_ok sell_shares_ok
        log_consistent_def log_defs)
qed

lemma reachable_log_consistent_aux: "reachable a \<Longrightarrow> log_consistent a"
  by (induction rule: reachable.induct) (simp_all add: init_log_consistent apply_op_log_consistent)

section \<open>Every logged transaction is well-formed\<close>

lemma init_log_wf: "log_wf (init_account aid d)"
  by (simp add: log_wf_def txn_wf_def init_account_def Let_def cash_transaction_def max_def)

lemma apply_op_log_wf:
  assumes wf: "log_wf a" and inv: "account_inv a"
  shows "log_wf (snd (apply_op a op))"
proof (rule apply_op_preserves [where P = log_wf, OF wf])
  assume ok: "fst (apply_op a op)"
  have "0 \<le> balance (snd (apply_op a op))"
    using apply_op_inv [OF inv, of op] by (simp add: account_inv_def)
  with ok wf show "log_wf (snd (apply_op a op))"
    by (cases op) (auto simp add: log_wf_def txn_wf_def deposit_ok withdraw_ok buy_shares_ok
        sell_shares_ok deposit_success_iff withdraw_success_iff buy_shares_success_iff
        sell_shares_success_iff cash_transaction_def trade_transaction_def)
qed

lemma reachable_log_wf_aux: "reachable a \<Longrightarrow> log_wf a"
  by (induction rule: reachable.induct) (simp_all add: init_log_wf apply_op_log_wf reachable_inv)

end
