(* ===== verification/Ledger_Spec.thy ===== *)
theory Ledger_Spec
  imports Account_Runs "HOL-Library.Multiset"
begin

text \<open>
  The abstract ledger of the spec (its sections 3 and 4): cash, a portfolio of shares
  as a multiset of symbols (a symbol occurs as many times as shares of it are held, so
  a symbol held zero times is simply absent), and the owner's net contribution. Each
  operation is partial: \<open>None\<close> when a precondition fails. Valuation is the cash plus
  the quoted value of every share. \<open>abs_account\<close> reads a 4o \<open>Account\<close> as such a
  ledger; the lemmas show that on well-formed accounts every call of the code does
  exactly what the abstract operation does (a functional refinement), and that
  \<open>get_profit_or_loss\<close> computes the abstract profit. \<open>spec_run\<close> runs the abstract
  ledger through a sequence of operations, and \<open>run_ops\<close> refines it from any
  well-formed account.
\<close>

record ledger =
  cash :: real
  portfolio :: "symbol multiset"
  contributed :: real

definition spec_deposit :: "real \<Rightarrow> ledger \<Rightarrow> ledger option" where
  "spec_deposit amount l =
     (if 0 < amount then Some (l\<lparr>cash := cash l + amount, contributed := contributed l + amount\<rparr>)
      else None)"

definition spec_withdraw :: "real \<Rightarrow> ledger \<Rightarrow> ledger option" where
  "spec_withdraw amount l =
     (if 0 < amount \<and> amount \<le> cash l
      then Some (l\<lparr>cash := cash l - amount, contributed := contributed l - amount\<rparr>)
      else None)"

definition spec_buy :: "price_lookup \<Rightarrow> symbol \<Rightarrow> int \<Rightarrow> ledger \<Rightarrow> ledger option" where
  "spec_buy p s q l =
     (if 0 < q \<and> 0 < p s \<and> p s * of_int q \<le> cash l
      then Some (l\<lparr>cash := cash l - p s * of_int q,
                   portfolio := portfolio l + replicate_mset (nat q) s\<rparr>)
      else None)"

definition spec_sell :: "price_lookup \<Rightarrow> symbol \<Rightarrow> int \<Rightarrow> ledger \<Rightarrow> ledger option" where
  "spec_sell p s q l =
     (if 0 < q \<and> q \<le> int (count (portfolio l) s) \<and> 0 < p s
      then Some (l\<lparr>cash := cash l + p s * of_int q,
                   portfolio := portfolio l - replicate_mset (nat q) s\<rparr>)
      else None)"

fun spec_step :: "ledger \<Rightarrow> account_op \<Rightarrow> ledger option" where
  "spec_step l (Deposit amount) = spec_deposit amount l"
| "spec_step l (Withdraw amount) = spec_withdraw amount l"
| "spec_step l (Buy s q p) = spec_buy p s q l"
| "spec_step l (Sell s q p) = spec_sell p s q l"

text \<open>The spec's ledger driven by a sequence of operations, one after the other: a
  refused operation reports \<open>False\<close> and leaves the ledger as it was.\<close>

fun spec_run :: "ledger \<Rightarrow> account_op list \<Rightarrow> bool list \<times> ledger" where
  "spec_run l [] = ([], l)"
| "spec_run l (op # ops) =
     (case spec_step l op of
        None \<Rightarrow> (let (rs, l') = spec_run l ops in (False # rs, l'))
      | Some l1 \<Rightarrow> (let (rs, l') = spec_run l1 ops in (True # rs, l')))"

definition spec_value :: "price_lookup \<Rightarrow> ledger \<Rightarrow> real" where
  "spec_value p l = cash l + sum_mset (image_mset p (portfolio l))"

definition spec_profit :: "price_lookup \<Rightarrow> ledger \<Rightarrow> real" where
  "spec_profit p l = spec_value p l - contributed l"

text \<open>The abstraction of the code's state.\<close>

definition holdings_mset :: "int pydict \<Rightarrow> symbol multiset" where
  "holdings_mset h = sum_list (map (\<lambda>(s, q). replicate_mset (nat q) s) h)"

definition abs_account :: "account \<Rightarrow> ledger" where
  "abs_account a =
     \<lparr>cash = balance a, portfolio = holdings_mset (holdings a), contributed = net_deposits a\<rparr>"

section \<open>The abstraction of holdings\<close>

lemma holdings_mset_Cons [simp]:
  "holdings_mset ((s, q) # h) = replicate_mset (nat q) s + holdings_mset h"
  by (simp add: holdings_mset_def)

lemma count_holdings_mset:
  "dict_distinct h \<Longrightarrow> count (holdings_mset h) s = nat (dict_get h s 0)"
proof (induction h)
  case Nil
  then show ?case by (simp add: holdings_mset_def)
next
  case (Cons kv h)
  obtain k v where kv: "kv = (k, v)" by (cases kv)
  with Cons.prems have "k \<notin> dict_keys h" and "dict_distinct h"
    by (auto simp add: dict_distinct_def dict_keys_def)
  with Cons.IH kv show ?case
    by (simp add: dict_get_absent)
qed

lemma sum_holdings_mset:
  fixes p :: price_lookup
  shows "dict_all_values (\<lambda>q. 0 < q) h \<Longrightarrow>
     sum_mset (image_mset p (holdings_mset h)) = dict_sum (\<lambda>s q. p s * of_int q) h"
proof (induction h)
  case Nil
  then show ?case by (simp add: holdings_mset_def)
next
  case (Cons kv h)
  obtain s q where kv: "kv = (s, q)" by (cases kv)
  with Cons.prems have "0 < q" and "dict_all_values (\<lambda>q. 0 < q) h"
    by (simp_all add: dict_all_values_def)
  with Cons.IH kv show ?case
    by (simp add: mult.commute)
qed

lemma holdings_mset_eqI:
  "dict_distinct h \<Longrightarrow> (\<And>s. nat (dict_get h s 0) = count M s) \<Longrightarrow> holdings_mset h = M"
  by (simp add: multiset_eq_iff count_holdings_mset)

text \<open>How a purchase and a sale change the abstract portfolio; shared by the refinement
  proofs of all three variants.\<close>

lemma holdings_mset_buy:
  assumes "dict_distinct h" and "0 \<le> dict_get h s 0" and "0 < q"
  shows "holdings_mset (AList.update s (dict_get h s 0 + q) h) = holdings_mset h + replicate_mset (nat q) s"
  using assms by (intro holdings_mset_eqI) (auto simp add: count_holdings_mset nat_add_distrib)

lemma holdings_mset_sell:
  assumes "dict_distinct h" and "0 < q" and "q \<le> dict_get h s 0"
  shows "holdings_mset (sold_holdings h s q) = holdings_mset h - replicate_mset (nat q) s"
  using assms by (intro holdings_mset_eqI)
    (auto simp add: sold_holdings_def count_holdings_mset nat_diff_distrib)

section \<open>Refinement\<close>

lemma deposit_refines:
  "spec_deposit amount (abs_account a) =
     (if fst (deposit a amount) then Some (abs_account (snd (deposit a amount))) else None)"
  by (simp add: spec_deposit_def deposit_success_iff deposit_ok abs_account_def)

lemma withdraw_refines:
  "spec_withdraw amount (abs_account a) =
     (if fst (withdraw a amount) then Some (abs_account (snd (withdraw a amount))) else None)"
  by (simp add: spec_withdraw_def withdraw_success_iff withdraw_ok abs_account_def)

lemma buy_shares_refines:
  assumes inv: "account_inv a"
  shows "spec_buy p s q (abs_account a) =
     (if fst (buy_shares a s q p) then Some (abs_account (snd (buy_shares a s q p))) else None)"
proof (cases "fst (buy_shares a s q p)")
  case True
  then have q: "0 < q" by (simp add: buy_shares_success_iff)
  have dd: "dict_distinct (holdings a)" using inv by (simp add: account_inv_def)
  have "holdings_mset (AList.update s (dict_get (holdings a) s 0 + q) (holdings a)) =
        holdings_mset (holdings a) + replicate_mset (nat q) s"
    by (rule holdings_mset_buy [OF dd account_inv_get_nonneg [OF inv] q])
  with True show ?thesis
    by (simp add: spec_buy_def buy_shares_success_iff buy_shares_ok abs_account_def)
next
  case False
  then show ?thesis
    by (auto simp add: spec_buy_def buy_shares_success_iff abs_account_def)
qed

lemma sell_shares_refines:
  assumes inv: "account_inv a"
  shows "spec_sell p s q (abs_account a) =
     (if fst (sell_shares a s q p) then Some (abs_account (snd (sell_shares a s q p))) else None)"
proof -
  have dd: "dict_distinct (holdings a)" using inv by (simp add: account_inv_def)
  have cnt: "int (count (holdings_mset (holdings a)) s) = dict_get (holdings a) s 0"
    using dd account_inv_get_nonneg [OF inv] by (simp add: count_holdings_mset)
  show ?thesis
  proof (cases "fst (sell_shares a s q p)")
    case True
    then have q: "0 < q" "q \<le> dict_get (holdings a) s 0"
      by (simp_all add: sell_shares_success_iff)
    have "holdings_mset (sold_holdings (holdings a) s q) =
          holdings_mset (holdings a) - replicate_mset (nat q) s"
      by (rule holdings_mset_sell [OF dd q])
    with True cnt show ?thesis
      by (simp add: spec_sell_def sell_shares_success_iff sell_shares_ok abs_account_def)
  next
    case False
    with cnt show ?thesis
      by (auto simp add: spec_sell_def sell_shares_success_iff abs_account_def)
  qed
qed

lemma profit_refines:
  "account_inv a \<Longrightarrow> spec_profit p (abs_account a) = get_profit_or_loss a p"
  by (simp add: spec_profit_def spec_value_def abs_account_def get_profit_or_loss_def
      account_inv_def sum_holdings_mset)

text \<open>One call of the code against one abstract step, and a run of calls against the
  spec's sequential run.\<close>

lemma apply_op_spec_step:
  "account_inv a \<Longrightarrow>
     spec_step (abs_account a) op =
       (if fst (apply_op a op) then Some (abs_account (snd (apply_op a op))) else None)"
  by (cases op) (simp_all add: deposit_refines withdraw_refines buy_shares_refines
      sell_shares_refines)

lemma run_ops_refines_spec:
  "account_inv a \<Longrightarrow>
     spec_run (abs_account a) ops = (fst (run_ops a ops), abs_account (snd (run_ops a ops)))"
proof (induction ops arbitrary: a)
  case Nil
  then show ?case by simp
next
  case (Cons op ops)
  have IH: "spec_run (abs_account (snd (apply_op a op))) ops =
      (fst (run_ops (snd (apply_op a op)) ops), abs_account (snd (run_ops (snd (apply_op a op)) ops)))"
    using Cons.IH [OF apply_op_inv [OF Cons.prems]] .
  show ?case
  proof (cases "fst (apply_op a op)")
    case True
    then show ?thesis using apply_op_spec_step [OF Cons.prems, of op] IH by simp
  next
    case False
    then show ?thesis
      using apply_op_spec_step [OF Cons.prems, of op] IH apply_op_fail [OF False] by simp
  qed
qed

end
