(* ===== verification/Account_Mini.thy ===== *)
theory Account_Mini
  imports Prices
begin

text \<open>
  The mini ledger, \<open>src/3_crew/engineering_team/example_output_mini/accounts.py\<close>.
  It differs from the 4o variant in its error handling and baseline: \<open>withdraw\<close>,
  \<open>buy_shares\<close> and \<open>sell_shares\<close> raise \<open>ValueError\<close> with a message (modelled as
  \<open>Inl\<close> of the sum type \<open>py_exc + mini_account\<close>), \<open>deposit\<close> silently ignores a
  non-positive amount, the constructor keeps the initial deposit as given (also a
  negative one) and profit is measured against it, the price table is looked up
  without upper-casing, and a sale does not check the price. Transactions are dicts
  whose shape depends on their \<open>'type'\<close>, modelled as a datatype with one constructor
  per shape. The lemmas give each operation's result on every branch and the
  invariant of accounts opened with a non-negative deposit.
\<close>

datatype py_exc = ValueError string

text \<open>\<open>{'type': 'deposit', 'amount': a}\<close>, \<open>{'type': 'withdraw', 'amount': a}\<close>,
  \<open>{'type': 'buy'/'sell', 'symbol': s, 'quantity': q, 'price': p}\<close>.\<close>

datatype mini_txn =
    Mini_Deposit real
  | Mini_Withdraw real
  | Mini_Buy symbol int real
  | Mini_Sell symbol int real

record mini_account =
  mini_user_id :: string
  mini_initial_deposit :: real
  mini_balance :: real
  mini_holdings :: "int pydict"
  mini_transactions :: "mini_txn list"

definition mini_init :: "string \<Rightarrow> real \<Rightarrow> mini_account" where
  "mini_init user_id initial_deposit =
     \<lparr>mini_user_id = user_id, mini_initial_deposit = initial_deposit,
      mini_balance = initial_deposit, mini_holdings = [], mini_transactions = []\<rparr>"

text \<open>\<open>deposit\<close> returns \<open>None\<close>; a non-positive amount is ignored.\<close>

definition mini_deposit :: "mini_account \<Rightarrow> real \<Rightarrow> mini_account" where
  "mini_deposit a amount =
     (if amount > 0
      then a\<lparr>mini_balance := mini_balance a + amount,
             mini_transactions := mini_transactions a @ [Mini_Deposit amount]\<rparr>
      else a)"

definition mini_withdraw :: "mini_account \<Rightarrow> real \<Rightarrow> py_exc + mini_account" where
  "mini_withdraw a amount =
     (if amount \<le> 0 then Inl (ValueError ''Withdrawal amount must be positive'')
      else if amount > mini_balance a then Inl (ValueError ''Insufficient funds'')
      else Inr (a\<lparr>mini_balance := mini_balance a - amount,
                  mini_transactions := mini_transactions a @ [Mini_Withdraw amount]\<rparr>))"

definition mini_buy_shares :: "mini_account \<Rightarrow> symbol \<Rightarrow> int \<Rightarrow> py_exc + mini_account" where
  "mini_buy_shares a symbol quantity =
     (if quantity \<le> 0 then Inl (ValueError ''Quantity must be positive'')
      else let price = mini_get_share_price symbol in
        if price = 0 then Inl (ValueError (''Invalid stock symbol: '' @ symbol))
        else let total_cost = price * of_int quantity in
          if total_cost > mini_balance a then Inl (ValueError ''Insufficient funds to buy shares'')
          else Inr (a\<lparr>mini_balance := mini_balance a - total_cost,
                      mini_holdings := AList.update symbol
                        (dict_get (mini_holdings a) symbol 0 + quantity) (mini_holdings a),
                      mini_transactions := mini_transactions a @
                        [Mini_Buy symbol quantity price]\<rparr>))"

definition mini_sell_shares :: "mini_account \<Rightarrow> symbol \<Rightarrow> int \<Rightarrow> py_exc + mini_account" where
  "mini_sell_shares a symbol quantity =
     (if quantity \<le> 0 then Inl (ValueError ''Quantity must be positive'')
      else if dict_get (mini_holdings a) symbol 0 < quantity
      then Inl (ValueError (''Insufficient shares of '' @ symbol @ '' to sell''))
      else let price = mini_get_share_price symbol;
               total_revenue = price * of_int quantity;
               h = AList.update symbol (the (map_of (mini_holdings a) symbol) - quantity)
                     (mini_holdings a);
               h' = (if the (map_of h symbol) = 0 then AList.delete symbol h else h)
        in Inr (a\<lparr>mini_balance := mini_balance a + total_revenue, mini_holdings := h',
                   mini_transactions := mini_transactions a @ [Mini_Sell symbol quantity price]\<rparr>))"

text \<open>\<open>portfolio_value\<close>: the loop \<open>total_value += price * qty\<close> over the items.\<close>

definition mini_portfolio_value :: "mini_account \<Rightarrow> real" where
  "mini_portfolio_value a =
     foldl (\<lambda>total_value (symbol, qty). total_value + mini_get_share_price symbol * of_int qty)
       (mini_balance a) (mini_holdings a)"

definition mini_profit_or_loss :: "mini_account \<Rightarrow> real" where
  "mini_profit_or_loss a = mini_portfolio_value a - mini_initial_deposit a"

text \<open>Calls on a mini account, the way a caller makes them; an exception aborts the call
  and leaves the account as it was.\<close>

datatype mini_op =
    Mini_Op_Deposit real
  | Mini_Op_Withdraw real
  | Mini_Op_Buy symbol int
  | Mini_Op_Sell symbol int

fun mini_apply :: "mini_account \<Rightarrow> mini_op \<Rightarrow> py_exc + mini_account" where
  "mini_apply a (Mini_Op_Deposit x) = Inr (mini_deposit a x)"
| "mini_apply a (Mini_Op_Withdraw x) = mini_withdraw a x"
| "mini_apply a (Mini_Op_Buy s q) = mini_buy_shares a s q"
| "mini_apply a (Mini_Op_Sell s q) = mini_sell_shares a s q"

definition mini_after :: "mini_account \<Rightarrow> mini_op \<Rightarrow> mini_account" where
  "mini_after a op = (case mini_apply a op of Inl _ \<Rightarrow> a | Inr a' \<Rightarrow> a')"

inductive mini_reachable :: "mini_account \<Rightarrow> bool" where
  init: "mini_reachable (mini_init uid d)"
| step: "mini_reachable a \<Longrightarrow> mini_reachable (mini_after a op)"

definition mini_inv :: "mini_account \<Rightarrow> bool" where
  "mini_inv a \<longleftrightarrow>
     0 \<le> mini_balance a \<and> dict_distinct (mini_holdings a) \<and>
     dict_all_values (\<lambda>q. 0 < q) (mini_holdings a) \<and>
     dict_keys (mini_holdings a) \<subseteq> known_symbols"

section \<open>Behaviour of each operation\<close>

lemma mini_buy_shares_Inr:
  "mini_buy_shares a symbol quantity = Inr a' \<longleftrightarrow>
     0 < quantity \<and> symbol \<in> known_symbols \<and>
     mini_get_share_price symbol * of_int quantity \<le> mini_balance a \<and>
     a' = a\<lparr>mini_balance := mini_balance a - mini_get_share_price symbol * of_int quantity,
            mini_holdings := AList.update symbol
              (dict_get (mini_holdings a) symbol 0 + quantity) (mini_holdings a),
            mini_transactions := mini_transactions a @
              [Mini_Buy symbol quantity (mini_get_share_price symbol)]\<rparr>"
  using mini_get_share_price_pos_iff [of symbol] mini_get_share_price_nonneg [of symbol]
  by (auto simp add: mini_buy_shares_def Let_def)

lemma mini_sell_shares_Inr:
  "mini_sell_shares a symbol quantity = Inr a' \<longleftrightarrow>
     0 < quantity \<and> quantity \<le> dict_get (mini_holdings a) symbol 0 \<and>
     a' = a\<lparr>mini_balance := mini_balance a + mini_get_share_price symbol * of_int quantity,
            mini_holdings := (if dict_get (mini_holdings a) symbol 0 = quantity
                              then AList.delete symbol (mini_holdings a)
                              else AList.update symbol (dict_get (mini_holdings a) symbol 0 - quantity)
                                     (mini_holdings a)),
            mini_transactions := mini_transactions a @
              [Mini_Sell symbol quantity (mini_get_share_price symbol)]\<rparr>"
proof (cases "0 < quantity \<and> quantity \<le> dict_get (mini_holdings a) symbol 0")
  case True
  then have "the (map_of (mini_holdings a) symbol) = dict_get (mini_holdings a) symbol 0"
    using dict_get_pos_present [of quantity "mini_holdings a" symbol] by simp
  with True show ?thesis
    by (auto simp add: mini_sell_shares_def Let_def update_conv' delete_update_same)
next
  case False
  then show ?thesis by (auto simp add: mini_sell_shares_def Let_def)
qed

lemma mini_apply_Inl: "mini_apply a op = Inl e \<Longrightarrow> mini_after a op = a"
  by (simp add: mini_after_def)

section \<open>The invariant of accounts opened with a non-negative deposit\<close>

lemma mini_init_inv: "0 \<le> d \<Longrightarrow> mini_inv (mini_init uid d)"
  by (simp add: mini_inv_def mini_init_def dict_distinct_def dict_keys_def)

lemma mini_deposit_inv: "mini_inv a \<Longrightarrow> mini_inv (mini_deposit a x)"
  by (simp add: mini_inv_def mini_deposit_def)

lemma mini_withdraw_inv: "mini_inv a \<Longrightarrow> mini_withdraw a x = Inr a' \<Longrightarrow> mini_inv a'"
  by (auto simp add: mini_inv_def mini_withdraw_def split: if_splits)

lemma mini_get_nonneg: "mini_inv a \<Longrightarrow> 0 \<le> dict_get (mini_holdings a) s 0"
  using dict_all_values_get [of "\<lambda>q. 0 < q" "mini_holdings a" s]
  by (fastforce simp add: mini_inv_def dict_get_def split: option.splits)

lemma mini_buy_shares_inv: "mini_inv a \<Longrightarrow> mini_buy_shares a s q = Inr a' \<Longrightarrow> mini_inv a'"
  using mini_get_nonneg [of a s]
  by (auto simp add: mini_buy_shares_Inr mini_inv_def intro!: dict_all_values_update)

lemma mini_sell_shares_inv: "mini_inv a \<Longrightarrow> mini_sell_shares a s q = Inr a' \<Longrightarrow> mini_inv a'"
  using mini_get_share_price_nonneg [of s] dict_get_pos_key [of q "mini_holdings a" s]
  by (auto simp add: mini_sell_shares_Inr mini_inv_def intro!: dict_all_values_update)

lemma mini_after_inv: "mini_inv a \<Longrightarrow> mini_inv (mini_after a op)"
  by (cases op) (auto simp add: mini_after_def mini_deposit_inv split: sum.splits
      dest: mini_withdraw_inv mini_buy_shares_inv mini_sell_shares_inv)

lemma mini_initial_deposit_after [simp]:
  "mini_initial_deposit (mini_after a op) = mini_initial_deposit a"
  by (cases op) (auto simp add: mini_after_def mini_deposit_def mini_withdraw_def
      mini_buy_shares_def mini_sell_shares_def Let_def split: sum.splits if_splits)

text \<open>Whatever the opening deposit, only symbols of the table are ever held.\<close>

definition mini_keys_known :: "mini_account \<Rightarrow> bool" where
  "mini_keys_known a \<longleftrightarrow> dict_keys (mini_holdings a) \<subseteq> known_symbols"

lemma mini_keys_known_after: "mini_keys_known a \<Longrightarrow> mini_keys_known (mini_after a op)"
  using dict_get_pos_key [of _ "mini_holdings a"]
  by (cases op) (auto simp add: mini_keys_known_def mini_after_def mini_deposit_def
      mini_withdraw_def mini_buy_shares_Inr mini_sell_shares_Inr split: sum.splits if_splits)

lemma mini_reachable_keys_known: "mini_reachable a \<Longrightarrow> mini_keys_known a"
  by (induction rule: mini_reachable.induct)
    (simp_all add: mini_keys_known_after, simp add: mini_keys_known_def mini_init_def dict_keys_def)

lemma mini_reachable_inv_aux:
  "mini_reachable a \<Longrightarrow> 0 \<le> mini_initial_deposit a \<Longrightarrow> mini_inv a"
proof (induction rule: mini_reachable.induct)
  case (init uid d)
  then have "0 \<le> d" by (simp add: mini_init_def)
  then show ?case by (rule mini_init_inv)
next
  case (step a op)
  then show ?case by (simp add: mini_after_inv)
qed

section \<open>Valuation\<close>

lemma foldl_value_shift:
  "foldl (\<lambda>t (s, q). t + f s q) x h = x + dict_sum f h"
  by (induction h arbitrary: x) (auto simp add: algebra_simps)

end
