(* ===== verification/Account_New.thy ===== *)
theory Account_New
  imports Prices
begin

text \<open>
  The new ledger, \<open>src/3_crew/engineering_team/example_output_new/accounts.py\<close>.
  Methods return a boolean (\<open>deposit_funds\<close> returns \<open>None\<close>); the constructor keeps
  the initial deposit as given and profit is measured against it; the price table is
  looked up with the symbol upper-cased, but the holdings dict is keyed by the symbol
  as passed; \<open>buy_shares\<close> looks the price up before checking the quantity and
  \<open>sell_shares\<close> does not check the price at all. Transactions are dicts whose shape
  depends on their \<open>'type'\<close> (\<open>'withdrawal'\<close> here, not \<open>'withdraw'\<close>), modelled as
  a datatype; \<open>get_report\<close> returns a dict with fixed keys, modelled as a record.
\<close>

text \<open>\<open>{'type': 'deposit'/'withdrawal', 'amount': a}\<close> and
  \<open>{'type': 'buy'/'sell', 'symbol', 'quantity', 'price', 'total'}\<close>.\<close>

datatype new_txn =
    New_Deposit real
  | New_Withdrawal real
  | New_Buy symbol int real real
  | New_Sell symbol int real real

record new_account =
  new_user_id :: string
  new_initial_deposit :: real
  new_balance :: real
  new_holdings :: "int pydict"
  new_transactions :: "new_txn list"

record new_report =
  report_user_id :: string
  report_balance :: real
  report_portfolio_value :: real
  report_profit_or_loss :: real
  report_holdings :: "int pydict"

definition new_init :: "string \<Rightarrow> real \<Rightarrow> new_account" where
  "new_init user_id initial_deposit =
     \<lparr>new_user_id = user_id, new_initial_deposit = initial_deposit,
      new_balance = initial_deposit, new_holdings = [], new_transactions = []\<rparr>"

definition new_deposit_funds :: "new_account \<Rightarrow> real \<Rightarrow> new_account" where
  "new_deposit_funds a amount =
     (if amount > 0
      then a\<lparr>new_balance := new_balance a + amount,
             new_transactions := new_transactions a @ [New_Deposit amount]\<rparr>
      else a)"

definition new_withdraw_funds :: "new_account \<Rightarrow> real \<Rightarrow> bool \<times> new_account" where
  "new_withdraw_funds a amount =
     (if 0 < amount \<and> amount \<le> new_balance a
      then (True, a\<lparr>new_balance := new_balance a - amount,
                    new_transactions := new_transactions a @ [New_Withdrawal amount]\<rparr>)
      else (False, a))"

definition new_buy_shares :: "new_account \<Rightarrow> symbol \<Rightarrow> int \<Rightarrow> bool \<times> new_account" where
  "new_buy_shares a symbol quantity =
     (let price = new_get_share_price symbol in
      if price = 0 then (False, a)
      else let total_cost = price * of_int quantity in
        if quantity > 0 \<and> total_cost \<le> new_balance a
        then (True, a\<lparr>new_balance := new_balance a - total_cost,
                      new_holdings := AList.update symbol
                        (dict_get (new_holdings a) symbol 0 + quantity) (new_holdings a),
                      new_transactions := new_transactions a @
                        [New_Buy symbol quantity price total_cost]\<rparr>)
        else (False, a))"

definition new_sell_shares :: "new_account \<Rightarrow> symbol \<Rightarrow> int \<Rightarrow> bool \<times> new_account" where
  "new_sell_shares a symbol quantity =
     (if quantity > 0 \<and> dict_get (new_holdings a) symbol 0 \<ge> quantity
      then let price = new_get_share_price symbol;
               total_revenue = price * of_int quantity;
               h = AList.update symbol (the (map_of (new_holdings a) symbol) - quantity)
                     (new_holdings a);
               h' = (if the (map_of h symbol) = 0 then AList.delete symbol h else h)
        in (True, a\<lparr>new_balance := new_balance a + total_revenue, new_holdings := h',
                     new_transactions := new_transactions a @
                       [New_Sell symbol quantity price total_revenue]\<rparr>)
      else (False, a))"

definition new_calculate_portfolio_value :: "new_account \<Rightarrow> real" where
  "new_calculate_portfolio_value a =
     foldl (\<lambda>total_value (symbol, qty). total_value + new_get_share_price symbol * of_int qty)
       (new_balance a) (new_holdings a)"

definition new_calculate_profit_or_loss :: "new_account \<Rightarrow> real" where
  "new_calculate_profit_or_loss a = new_calculate_portfolio_value a - new_initial_deposit a"

definition new_get_holdings :: "new_account \<Rightarrow> int pydict" where
  "new_get_holdings a = new_holdings a"

definition new_get_transactions :: "new_account \<Rightarrow> new_txn list" where
  "new_get_transactions a = new_transactions a"

definition new_get_report :: "new_account \<Rightarrow> new_report" where
  "new_get_report a =
     \<lparr>report_user_id = new_user_id a, report_balance = new_balance a,
      report_portfolio_value = new_calculate_portfolio_value a,
      report_profit_or_loss = new_calculate_profit_or_loss a,
      report_holdings = new_get_holdings a\<rparr>"

text \<open>Calls on a new account and the accounts they reach. \<open>deposit_funds\<close> returns \<open>None\<close>;
  its flag here records whether the call took effect (a positive amount).\<close>

datatype new_op =
    New_Op_Deposit real
  | New_Op_Withdraw real
  | New_Op_Buy symbol int
  | New_Op_Sell symbol int

fun new_apply :: "new_account \<Rightarrow> new_op \<Rightarrow> bool \<times> new_account" where
  "new_apply a (New_Op_Deposit x) = (x > 0, new_deposit_funds a x)"
| "new_apply a (New_Op_Withdraw x) = new_withdraw_funds a x"
| "new_apply a (New_Op_Buy s q) = new_buy_shares a s q"
| "new_apply a (New_Op_Sell s q) = new_sell_shares a s q"

inductive new_reachable :: "new_account \<Rightarrow> bool" where
  init: "new_reachable (new_init uid d)"
| step: "new_reachable a \<Longrightarrow> new_reachable (snd (new_apply a op))"

text \<open>What every reachable account keeps: each held symbol has a positive price, counts
  are positive, keys distinct; the initial deposit never changes.\<close>

definition new_holdings_inv :: "new_account \<Rightarrow> bool" where
  "new_holdings_inv a \<longleftrightarrow>
     dict_distinct (new_holdings a) \<and> dict_all_values (\<lambda>q. 0 < q) (new_holdings a) \<and>
     (\<forall>s \<in> dict_keys (new_holdings a). 0 < new_get_share_price s)"

section \<open>Behaviour of each operation\<close>

lemma new_buy_shares_success_iff:
  "fst (new_buy_shares a symbol quantity) \<longleftrightarrow>
     0 < new_get_share_price symbol \<and> 0 < quantity \<and>
     new_get_share_price symbol * of_int quantity \<le> new_balance a"
  using new_get_share_price_nonneg [of symbol]
  by (auto simp add: new_buy_shares_def Let_def)

lemma new_sell_shares_success_iff:
  "fst (new_sell_shares a symbol quantity) \<longleftrightarrow>
     0 < quantity \<and> quantity \<le> dict_get (new_holdings a) symbol 0"
  by (simp add: new_sell_shares_def Let_def)

lemma new_fail:
  "\<not> fst (new_apply a op) \<Longrightarrow> snd (new_apply a op) = a"
  by (cases op) (auto simp add: new_deposit_funds_def new_withdraw_funds_def new_buy_shares_def
      new_sell_shares_def Let_def split: if_splits)

lemma new_buy_shares_ok:
  "fst (new_buy_shares a symbol quantity) \<Longrightarrow>
     snd (new_buy_shares a symbol quantity) =
       a\<lparr>new_balance := new_balance a - new_get_share_price symbol * of_int quantity,
         new_holdings := AList.update symbol (dict_get (new_holdings a) symbol 0 + quantity)
                           (new_holdings a),
         new_transactions := new_transactions a @ [New_Buy symbol quantity
            (new_get_share_price symbol) (new_get_share_price symbol * of_int quantity)]\<rparr>"
  by (auto simp add: new_buy_shares_def Let_def split: if_splits)

lemma new_sell_shares_ok:
  "fst (new_sell_shares a symbol quantity) \<Longrightarrow>
     snd (new_sell_shares a symbol quantity) =
       a\<lparr>new_balance := new_balance a + new_get_share_price symbol * of_int quantity,
         new_holdings := (if dict_get (new_holdings a) symbol 0 = quantity
                          then AList.delete symbol (new_holdings a)
                          else AList.update symbol (dict_get (new_holdings a) symbol 0 - quantity)
                                 (new_holdings a)),
         new_transactions := new_transactions a @ [New_Sell symbol quantity
            (new_get_share_price symbol) (new_get_share_price symbol * of_int quantity)]\<rparr>"
proof -
  assume ok: "fst (new_sell_shares a symbol quantity)"
  then have q: "0 < quantity" "quantity \<le> dict_get (new_holdings a) symbol 0"
    by (simp_all add: new_sell_shares_success_iff)
  then have "the (map_of (new_holdings a) symbol) = dict_get (new_holdings a) symbol 0"
    using dict_get_pos_present [OF q] by simp
  with q show ?thesis
    by (auto simp add: new_sell_shares_def Let_def update_conv' delete_update_same)
qed

lemma new_initial_deposit_const [simp]:
  "new_initial_deposit (snd (new_apply a op)) = new_initial_deposit a"
  by (cases op) (simp_all add: new_deposit_funds_def new_withdraw_funds_def new_buy_shares_def
      new_sell_shares_def Let_def)

section \<open>The invariant\<close>

lemma new_holdings_inv_step:
  "new_holdings_inv a \<Longrightarrow> new_holdings_inv (snd (new_apply a op))"
proof (cases "fst (new_apply a op)")
  case True
  assume inv: "new_holdings_inv a"
  show ?thesis
  proof (cases op)
    case (New_Op_Buy s q)
    with True have "0 < new_get_share_price s" "0 < q"
      by (simp_all add: new_buy_shares_success_iff)
    moreover have "0 \<le> dict_get (new_holdings a) s 0"
      using inv dict_all_values_get [of "\<lambda>q. 0 < q" "new_holdings a" s]
      by (fastforce simp add: new_holdings_inv_def dict_get_def split: option.splits)
    ultimately show ?thesis
      using inv True New_Op_Buy
      by (auto simp add: new_holdings_inv_def new_buy_shares_ok intro!: dict_all_values_update)
  next
    case (New_Op_Sell s q)
    with True have "0 < q" "q \<le> dict_get (new_holdings a) s 0"
      by (simp_all add: new_sell_shares_success_iff)
    then show ?thesis
      using inv True New_Op_Sell dict_get_pos_key [of q "new_holdings a" s]
      by (auto simp add: new_holdings_inv_def new_sell_shares_ok intro!: dict_all_values_update)
  qed (use inv in \<open>simp_all add: new_holdings_inv_def new_deposit_funds_def
      new_withdraw_funds_def\<close>)
next
  case False
  then show "new_holdings_inv a \<Longrightarrow> ?thesis" by (simp add: new_fail)
qed

lemma new_reachable_holdings_inv: "new_reachable a \<Longrightarrow> new_holdings_inv a"
proof (induction rule: new_reachable.induct)
  case (init uid d)
  show ?case by (simp add: new_init_def new_holdings_inv_def dict_distinct_def dict_keys_def)
next
  case (step a op)
  from step.IH show ?case by (rule new_holdings_inv_step)
qed

lemma new_balance_step:
  assumes "0 \<le> new_balance a"
  shows "0 \<le> new_balance (snd (new_apply a op))"
proof (cases "fst (new_apply a op)")
  case True
  show ?thesis
  proof (cases op)
    case (New_Op_Buy s q)
    with True assms show ?thesis
      by (simp add: new_buy_shares_ok new_buy_shares_success_iff)
  next
    case (New_Op_Sell s q)
    with True assms new_get_share_price_nonneg [of s] show ?thesis
      by (simp add: new_sell_shares_ok new_sell_shares_success_iff)
  qed (use assms in \<open>simp_all add: new_deposit_funds_def new_withdraw_funds_def\<close>)
next
  case False
  with assms show ?thesis by (simp add: new_fail)
qed

end
