(* ===== verification/Variants.thy ===== *)
theory Variants
  imports Account_Runs Account_Mini Account_New
begin

text \<open>
  The three ledgers side by side. Driven with the default oracle and started from
  states that agree on cash and holdings, the new variant takes the same trading
  decisions as the 4o variant, and the mini variant raises \<open>ValueError\<close> exactly where
  the 4o variant returns \<open>False\<close> (for symbols written in upper case; the mini price
  table is case-sensitive). \<open>mini_as_4o\<close> and \<open>new_as_4o\<close> translate a call on one
  variant into the same call on the 4o variant.
\<close>

fun mini_as_4o :: "mini_op \<Rightarrow> account_op" where
  "mini_as_4o (Mini_Op_Deposit x) = Deposit x"
| "mini_as_4o (Mini_Op_Withdraw x) = Withdraw x"
| "mini_as_4o (Mini_Op_Buy s q) = Buy s q get_share_price"
| "mini_as_4o (Mini_Op_Sell s q) = Sell s q get_share_price"

fun new_as_4o :: "new_op \<Rightarrow> account_op" where
  "new_as_4o (New_Op_Deposit x) = Deposit x"
| "new_as_4o (New_Op_Withdraw x) = Withdraw x"
| "new_as_4o (New_Op_Buy s q) = Buy s q get_share_price"
| "new_as_4o (New_Op_Sell s q) = Sell s q get_share_price"

fun mini_op_upper :: "mini_op \<Rightarrow> bool" where
  "mini_op_upper (Mini_Op_Buy s q) = (py_upper s = s)"
| "mini_op_upper (Mini_Op_Sell s q) = (py_upper s = s)"
| "mini_op_upper _ = True"

section \<open>New against 4o\<close>

lemma new_buy_as_4o:
  "new_balance n = balance a \<Longrightarrow> new_holdings n = holdings a \<Longrightarrow>
     fst (new_buy_shares n s q) = fst (buy_shares a s q get_share_price) \<and>
     new_balance (snd (new_buy_shares n s q)) = balance (snd (buy_shares a s q get_share_price)) \<and>
     new_holdings (snd (new_buy_shares n s q)) = holdings (snd (buy_shares a s q get_share_price))"
  using get_share_price_nonneg [of s]
  by (cases "fst (buy_shares a s q get_share_price)")
    (auto simp add: new_buy_shares_success_iff buy_shares_success_iff new_get_share_price_eq
      new_buy_shares_ok buy_shares_ok buy_shares_fail new_fail [of n "New_Op_Buy s q", simplified])

lemma new_sell_as_4o:
  "new_holdings_inv n \<Longrightarrow> new_balance n = balance a \<Longrightarrow> new_holdings n = holdings a \<Longrightarrow>
     fst (new_sell_shares n s q) = fst (sell_shares a s q get_share_price) \<and>
     new_balance (snd (new_sell_shares n s q)) = balance (snd (sell_shares a s q get_share_price)) \<and>
     new_holdings (snd (new_sell_shares n s q)) = holdings (snd (sell_shares a s q get_share_price))"
  using dict_get_pos_key [of q "new_holdings n" s]
  by (cases "fst (new_sell_shares n s q)")
    (auto simp add: new_holdings_inv_def new_sell_shares_success_iff sell_shares_success_iff
      new_get_share_price_eq new_sell_shares_ok sell_shares_ok sold_holdings_def sell_shares_fail
      new_fail [of n "New_Op_Sell s q", simplified])

section \<open>Mini against 4o\<close>

lemma mini_buy_as_4o:
  "py_upper s = s \<Longrightarrow> mini_balance m = balance a \<Longrightarrow> mini_holdings m = holdings a \<Longrightarrow>
     isl (mini_buy_shares m s q) = (\<not> fst (buy_shares a s q get_share_price)) \<and>
     (\<forall>m'. mini_buy_shares m s q = Inr m' \<longrightarrow>
        mini_balance m' = balance (snd (buy_shares a s q get_share_price)) \<and>
        mini_holdings m' = holdings (snd (buy_shares a s q get_share_price)))"
  using mini_get_share_price_upper_eq [of s] mini_get_share_price_pos_iff [of s]
  by (cases "mini_buy_shares m s q")
    (auto simp add: mini_buy_shares_Inr buy_shares_success_iff buy_shares_ok,
     auto simp add: mini_buy_shares_def buy_shares_success_iff Let_def split: if_splits)

lemma mini_sell_as_4o:
  "mini_keys_known m \<Longrightarrow> py_upper s = s \<Longrightarrow> mini_balance m = balance a \<Longrightarrow>
     mini_holdings m = holdings a \<Longrightarrow>
     isl (mini_sell_shares m s q) = (\<not> fst (sell_shares a s q get_share_price)) \<and>
     (\<forall>m'. mini_sell_shares m s q = Inr m' \<longrightarrow>
        mini_balance m' = balance (snd (sell_shares a s q get_share_price)) \<and>
        mini_holdings m' = holdings (snd (sell_shares a s q get_share_price)))"
  using mini_get_share_price_upper_eq [of s] mini_get_share_price_pos_iff [of s]
    dict_get_pos_key [of q "mini_holdings m" s]
  by (cases "mini_sell_shares m s q")
    (auto simp add: mini_keys_known_def mini_sell_shares_Inr sell_shares_success_iff
      sell_shares_ok sold_holdings_def,
     auto simp add: mini_sell_shares_def sell_shares_success_iff Let_def split: if_splits)

end
