(* ===== verification/Reports.thy ===== *)
theory Reports
  imports Account_Mini
begin

text \<open>
  The string reports of the mini ledger: \<open>report_holdings\<close> and \<open>report_transactions\<close>
  of \<open>example_output_mini/accounts.py\<close>, with the pieces of Python's string formatting
  they use: \<open>str\<close> of an int (\<open>f"{qty}"\<close>), \<open>f"{x:.2f}"\<close> of a float and
  \<open>", ".join\<close>. The float is the exact real of the model; \<open>.2f\<close> rounds it to a whole
  number of cents, ties to even, as Python rounds the exact value it formats. A parser
  for the printed numbers gives the round trips.
\<close>

section \<open>Printing numbers\<close>

fun nat_digits :: "nat \<Rightarrow> string" where
  "nat_digits n =
     (if n < 10 then [char_of (48 + n)] else nat_digits (n div 10) @ [char_of (48 + n mod 10)])"

definition py_str_int :: "int \<Rightarrow> string" where
  "py_str_int i = (if i < 0 then CHR ''-'' # nat_digits (nat (- i)) else nat_digits (nat i))"

definition round_half_even :: "real \<Rightarrow> int" where
  "round_half_even r =
     (let f = \<lfloor>r\<rfloor>; d = r - of_int f in
      if d > 1 / 2 then f + 1 else if d < 1 / 2 then f else if even f then f else f + 1)"

definition two_digits :: "nat \<Rightarrow> string" where
  "two_digits n = [char_of (48 + n div 10), char_of (48 + n mod 10)]"

definition fmt_2f :: "real \<Rightarrow> string" where
  "fmt_2f x =
     (let n = nat (round_half_even (\<bar>x\<bar> * 100)) in
      (if x < 0 then ''-'' else []) @ nat_digits (n div 100) @ ''.'' @ two_digits (n mod 100))"

fun py_join :: "string \<Rightarrow> string list \<Rightarrow> string" where
  "py_join sep [] = []"
| "py_join sep [x] = x"
| "py_join sep (x # xs) = x @ sep @ py_join sep xs"

section \<open>The reports\<close>

definition mini_report_holdings :: "mini_account \<Rightarrow> string" where
  "mini_report_holdings a =
     (if mini_holdings a = [] then ''No holdings''
      else py_join '', ''
        (map (\<lambda>(symbol, qty). symbol @ '': '' @ py_str_int qty @ '' shares @ $'' @
                fmt_2f (mini_get_share_price symbol) @ '' each'') (mini_holdings a)))"

fun mini_txn_line :: "mini_txn \<Rightarrow> string" where
  "mini_txn_line (Mini_Deposit amount) = ''Deposit: $'' @ fmt_2f amount"
| "mini_txn_line (Mini_Withdraw amount) = ''Withdraw: $'' @ fmt_2f amount"
| "mini_txn_line (Mini_Buy symbol quantity price) =
     ''Buy: '' @ py_str_int quantity @ '' shares of '' @ symbol @ '' @ $'' @ fmt_2f price"
| "mini_txn_line (Mini_Sell symbol quantity price) =
     ''Sell: '' @ py_str_int quantity @ '' shares of '' @ symbol @ '' @ $'' @ fmt_2f price"

definition mini_report_transactions :: "mini_account \<Rightarrow> string list" where
  "mini_report_transactions a = map mini_txn_line (mini_transactions a)"

section \<open>Parsing numbers back\<close>

definition digit_val :: "char \<Rightarrow> nat option" where
  "digit_val c = (let d = (of_char c :: nat) in if 48 \<le> d \<and> d \<le> 57 then Some (d - 48) else None)"

fun parse_digits :: "nat \<Rightarrow> string \<Rightarrow> nat option" where
  "parse_digits acc [] = Some acc"
| "parse_digits acc (c # cs) =
     (case digit_val c of None \<Rightarrow> None | Some d \<Rightarrow> parse_digits (10 * acc + d) cs)"

definition parse_nat :: "string \<Rightarrow> nat option" where
  "parse_nat s = (if s = [] then None else parse_digits 0 s)"

definition parse_2f :: "string \<Rightarrow> real option" where
  "parse_2f s =
     (case dropWhile (\<lambda>c. c \<noteq> CHR ''.'') s of
        [] \<Rightarrow> None
      | _ # fp \<Rightarrow>
          (if length fp = 2 then
             (case (parse_nat (takeWhile (\<lambda>c. c \<noteq> CHR ''.'') s), parse_nat fp) of
                (Some i, Some f) \<Rightarrow> Some (of_nat i + of_nat f / 100)
              | _ \<Rightarrow> None)
           else None))"

definition parse_int :: "string \<Rightarrow> int option" where
  "parse_int s =
     (case s of
        c # ds \<Rightarrow> if c = CHR ''-'' then map_option (\<lambda>n. - int n) (parse_nat ds)
                  else map_option int (parse_nat s)
      | [] \<Rightarrow> None)"

declare nat_digits.simps [simp del]

section \<open>Lemmas\<close>

text \<open>What \<open>simp\<close> needs to print a concrete number.\<close>

lemmas fmt_eval = fmt_2f_def round_half_even_def two_digits_def nat_digits.simps py_str_int_def
  char_of_eq_iff Let_def

lemma digit_val_digit [simp]: "d < 10 \<Longrightarrow> digit_val (char_of (48 + d)) = Some d"
  by (simp add: digit_val_def)

lemma digit_val_dot [simp]: "digit_val CHR ''.'' = None"
  by (simp add: digit_val_def)

lemma parse_digits_append:
  "parse_digits acc (xs @ ys) = (case parse_digits acc xs of None \<Rightarrow> None | Some a \<Rightarrow> parse_digits a ys)"
  by (induction acc xs rule: parse_digits.induct) (simp_all split: option.splits)

lemma nat_digits_nonempty [simp]: "nat_digits n \<noteq> []"
  by (subst nat_digits.simps) simp

lemma parse_digits_nat_digits:
  "parse_digits acc (nat_digits n) = Some (acc * 10 ^ length (nat_digits n) + n)"
proof (induction n arbitrary: acc rule: nat_digits.induct)
  case (1 n)
  show ?case
  proof (cases "n < 10")
    case True
    then show ?thesis by (subst (1 2) nat_digits.simps) simp
  next
    case False
    have "parse_digits acc (nat_digits n) =
          parse_digits (acc * 10 ^ length (nat_digits (n div 10)) + n div 10) [char_of (48 + n mod 10)]"
      using False "1.IH" by (subst nat_digits.simps) (simp add: parse_digits_append)
    also have "\<dots> = Some (acc * 10 ^ length (nat_digits n) + n)"
      using False by (subst (2) nat_digits.simps) (simp add: algebra_simps)
    finally show ?thesis .
  qed
qed

lemma parse_nat_nat_digits: "parse_nat (nat_digits n) = Some n"
  by (simp add: parse_nat_def parse_digits_nat_digits)

lemma nat_digits_digits: "c \<in> set (nat_digits n) \<Longrightarrow> digit_val c \<noteq> None"
proof (induction n rule: nat_digits.induct)
  case (1 n)
  then show ?case
    by (subst (asm) nat_digits.simps) (auto split: if_splits)
qed

lemma nat_digits_no_dot: "CHR ''.'' \<notin> set (nat_digits n)"
  using nat_digits_digits [of "CHR ''.''" n] by auto

lemma round_half_even_of_nat [simp]: "round_half_even (of_nat c) = int c"
  by (simp add: round_half_even_def)

lemma length_two_digits [simp]: "length (two_digits n) = 2"
  by (simp add: two_digits_def)

lemma parse_nat_two_digits: "n < 100 \<Longrightarrow> parse_nat (two_digits n) = Some n"
  by (simp add: two_digits_def parse_nat_def)

lemma cents_split: "of_nat (c div 100) + of_nat (c mod 100) / 100 = (of_nat c / 100 :: real)"
proof -
  have "real c = real (c div 100) * 100 + real (c mod 100)"
    by (metis of_nat_add of_nat_mult div_mult_mod_eq of_nat_numeral)
  then show ?thesis by (simp add: field_simps)
qed

lemma dropWhile_nat_digits:
  "dropWhile (\<lambda>c. c \<noteq> CHR ''.'') (nat_digits n @ CHR ''.'' # xs) = CHR ''.'' # xs"
  using nat_digits_no_dot [of n] by (subst dropWhile_append2) auto

lemma takeWhile_nat_digits:
  "takeWhile (\<lambda>c. c \<noteq> CHR ''.'') (nat_digits n @ CHR ''.'' # xs) = nat_digits n"
  using nat_digits_no_dot [of n] by (subst takeWhile_append2) auto

lemma nat_digits_hd_not_minus: "nat_digits n = c # cs \<Longrightarrow> c \<noteq> CHR ''-''"
proof
  assume "nat_digits n = c # cs" and "c = CHR ''-''"
  then have "digit_val CHR ''-'' \<noteq> None" using nat_digits_digits [of c n] by simp
  then show False by (simp add: digit_val_def)
qed

lemma parse_int_py_str_int: "parse_int (py_str_int i) = Some i"
proof (cases "i < 0")
  case True
  then show ?thesis by (simp add: py_str_int_def parse_int_def parse_nat_nat_digits)
next
  case False
  obtain c cs where cs: "nat_digits (nat i) = c # cs"
    using nat_digits_nonempty [of "nat i"] by (cases "nat_digits (nat i)") auto
  then have "c \<noteq> CHR ''-''" by (rule nat_digits_hd_not_minus)
  with False cs show ?thesis
    using parse_nat_nat_digits [of "nat i"] by (simp add: py_str_int_def parse_int_def)
qed

lemma parse_2f_cents:
  "parse_2f (nat_digits (c div 100) @ CHR ''.'' # two_digits (c mod 100)) = Some (of_nat c / 100)"
  by (simp add: parse_2f_def dropWhile_nat_digits takeWhile_nat_digits parse_nat_nat_digits
      parse_nat_two_digits cents_split)

lemma round_half_even_bound: "\<bar>of_int (round_half_even r) - r\<bar> \<le> 1 / 2"
  using of_int_floor_le [of r] real_of_int_floor_add_one_gt [of r]
  by (auto simp add: round_half_even_def Let_def)

lemma round_half_even_nonneg: "0 \<le> r \<Longrightarrow> 0 \<le> round_half_even r"
  by (auto simp add: round_half_even_def Let_def)

lemma fmt_2f_nonneg:
  "0 \<le> x \<Longrightarrow> fmt_2f x =
     (let n = nat (round_half_even (x * 100)) in nat_digits (n div 100) @ ''.'' @ two_digits (n mod 100))"
  by (simp add: fmt_2f_def)

lemma py_str_int_no_space: "CHR '' '' \<notin> set (py_str_int i)"
  using nat_digits_digits [of "CHR '' ''"] by (auto simp add: py_str_int_def digit_val_def)

lemma fmt_2f_amount_bound:
  assumes "0 \<le> x"
  shows "\<exists>y. parse_2f (fmt_2f x) = Some y \<and> \<bar>y - x\<bar> \<le> 1 / 200"
proof -
  let ?n = "nat (round_half_even (x * 100))"
  have r: "of_nat ?n = (of_int (round_half_even (x * 100)) :: real)"
    using round_half_even_nonneg [of "x * 100"] assms by simp
  have "parse_2f (fmt_2f x) = Some (of_nat ?n / 100)"
    using assms by (simp add: fmt_2f_nonneg parse_2f_cents Let_def)
  moreover have "\<bar>of_nat ?n / 100 - x\<bar> \<le> 1 / 200"
    using round_half_even_bound [of "x * 100"] r by (simp add: abs_le_iff field_simps)
  ultimately show ?thesis by blast
qed

end
