(* ===== verification/Liquidation.thy ===== *)
theory Liquidation
  imports Account_Runs
begin

text \<open>
  Closing out a 4o account, the way a caller of \<open>Account\<close> does it: sell every holding
  at an oracle, then withdraw the cash. \<open>liquidate_ops\<close> is the list of \<open>sell_shares\<close>
  calls, one per item of \<open>get_holdings()\<close>; \<open>liquidate_loop\<close> is the loop
  \<open>while acct.get_holdings(): s, q = next(iter(acct.get_holdings().items()));
  acct.sell_shares(s, q, p)\<close>, which spins forever when a sale fails, so it is a
  \<open>partial_function (option)\<close> whose \<open>None\<close> is "does not return". The lemmas show
  that on a well-formed account every sale of a whole holding at a positive price
  succeeds and removes that holding, that the loop returns exactly when the oracle prices
  every held symbol, and that it then ends where the list of sales ends: all cash, the
  quoted value of the holdings realised.
\<close>

definition liquidate_ops :: "int pydict \<Rightarrow> price_lookup \<Rightarrow> account_op list" where
  "liquidate_ops h p = map (\<lambda>(s, q). Sell s q p) h"

partial_function (option) liquidate_loop :: "price_lookup \<Rightarrow> account \<Rightarrow> account option" where
  "liquidate_loop p a =
     (case holdings a of
        [] \<Rightarrow> Some a
      | (s, q) # _ \<Rightarrow> liquidate_loop p (snd (sell_shares a s q p)))"

definition all_priced :: "price_lookup \<Rightarrow> account \<Rightarrow> bool" where
  "all_priced p a \<longleftrightarrow> (\<forall>s \<in> dict_keys (holdings a). 0 < p s)"

text \<open>The quoted value of the holdings, the sum \<open>get_profit_or_loss\<close> computes.\<close>

definition holdings_value :: "price_lookup \<Rightarrow> int pydict \<Rightarrow> real" where
  "holdings_value p h = dict_sum (\<lambda>s q. p s * of_int q) h"

section \<open>Selling the first holding\<close>

lemma sell_first_holding:
  assumes inv: "account_inv a" and h: "holdings a = (s, q) # h'" and pos: "0 < p s"
  shows "fst (sell_shares a s q p) \<and> holdings (snd (sell_shares a s q p)) = h' \<and>
         balance (snd (sell_shares a s q p)) = balance a + p s * of_int q \<and>
         net_deposits (snd (sell_shares a s q p)) = net_deposits a"
proof -
  have "s \<notin> dict_keys h'" and "0 < q"
    using inv h by (auto simp add: account_inv_def dict_distinct_def dict_keys_def
        dict_all_values_def)
  then have ok: "fst (sell_shares a s q p)" and "sold_holdings (holdings a) s q = h'"
    using h pos by (simp_all add: sell_shares_success_iff sold_holdings_def dict_keys_def
        AList.delete_id)
  with ok show ?thesis by (simp add: sell_shares_ok)
qed

lemma sell_first_unpriced:
  "\<not> 0 < p s \<Longrightarrow> snd (sell_shares a s q p) = a"
  by (simp add: sell_shares_success_iff ops_fail)

lemma all_priced_Cons:
  "holdings a = (s, q) # h' \<Longrightarrow> holdings a' = h' \<Longrightarrow>
     all_priced p a \<longleftrightarrow> 0 < p s \<and> all_priced p a'"
  by (auto simp add: all_priced_def dict_keys_def)

section \<open>The list of sales\<close>

lemma run_liquidate_ops:
  assumes "account_inv a" and "all_priced p a"
  shows "list_all id (fst (run_ops a (liquidate_ops (holdings a) p))) \<and>
         holdings (snd (run_ops a (liquidate_ops (holdings a) p))) = [] \<and>
         balance (snd (run_ops a (liquidate_ops (holdings a) p))) =
           balance a + holdings_value p (holdings a) \<and>
         net_deposits (snd (run_ops a (liquidate_ops (holdings a) p))) = net_deposits a"
  using assms
proof (induction "holdings a" arbitrary: a)
  case Nil
  then show ?case by (simp add: liquidate_ops_def holdings_value_def)
next
  case (Cons kv h' a)
  obtain s q where kv: "kv = (s, q)" by (cases kv)
  let ?a1 = "snd (sell_shares a s q p)"
  have h: "holdings a = (s, q) # h'" using Cons.hyps(2) kv by simp
  have pos: "0 < p s" using Cons.prems(2) h by (simp add: all_priced_def dict_keys_def)
  note first = sell_first_holding [of a s q h' p, OF Cons.prems(1) h pos]
  have inv1: "account_inv ?a1" by (rule sell_shares_inv [OF Cons.prems(1)])
  have pr1: "all_priced p ?a1" using Cons.prems(2) all_priced_Cons [OF h] first by blast
  have IH: "list_all id (fst (run_ops ?a1 (liquidate_ops (holdings ?a1) p))) \<and>
         holdings (snd (run_ops ?a1 (liquidate_ops (holdings ?a1) p))) = [] \<and>
         balance (snd (run_ops ?a1 (liquidate_ops (holdings ?a1) p))) =
           balance ?a1 + holdings_value p (holdings ?a1) \<and>
         net_deposits (snd (run_ops ?a1 (liquidate_ops (holdings ?a1) p))) = net_deposits ?a1"
    using Cons.hyps(1) [of ?a1] first inv1 pr1 by simp
  show ?case using IH first h by (simp add: liquidate_ops_def holdings_value_def)
qed

section \<open>The loop\<close>

lemma liquidate_loop_run:
  assumes "account_inv a" and "all_priced p a"
  shows "liquidate_loop p a = Some (snd (run_ops a (liquidate_ops (holdings a) p)))"
  using assms
proof (induction "holdings a" arbitrary: a)
  case Nil
  then show ?case by (simp add: liquidate_loop.simps liquidate_ops_def)
next
  case (Cons kv h' a)
  obtain s q where kv: "kv = (s, q)" by (cases kv)
  let ?a1 = "snd (sell_shares a s q p)"
  have h: "holdings a = (s, q) # h'" using Cons.hyps(2) kv by simp
  have pos: "0 < p s" using Cons.prems(2) h by (simp add: all_priced_def dict_keys_def)
  note first = sell_first_holding [of a s q h' p, OF Cons.prems(1) h pos]
  have inv1: "account_inv ?a1" by (rule sell_shares_inv [OF Cons.prems(1)])
  have pr1: "all_priced p ?a1" using Cons.prems(2) all_priced_Cons [OF h] first by blast
  have IH: "liquidate_loop p ?a1 = Some (snd (run_ops ?a1 (liquidate_ops (holdings ?a1) p)))"
    using Cons.hyps(1) [of ?a1] first inv1 pr1 by simp
  have "liquidate_loop p a = liquidate_loop p ?a1"
    using h by (simp add: liquidate_loop.simps)
  with IH h first show ?case by (simp add: liquidate_ops_def)
qed

text \<open>If the loop returns, every symbol held when it started was priced: a sale at a
  price that is not positive fails and leaves the account as it was, so the loop
  repeats it forever.\<close>

lemma liquidate_loop_returns_priced:
  assumes ret: "liquidate_loop p a = Some r"
  shows "account_inv a \<longrightarrow> all_priced p a"
proof (rule liquidate_loop.raw_induct [where P = "\<lambda>p a r. account_inv a \<longrightarrow> all_priced p a",
      OF _ ret])
  fix f :: "price_lookup \<Rightarrow> account \<Rightarrow> account option" and p a r
  assume IH: "\<And>p a r. f p a = Some r \<Longrightarrow> account_inv a \<longrightarrow> all_priced p a"
    and eq: "(case holdings a of [] \<Rightarrow> Some a
              | (s, q) # _ \<Rightarrow> f p (snd (sell_shares a s q p))) = Some r"
  show "account_inv a \<longrightarrow> all_priced p a"
  proof
    assume inv: "account_inv a"
    show "all_priced p a"
    proof (cases "holdings a")
      case Nil
      then show ?thesis by (simp add: all_priced_def dict_keys_def)
    next
      case (Cons kv h')
      obtain s q where h: "holdings a = (s, q) # h'" using Cons by (cases kv) simp
      with eq have rec: "f p (snd (sell_shares a s q p)) = Some r" by simp
      show ?thesis
      proof (cases "0 < p s")
        case True
        note first = sell_first_holding [of a s q h' p, OF inv h True]
        have "account_inv (snd (sell_shares a s q p))" by (rule sell_shares_inv [OF inv])
        with IH [OF rec] have "all_priced p (snd (sell_shares a s q p))" by blast
        with True show ?thesis using all_priced_Cons [OF h] first by blast
      next
        case False
        with rec IH inv show ?thesis by (simp add: sell_first_unpriced)
      qed
    qed
  qed
qed

end
