(* ===== verification/Concurrency.thy ===== *)
theory Concurrency
  imports Account_Runs
begin

text \<open>
  Concurrent callers of one 4o \<open>Account\<close> (the spec's section 5). The class has no lock,
  so threads calling its methods on the same object can interleave between their
  statements. A call in progress is a \<open>call_state\<close>: the call (an \<open>account_op\<close>),
  its locals \<open>price\<close> and \<open>total_cost\<close>/\<open>total_revenue\<close>, and the statement it is
  at. Each method of \<open>example_output_4o/accounts.py\<close> is one step function executing
  one statement: the guards (\<open>At_Check\<close>, where \<open>withdraw\<close> and \<open>buy_shares\<close> read
  \<open>self.balance\<close> and \<open>sell_shares\<close> reads \<open>self._holdings\<close>), the cash update
  (\<open>At_Cash\<close>), the second field update (\<open>At_Book\<close>: \<open>_net_deposits\<close> or
  \<open>_holdings\<close>), for \<open>sell_shares\<close> the test and \<open>del\<close> of an emptied entry
  (\<open>At_Tidy\<close>), and the append of the \<open>Transaction\<close> (\<open>At_Log\<close>, whose balance
  snapshot reads \<open>self.balance\<close> again). \<open>sell_shares\<close> reads
  \<open>self._holdings[symbol]\<close> twice after its guard; when another thread has deleted the
  entry meanwhile the read raises \<open>KeyError\<close>, which ends the thread with the effects
  of the statements already run. A schedule is the list of the threads that run, one
  statement each. Statement granularity is coarser than the interpreter's (which may
  also switch inside \<open>self.balance -= total_cost\<close>), so every interleaving shown here
  is also possible in CPython.

  The lemmas show that a call run without interruption is exactly the method, and that
  a serial schedule (the effect of a per-instance lock) is exactly \<open>run_ops\<close> on the same
  calls in the same order, and how two buyers or two sellers race on any account.
\<close>

datatype thread_exc = KeyError symbol

datatype stmt_pc = At_Check | At_Cash | At_Book | At_Tidy | At_Log | Returned bool | Raised thread_exc

record call_state =
  cs_op :: account_op
  cs_price :: real
  cs_cash :: real
  cs_pc :: stmt_pc

definition start_call :: "account_op \<Rightarrow> call_state" where
  "start_call op = \<lparr>cs_op = op, cs_price = 0, cs_cash = 0, cs_pc = At_Check\<rparr>"

text \<open>\<open>deposit\<close>, lines 46 to 53.\<close>

definition deposit_step :: "real \<Rightarrow> account \<Rightarrow> call_state \<Rightarrow> account \<times> call_state" where
  "deposit_step amount a t =
     (case cs_pc t of
        At_Check \<Rightarrow> if amount \<le> 0 then (a, t\<lparr>cs_pc := Returned False\<rparr>) else (a, t\<lparr>cs_pc := At_Cash\<rparr>)
      | At_Cash \<Rightarrow> (a\<lparr>balance := balance a + amount\<rparr>, t\<lparr>cs_pc := At_Book\<rparr>)
      | At_Book \<Rightarrow> (a\<lparr>net_deposits := net_deposits a + amount\<rparr>, t\<lparr>cs_pc := At_Log\<rparr>)
      | At_Log \<Rightarrow>
          (a\<lparr>transactions := transactions a @ [cash_transaction ''deposit'' amount (balance a)]\<rparr>,
           t\<lparr>cs_pc := Returned True\<rparr>)
      | _ \<Rightarrow> (a, t))"

text \<open>\<open>withdraw\<close>, lines 56 to 63.\<close>

definition withdraw_step :: "real \<Rightarrow> account \<Rightarrow> call_state \<Rightarrow> account \<times> call_state" where
  "withdraw_step amount a t =
     (case cs_pc t of
        At_Check \<Rightarrow>
          if amount \<le> 0 \<or> amount > balance a then (a, t\<lparr>cs_pc := Returned False\<rparr>)
          else (a, t\<lparr>cs_pc := At_Cash\<rparr>)
      | At_Cash \<Rightarrow> (a\<lparr>balance := balance a - amount\<rparr>, t\<lparr>cs_pc := At_Book\<rparr>)
      | At_Book \<Rightarrow> (a\<lparr>net_deposits := net_deposits a - amount\<rparr>, t\<lparr>cs_pc := At_Log\<rparr>)
      | At_Log \<Rightarrow>
          (a\<lparr>transactions := transactions a @ [cash_transaction ''withdraw'' amount (balance a)]\<rparr>,
           t\<lparr>cs_pc := Returned True\<rparr>)
      | _ \<Rightarrow> (a, t))"

text \<open>\<open>buy_shares\<close>, lines 71 to 93.\<close>

definition buy_step ::
  "symbol \<Rightarrow> int \<Rightarrow> price_lookup \<Rightarrow> account \<Rightarrow> call_state \<Rightarrow> account \<times> call_state" where
  "buy_step symbol quantity price_lookup a t =
     (case cs_pc t of
        At_Check \<Rightarrow>
          if quantity \<le> 0 then (a, t\<lparr>cs_pc := Returned False\<rparr>)
          else let price = price_lookup symbol in
            if price \<le> 0 then (a, t\<lparr>cs_price := price, cs_pc := Returned False\<rparr>)
            else let total_cost = price * of_int quantity in
              if total_cost > balance a
              then (a, t\<lparr>cs_price := price, cs_cash := total_cost, cs_pc := Returned False\<rparr>)
              else (a, t\<lparr>cs_price := price, cs_cash := total_cost, cs_pc := At_Cash\<rparr>)
      | At_Cash \<Rightarrow> (a\<lparr>balance := balance a - cs_cash t\<rparr>, t\<lparr>cs_pc := At_Book\<rparr>)
      | At_Book \<Rightarrow>
          (a\<lparr>holdings := AList.update symbol (dict_get (holdings a) symbol 0 + quantity) (holdings a)\<rparr>,
           t\<lparr>cs_pc := At_Log\<rparr>)
      | At_Log \<Rightarrow>
          (a\<lparr>transactions := transactions a @
               [trade_transaction ''buy'' symbol quantity (cs_price t) (cs_cash t) (balance a)]\<rparr>,
           t\<lparr>cs_pc := Returned True\<rparr>)
      | _ \<Rightarrow> (a, t))"

text \<open>\<open>sell_shares\<close>, lines 101 to 123: \<open>self._holdings[symbol] -= quantity\<close> (line 109)
  and \<open>if self._holdings[symbol] == 0: del self._holdings[symbol]\<close> (lines 110 and 111)
  read the entry with \<open>[]\<close>.\<close>

definition sell_step ::
  "symbol \<Rightarrow> int \<Rightarrow> price_lookup \<Rightarrow> account \<Rightarrow> call_state \<Rightarrow> account \<times> call_state" where
  "sell_step symbol quantity price_lookup a t =
     (case cs_pc t of
        At_Check \<Rightarrow>
          if quantity \<le> 0 \<or> dict_get (holdings a) symbol 0 < quantity
          then (a, t\<lparr>cs_pc := Returned False\<rparr>)
          else let price = price_lookup symbol in
            if price \<le> 0 then (a, t\<lparr>cs_price := price, cs_pc := Returned False\<rparr>)
            else (a, t\<lparr>cs_price := price, cs_cash := price * of_int quantity, cs_pc := At_Cash\<rparr>)
      | At_Cash \<Rightarrow> (a\<lparr>balance := balance a + cs_cash t\<rparr>, t\<lparr>cs_pc := At_Book\<rparr>)
      | At_Book \<Rightarrow>
          (case map_of (holdings a) symbol of
             None \<Rightarrow> (a, t\<lparr>cs_pc := Raised (KeyError symbol)\<rparr>)
           | Some n \<Rightarrow>
               (a\<lparr>holdings := AList.update symbol (n - quantity) (holdings a)\<rparr>, t\<lparr>cs_pc := At_Tidy\<rparr>))
      | At_Tidy \<Rightarrow>
          (case map_of (holdings a) symbol of
             None \<Rightarrow> (a, t\<lparr>cs_pc := Raised (KeyError symbol)\<rparr>)
           | Some n \<Rightarrow>
               (if n = 0 then a\<lparr>holdings := AList.delete symbol (holdings a)\<rparr> else a,
                t\<lparr>cs_pc := At_Log\<rparr>))
      | At_Log \<Rightarrow>
          (a\<lparr>transactions := transactions a @
               [trade_transaction ''sell'' symbol quantity (cs_price t) (cs_cash t) (balance a)]\<rparr>,
           t\<lparr>cs_pc := Returned True\<rparr>)
      | _ \<Rightarrow> (a, t))"

definition call_step :: "account \<Rightarrow> call_state \<Rightarrow> account \<times> call_state" where
  "call_step a t =
     (case cs_op t of
        Deposit amount \<Rightarrow> deposit_step amount a t
      | Withdraw amount \<Rightarrow> withdraw_step amount a t
      | Buy symbol quantity p \<Rightarrow> buy_step symbol quantity p a t
      | Sell symbol quantity p \<Rightarrow> sell_step symbol quantity p a t)"

text \<open>The outcome of a thread: still running, returned a boolean, or raised.\<close>

definition call_result :: "call_state \<Rightarrow> (thread_exc + bool) option" where
  "call_result t = (case cs_pc t of Returned r \<Rightarrow> Some (Inr r) | Raised e \<Rightarrow> Some (Inl e) | _ \<Rightarrow> None)"

text \<open>The number of statements a call runs when nothing interrupts it.\<close>

fun op_steps :: "account_op \<Rightarrow> nat" where
  "op_steps (Sell symbol quantity p) = 5"
| "op_steps _ = 4"

text \<open>One thread runs \<open>n\<close> statements.\<close>

fun run_call :: "account \<Rightarrow> call_state \<Rightarrow> nat \<Rightarrow> account \<times> call_state" where
  "run_call a t 0 = (a, t)"
| "run_call a t (Suc n) = (let (a', t') = call_step a t in run_call a' t' n)"

text \<open>The scheduler runs one statement of thread \<open>i\<close>; an index with no thread is
  skipped.\<close>

definition sched_step :: "account \<times> call_state list \<Rightarrow> nat \<Rightarrow> account \<times> call_state list" where
  "sched_step st i =
     (let (a, ts) = st in
      if i < length ts then (let (a', t') = call_step a (ts ! i) in (a', ts[i := t'])) else (a, ts))"

definition run_schedule :: "account \<times> call_state list \<Rightarrow> nat list \<Rightarrow> account \<times> call_state list" where
  "run_schedule st sched = foldl sched_step st sched"

definition call_threads :: "account_op list \<Rightarrow> call_state list" where
  "call_threads ops = map start_call ops"

text \<open>The serial schedule: each thread runs all its statements before the next starts.\<close>

definition serial_schedule :: "account_op list \<Rightarrow> nat list" where
  "serial_schedule ops = concat (map (\<lambda>(i, op). replicate (op_steps op) i) (zip [0..<length ops] ops))"

section \<open>A call run without interruption\<close>

lemma run_call_start:
  "fst (run_call a (start_call op) (op_steps op)) = snd (apply_op a op) \<and>
   call_result (snd (run_call a (start_call op) (op_steps op))) = Some (Inr (fst (apply_op a op)))"
proof (cases op)
  case (Sell s q p)
  show ?thesis
  proof (cases "0 < q \<and> q \<le> dict_get (holdings a) s 0")
    case True
    then have "map_of (holdings a) s = Some (dict_get (holdings a) s 0)"
      using dict_get_pos_present [of q "holdings a" s] by simp
    with True Sell show ?thesis
      by (simp add: numeral_eq_Suc start_call_def call_step_def sell_step_def call_result_def
          sell_shares_def Let_def update_conv')
  next
    case False
    with Sell show ?thesis
      by (auto simp add: numeral_eq_Suc start_call_def call_step_def sell_step_def call_result_def
          sell_shares_def)
  qed
qed (simp_all add: numeral_eq_Suc start_call_def call_step_def deposit_step_def withdraw_step_def
    buy_step_def call_result_def deposit_def withdraw_def buy_shares_def Let_def)

section \<open>Schedules\<close>

lemma run_schedule_append:
  "run_schedule st (xs @ ys) = run_schedule (run_schedule st xs) ys"
  by (simp add: run_schedule_def)

lemma run_schedule_replicate:
  "i < length ts \<Longrightarrow>
     run_schedule (a, ts) (replicate n i) =
       (fst (run_call a (ts ! i) n), ts[i := snd (run_call a (ts ! i) n)])"
proof (induction n arbitrary: a ts)
  case 0
  then show ?case by (simp add: run_schedule_def)
next
  case (Suc n)
  obtain a' t' where st: "call_step a (ts ! i) = (a', t')" by (cases "call_step a (ts ! i)")
  have "run_schedule (a, ts) (replicate (Suc n) i) = run_schedule (a', ts[i := t']) (replicate n i)"
    using Suc.prems st by (simp add: run_schedule_def sched_step_def)
  also have "\<dots> = (fst (run_call a' t' n), ts[i := t', i := snd (run_call a' t' n)])"
    using Suc.IH [of "ts[i := t']" a'] Suc.prems by simp
  finally show ?case using st by simp
qed

text \<open>Threads beyond the ones a schedule names are left untouched.\<close>

lemma sched_step_append:
  "i < length ts \<Longrightarrow>
     sched_step (a, ts @ us) i = (fst (sched_step (a, ts) i), snd (sched_step (a, ts) i) @ us)"
  by (simp add: sched_step_def split_def Let_def nth_append list_update_append)

lemma length_sched_step [simp]: "length (snd (sched_step st i)) = length (snd st)"
  by (simp add: sched_step_def split_def Let_def)

lemma run_schedule_append_threads:
  "\<forall>i \<in> set sched. i < length ts \<Longrightarrow>
     run_schedule (a, ts @ us) sched =
       (fst (run_schedule (a, ts) sched), snd (run_schedule (a, ts) sched) @ us)"
proof (induction sched arbitrary: a ts)
  case Nil
  then show ?case by (simp add: run_schedule_def)
next
  case (Cons i sched)
  let ?st = "sched_step (a, ts) i"
  have "run_schedule (a, ts @ us) (i # sched) = run_schedule (fst ?st, snd ?st @ us) sched"
    using Cons.prems by (simp add: run_schedule_def sched_step_append)
  also have "\<dots> = (fst (run_schedule ?st sched), snd (run_schedule ?st sched) @ us)"
    using Cons.IH [of "snd ?st" "fst ?st"] Cons.prems by simp
  finally show ?case by (simp add: run_schedule_def)
qed

lemma length_run_schedule [simp]: "length (snd (run_schedule st sched)) = length (snd st)"
  by (induction sched arbitrary: st) (simp_all add: run_schedule_def)

lemma serial_schedule_snoc:
  "serial_schedule (ops @ [op]) = serial_schedule ops @ replicate (op_steps op) (length ops)"
  by (simp add: serial_schedule_def)

lemma serial_schedule_bound: "i \<in> set (serial_schedule ops) \<Longrightarrow> i < length ops"
  by (auto simp add: serial_schedule_def dest: set_zip_leftD)

lemma length_call_threads [simp]: "length (call_threads ops) = length ops"
  by (simp add: call_threads_def)

text \<open>A serial schedule of calls is the sequential run of the same calls.\<close>

lemma serial_schedule_run_ops:
  "fst (run_schedule (a, call_threads ops) (serial_schedule ops)) = snd (run_ops a ops) \<and>
   map call_result (snd (run_schedule (a, call_threads ops) (serial_schedule ops))) =
     map (\<lambda>r. Some (Inr r)) (fst (run_ops a ops))"
proof (induction ops rule: rev_induct)
  case Nil
  then show ?case by (simp add: run_schedule_def serial_schedule_def call_threads_def)
next
  case (snoc op ops)
  let ?st = "run_schedule (a, call_threads ops) (serial_schedule ops)"
  have first: "run_schedule (a, call_threads (ops @ [op])) (serial_schedule ops) =
      (fst ?st, snd ?st @ [start_call op])"
    using run_schedule_append_threads [of "serial_schedule ops" "call_threads ops" a
        "[start_call op]"] serial_schedule_bound
    by (simp add: call_threads_def)
  have len: "length (snd ?st) = length ops" by simp
  let ?r = "run_call (fst ?st) (start_call op) (op_steps op)"
  have "run_schedule (a, call_threads (ops @ [op])) (serial_schedule (ops @ [op])) =
      run_schedule (fst ?st, snd ?st @ [start_call op]) (replicate (op_steps op) (length ops))"
    by (simp only: serial_schedule_snoc run_schedule_append first)
  also have "\<dots> = (fst ?r, snd ?st @ [snd ?r])"
    using len by (simp add: run_schedule_replicate nth_append list_update_append)
  finally have last: "run_schedule (a, call_threads (ops @ [op])) (serial_schedule (ops @ [op])) =
      (fst ?r, snd ?st @ [snd ?r])" .
  show ?case
    using snoc.IH last run_call_start [of "fst ?st" op]
    by (simp add: run_ops_append_split)
qed

section \<open>Unsynchronised callers\<close>

text \<open>Two buyers of a purchase the account can afford once but not twice, both passing
  the affordability check before either debits.\<close>

lemma buy_race:
  assumes q: "0 < q" and p: "0 < p s" and afford: "p s * of_int q \<le> balance a"
    and not_twice: "balance a < 2 * (p s * of_int q)"
  shows "map call_result (snd (run_schedule (a, call_threads [Buy s q p, Buy s q p])
           [0, 1, 0, 0, 0, 1, 1, 1])) = [Some (Inr True), Some (Inr True)] \<and>
         balance (fst (run_schedule (a, call_threads [Buy s q p, Buy s q p])
           [0, 1, 0, 0, 0, 1, 1, 1])) = balance a - 2 * (p s * of_int q) \<and>
         fst (run_ops a [Buy s q p, Buy s q p]) = [True, False]"
  using q p afford not_twice
  by (simp add: run_schedule_def sched_step_def call_threads_def start_call_def call_step_def
      buy_step_def call_result_def buy_shares_def Let_def) (simp add: mult.commute)

text \<open>Two sellers of a whole holding, both passing the holdings check before either
  books: statement by statement in turn, or the first running to its end after both
  checks.\<close>

lemma sell_race:
  assumes q: "0 < q" and p: "0 < p s" and held: "map_of (holdings b) s = Some q"
  shows "map call_result (snd (run_schedule (b, call_threads [Sell s q p, Sell s q p])
           [0, 1, 0, 1, 0, 1, 0, 1, 0, 1])) = [Some (Inr True), Some (Inr True)] \<and>
         balance (fst (run_schedule (b, call_threads [Sell s q p, Sell s q p])
           [0, 1, 0, 1, 0, 1, 0, 1, 0, 1])) = balance b + 2 * (p s * of_int q) \<and>
         map_of (holdings (fst (run_schedule (b, call_threads [Sell s q p, Sell s q p])
           [0, 1, 0, 1, 0, 1, 0, 1, 0, 1]))) s = Some (- q) \<and>
         map call_result (snd (run_schedule (b, call_threads [Sell s q p, Sell s q p])
           [0, 1, 0, 0, 0, 0, 1, 1])) = [Some (Inr True), Some (Inl (KeyError s))] \<and>
         balance (fst (run_schedule (b, call_threads [Sell s q p, Sell s q p])
           [0, 1, 0, 0, 0, 0, 1, 1])) = balance b + 2 * (p s * of_int q) \<and>
         map_of (holdings (fst (run_schedule (b, call_threads [Sell s q p, Sell s q p])
           [0, 1, 0, 0, 0, 0, 1, 1]))) s = None \<and>
         fst (run_ops b [Sell s q p, Sell s q p]) = [True, False]"
  using q p held
  by (simp add: run_schedule_def sched_step_def call_threads_def start_call_def call_step_def
      sell_step_def call_result_def sell_shares_def sold_holdings_def dict_get_def Let_def
      update_conv' delete_conv')

end
