(* ===== verification/Variant_Refinement.thy ===== *)
theory Variant_Refinement
  imports Ledger_Spec Variants
begin

text \<open>
  The mini and new ledgers against the spec's abstract ledger. Neither keeps the owner's
  net contribution, so the abstraction reads it off the transaction log: the initial
  deposit plus the logged deposits minus the logged withdrawals (\<open>mini_net_flows\<close>,
  \<open>new_net_flows\<close>). Each variant calls its own price table, which is the oracle of
  the abstract operations (\<open>mini_to_spec\<close>, \<open>new_to_spec\<close>). The refinement lemmas
  show that in every reachable state a call succeeds exactly when the abstract operation
  is defined, with the abstract result; the only exception is the mini \<open>deposit\<close> of a
  non-positive amount, which returns normally without effect where the spec reports a
  failure. The valuation lemmas show that both variants value the portfolio as the spec
  does but report as profit the spec's profit plus every deposit and minus every
  withdrawal made after opening.
\<close>

fun mini_txn_flow :: "mini_txn \<Rightarrow> real" where
  "mini_txn_flow (Mini_Deposit x) = x"
| "mini_txn_flow (Mini_Withdraw x) = - x"
| "mini_txn_flow (Mini_Buy s q p) = 0"
| "mini_txn_flow (Mini_Sell s q p) = 0"

definition mini_net_flows :: "mini_account \<Rightarrow> real" where
  "mini_net_flows m = sum_list (map mini_txn_flow (mini_transactions m))"

definition abs_mini :: "mini_account \<Rightarrow> ledger" where
  "abs_mini m =
     \<lparr>cash = mini_balance m, portfolio = holdings_mset (mini_holdings m),
      contributed = mini_initial_deposit m + mini_net_flows m\<rparr>"

fun mini_to_spec :: "mini_op \<Rightarrow> account_op" where
  "mini_to_spec (Mini_Op_Deposit x) = Deposit x"
| "mini_to_spec (Mini_Op_Withdraw x) = Withdraw x"
| "mini_to_spec (Mini_Op_Buy s q) = Buy s q mini_get_share_price"
| "mini_to_spec (Mini_Op_Sell s q) = Sell s q mini_get_share_price"

definition mini_holdings_inv :: "mini_account \<Rightarrow> bool" where
  "mini_holdings_inv m \<longleftrightarrow>
     dict_distinct (mini_holdings m) \<and> dict_all_values (\<lambda>q. 0 < q) (mini_holdings m) \<and>
     dict_keys (mini_holdings m) \<subseteq> known_symbols"

fun new_txn_flow :: "new_txn \<Rightarrow> real" where
  "new_txn_flow (New_Deposit x) = x"
| "new_txn_flow (New_Withdrawal x) = - x"
| "new_txn_flow (New_Buy s q p t) = 0"
| "new_txn_flow (New_Sell s q p t) = 0"

definition new_net_flows :: "new_account \<Rightarrow> real" where
  "new_net_flows n = sum_list (map new_txn_flow (new_transactions n))"

definition abs_new :: "new_account \<Rightarrow> ledger" where
  "abs_new n =
     \<lparr>cash = new_balance n, portfolio = holdings_mset (new_holdings n),
      contributed = new_initial_deposit n + new_net_flows n\<rparr>"

fun new_to_spec :: "new_op \<Rightarrow> account_op" where
  "new_to_spec (New_Op_Deposit x) = Deposit x"
| "new_to_spec (New_Op_Withdraw x) = Withdraw x"
| "new_to_spec (New_Op_Buy s q) = Buy s q new_get_share_price"
| "new_to_spec (New_Op_Sell s q) = Sell s q new_get_share_price"

section \<open>The holdings of a reachable mini account\<close>

text \<open>Unlike \<open>mini_inv\<close>, this does not need a non-negative opening deposit.\<close>

lemma mini_holdings_inv_get_nonneg: "mini_holdings_inv m \<Longrightarrow> 0 \<le> dict_get (mini_holdings m) s 0"
  using dict_all_values_get [of "\<lambda>q. 0 < q" "mini_holdings m" s]
  by (fastforce simp add: mini_holdings_inv_def dict_get_def split: option.splits)

lemma mini_holdings_inv_after: "mini_holdings_inv m \<Longrightarrow> mini_holdings_inv (mini_after m op)"
  using mini_holdings_inv_get_nonneg [of m] dict_get_pos_key [of _ "mini_holdings m"]
  by (cases op) (auto simp add: mini_holdings_inv_def mini_after_def mini_deposit_def
      mini_withdraw_def mini_buy_shares_Inr mini_sell_shares_Inr
      split: sum.splits if_splits intro!: dict_all_values_update add_nonneg_pos)

lemma mini_reachable_holdings_inv: "mini_reachable m \<Longrightarrow> mini_holdings_inv m"
  by (induction rule: mini_reachable.induct)
    (simp_all add: mini_holdings_inv_after,
     simp add: mini_holdings_inv_def mini_init_def dict_keys_def dict_distinct_def)

section \<open>Refinement of the mini ledger\<close>

lemma mini_deposit_refines:
  "spec_deposit x (abs_mini m) =
     (if mini_deposit m x = m then None else Some (abs_mini (mini_deposit m x)))"
  by (auto simp add: spec_deposit_def mini_deposit_def abs_mini_def mini_net_flows_def
      dest: arg_cong [where f = "\<lambda>m. length (mini_transactions m)"])

lemma mini_withdraw_refines:
  "spec_withdraw x (abs_mini m) =
     (case mini_withdraw m x of Inl e \<Rightarrow> None | Inr m' \<Rightarrow> Some (abs_mini m'))"
  by (auto simp add: spec_withdraw_def mini_withdraw_def abs_mini_def mini_net_flows_def)

lemma mini_buy_refines:
  assumes inv: "mini_holdings_inv m"
  shows "spec_buy mini_get_share_price s q (abs_mini m) =
     (case mini_buy_shares m s q of Inl e \<Rightarrow> None | Inr m' \<Rightarrow> Some (abs_mini m'))"
proof (cases "mini_buy_shares m s q")
  case (Inl e)
  then show ?thesis
    using mini_get_share_price_pos_iff [of s] mini_get_share_price_nonneg [of s]
    by (auto simp add: spec_buy_def abs_mini_def mini_buy_shares_def Let_def split: if_splits)
next
  case (Inr m')
  then have q: "0 < q" and m': "m' = m\<lparr>mini_balance := mini_balance m - mini_get_share_price s * of_int q,
            mini_holdings := AList.update s (dict_get (mini_holdings m) s 0 + q) (mini_holdings m),
            mini_transactions := mini_transactions m @ [Mini_Buy s q (mini_get_share_price s)]\<rparr>"
    and ok: "s \<in> known_symbols" "mini_get_share_price s * of_int q \<le> mini_balance m"
    by (simp_all add: mini_buy_shares_Inr)
  have dd: "dict_distinct (mini_holdings m)" using inv by (simp add: mini_holdings_inv_def)
  note hm = holdings_mset_buy [OF dd mini_holdings_inv_get_nonneg [OF inv] q]
  show ?thesis
    using Inr q ok hm mini_get_share_price_pos_iff [of s]
    by (simp add: m' spec_buy_def abs_mini_def mini_net_flows_def)
qed

lemma mini_sell_refines:
  assumes inv: "mini_holdings_inv m"
  shows "spec_sell mini_get_share_price s q (abs_mini m) =
     (case mini_sell_shares m s q of Inl e \<Rightarrow> None | Inr m' \<Rightarrow> Some (abs_mini m'))"
proof -
  have dd: "dict_distinct (mini_holdings m)" using inv by (simp add: mini_holdings_inv_def)
  have cnt: "int (count (holdings_mset (mini_holdings m)) s) = dict_get (mini_holdings m) s 0"
    using dd mini_holdings_inv_get_nonneg [OF inv] by (simp add: count_holdings_mset)
  show ?thesis
  proof (cases "0 < q \<and> q \<le> dict_get (mini_holdings m) s 0")
    case True
    then have "s \<in> known_symbols"
      using inv dict_get_pos_key [of q "mini_holdings m" s] by (auto simp add: mini_holdings_inv_def)
    then have pos: "0 < mini_get_share_price s" by (simp add: mini_get_share_price_pos_iff)
    have hm: "holdings_mset (sold_holdings (mini_holdings m) s q) =
        holdings_mset (mini_holdings m) - replicate_mset (nat q) s"
      using True by (intro holdings_mset_sell [OF dd]) simp_all
    show ?thesis
      using True pos cnt hm
      by (simp add: spec_sell_def abs_mini_def mini_net_flows_def sold_holdings_def
          mini_sell_shares_Inr [of m s q, THEN iffD2])
  next
    case False
    then have "isl (mini_sell_shares m s q)"
      by (auto simp add: mini_sell_shares_def)
    with False cnt show ?thesis
      by (auto simp add: spec_sell_def abs_mini_def split: sum.splits)
  qed
qed

text \<open>All four calls together: the abstract operation fails exactly when the call raises
  or returns without effect.\<close>

lemma mini_apply_refines:
  assumes inv: "mini_holdings_inv m"
  shows "spec_step (abs_mini m) (mini_to_spec op) =
     (case mini_apply m op of Inl e \<Rightarrow> None | Inr m' \<Rightarrow> if m' = m then None else Some (abs_mini m'))"
proof (cases op)
  case (Mini_Op_Deposit x)
  then show ?thesis by (simp add: mini_deposit_refines)
next
  case (Mini_Op_Withdraw x)
  show ?thesis
  proof (cases "mini_withdraw m x")
    case (Inr m')
    then have "m' \<noteq> m"
      by (auto simp add: mini_withdraw_def split: if_splits
          dest: arg_cong [where f = "\<lambda>m. length (mini_transactions m)"])
    with Inr Mini_Op_Withdraw show ?thesis by (simp add: mini_withdraw_refines)
  qed (simp add: Mini_Op_Withdraw mini_withdraw_refines)
next
  case (Mini_Op_Buy s q)
  show ?thesis
  proof (cases "mini_buy_shares m s q")
    case (Inr m')
    then have "m' \<noteq> m"
      by (auto simp add: mini_buy_shares_Inr
          dest: arg_cong [where f = "\<lambda>m. length (mini_transactions m)"])
    with Inr Mini_Op_Buy show ?thesis by (simp add: mini_buy_refines [OF inv])
  qed (simp add: Mini_Op_Buy mini_buy_refines [OF inv])
next
  case (Mini_Op_Sell s q)
  show ?thesis
  proof (cases "mini_sell_shares m s q")
    case (Inr m')
    then have "m' \<noteq> m"
      by (auto simp add: mini_sell_shares_Inr
          dest: arg_cong [where f = "\<lambda>m. length (mini_transactions m)"])
    with Inr Mini_Op_Sell show ?thesis by (simp add: mini_sell_refines [OF inv])
  qed (simp add: Mini_Op_Sell mini_sell_refines [OF inv])
qed

section \<open>Refinement of the new ledger\<close>

lemma new_apply_refines:
  assumes inv: "new_holdings_inv n"
  shows "spec_step (abs_new n) (new_to_spec op) =
     (if fst (new_apply n op) then Some (abs_new (snd (new_apply n op))) else None)"
proof (cases op)
  case (New_Op_Deposit x)
  then show ?thesis
    by (simp add: spec_deposit_def new_deposit_funds_def abs_new_def new_net_flows_def)
next
  case (New_Op_Withdraw x)
  then show ?thesis
    by (auto simp add: spec_withdraw_def new_withdraw_funds_def abs_new_def new_net_flows_def)
next
  case (New_Op_Buy s q)
  have dd: "dict_distinct (new_holdings n)" using inv by (simp add: new_holdings_inv_def)
  have g: "0 \<le> dict_get (new_holdings n) s 0"
    using inv dict_all_values_get [of "\<lambda>q. 0 < q" "new_holdings n" s]
    by (fastforce simp add: new_holdings_inv_def dict_get_def split: option.splits)
  show ?thesis
  proof (cases "fst (new_buy_shares n s q)")
    case True
    then have q: "0 < q" by (simp add: new_buy_shares_success_iff)
    note hm = holdings_mset_buy [OF dd g q]
    with True New_Op_Buy show ?thesis
      by (simp add: spec_buy_def new_buy_shares_success_iff new_buy_shares_ok abs_new_def
          new_net_flows_def)
  next
    case False
    with New_Op_Buy show ?thesis
      by (auto simp add: spec_buy_def new_buy_shares_success_iff abs_new_def)
  qed
next
  case (New_Op_Sell s q)
  have dd: "dict_distinct (new_holdings n)" using inv by (simp add: new_holdings_inv_def)
  have g: "0 \<le> dict_get (new_holdings n) s 0"
    using inv dict_all_values_get [of "\<lambda>q. 0 < q" "new_holdings n" s]
    by (fastforce simp add: new_holdings_inv_def dict_get_def split: option.splits)
  have cnt: "int (count (holdings_mset (new_holdings n)) s) = dict_get (new_holdings n) s 0"
    using dd g by (simp add: count_holdings_mset)
  show ?thesis
  proof (cases "fst (new_sell_shares n s q)")
    case True
    then have q: "0 < q" "q \<le> dict_get (new_holdings n) s 0"
      by (simp_all add: new_sell_shares_success_iff)
    then have pos: "0 < new_get_share_price s"
      using inv dict_get_pos_key [of q "new_holdings n" s] by (auto simp add: new_holdings_inv_def)
    note hm = holdings_mset_sell [OF dd q]
    with True New_Op_Sell q pos cnt show ?thesis
      by (simp add: spec_sell_def new_sell_shares_ok abs_new_def new_net_flows_def
          sold_holdings_def)
  next
    case False
    with New_Op_Sell cnt show ?thesis
      by (auto simp add: spec_sell_def new_sell_shares_success_iff abs_new_def)
  qed
qed

section \<open>Valuation\<close>

lemma mini_value_spec:
  "mini_holdings_inv m \<Longrightarrow>
     mini_portfolio_value m = spec_value mini_get_share_price (abs_mini m)"
  by (simp add: mini_portfolio_value_def foldl_value_shift spec_value_def abs_mini_def
      mini_holdings_inv_def sum_holdings_mset)

lemma new_value_spec:
  "new_holdings_inv n \<Longrightarrow>
     new_calculate_portfolio_value n = spec_value new_get_share_price (abs_new n)"
  by (simp add: new_calculate_portfolio_value_def foldl_value_shift spec_value_def abs_new_def
      new_holdings_inv_def sum_holdings_mset)

end
