(* ===== verification/Crew_Config.thy ===== *)
theory Crew_Config
  imports Py_Prelude
begin

text \<open>
  The equity-analyst crew, \<open>src/3_crew/equity_analyst/src/equity_analyst/crew.py\<close>, as
  the configuration data it hands to CrewAI; what CrewAI and the language models then do
  with it is not modelled. The four Pydantic models that type the tasks' outputs are
  records of their fields, each with the \<open>FieldInfo\<close> its \<open>Field(...)\<close> call builds:
  \<open>description=\<close> sets the description, and any other keyword is kept as extra
  JSON-schema data (Pydantic 2 accepts unknown keywords with a deprecation warning).
  The \<open>@agent\<close> and \<open>@task\<close> methods are collected by \<open>@CrewBase\<close> in definition order
  into \<open>self.agents\<close> and \<open>self.tasks\<close>; \<open>crew()\<close> adds a manager agent and three
  memory stores. \<open>build_crew\<close> runs those methods on the YAML configurations
  \<open>@CrewBase\<close> loads, each \<open>config[key]\<close> raising \<open>KeyError\<close> for a missing key;
  CrewAI's own validation of an entry's fields is not modelled, so the model accepts any
  entry that is present. The lemmas characterise which keys a built crew needs, which
  entry configures each agent and task, and which key a failure names.
\<close>

datatype py_type = Py_Str | Py_List py_type | Py_Model string

record field_info =
  fi_description :: "string option"
  fi_extra :: "(string \<times> string) list"

text \<open>\<open>pydantic.Field(**kwargs)\<close>, for the keywords \<open>crew.py\<close> passes.\<close>

definition pyd_Field :: "(string \<times> string) list \<Rightarrow> field_info" where
  "pyd_Field kwargs =
     \<lparr>fi_description = map_of kwargs ''description'',
      fi_extra = filter (\<lambda>(k, v). k \<noteq> ''description'') kwargs\<rparr>"

record model_field =
  mf_name :: string
  mf_type :: py_type
  mf_info :: field_info

record pyd_model =
  model_name :: string
  model_doc :: string
  model_fields :: "model_field list"

definition TrendingCompany :: pyd_model where
  "TrendingCompany =
     \<lparr>model_name = ''TrendingCompany'', model_doc = ''A company in the news attractig attention'',
      model_fields =
        [\<lparr>mf_name = ''name'', mf_type = Py_Str,
          mf_info = pyd_Field [(''description'', ''Company Name'')]\<rparr>,
         \<lparr>mf_name = ''ticker'', mf_type = Py_Str,
          mf_info = pyd_Field [(''description'', ''Stock ticker symbol'')]\<rparr>,
         \<lparr>mf_name = ''reason'', mf_type = Py_Str,
          mf_info = pyd_Field [(''description'', ''Reason this company is trending in the news'')]\<rparr>]\<rparr>"

definition TrendingCompanyList :: pyd_model where
  "TrendingCompanyList =
     \<lparr>model_name = ''TrendingCompanyList'',
      model_doc = ''List of mutiple trending companies in the news'',
      model_fields =
        [\<lparr>mf_name = ''companies'', mf_type = Py_List (Py_Model ''TrendingCompany''),
          mf_info = pyd_Field [(''description'', ''List of companies trending in the news'')]\<rparr>]\<rparr>"

definition TrendingCompanyResearch :: pyd_model where
  "TrendingCompanyResearch =
     \<lparr>model_name = ''TrendingCompanyResearch'', model_doc = ''Detailed research on a company'',
      model_fields =
        [\<lparr>mf_name = ''name'', mf_type = Py_Str,
          mf_info = pyd_Field [(''description'', ''Company name'')]\<rparr>,
         \<lparr>mf_name = ''market_position'', mf_type = Py_Str,
          mf_info = pyd_Field [(''description'', ''Current market position and competitive analysis'')]\<rparr>,
         \<lparr>mf_name = ''future_outlook'', mf_type = Py_Str,
          mf_info = pyd_Field [(''description'', ''Future outlook and growth prospects'')]\<rparr>,
         \<lparr>mf_name = ''investment_potential'', mf_type = Py_Str,
          mf_info = pyd_Field [(''description'',
            ''Investment potential and suitability for investment'')]\<rparr>]\<rparr>"

definition TrendingCompanyResearchList :: pyd_model where
  "TrendingCompanyResearchList =
     \<lparr>model_name = ''TrendingCompanyResearchList'',
      model_doc = ''List of detailed research on all the companies'',
      model_fields =
        [\<lparr>mf_name = ''companies'', mf_type = Py_List (Py_Model ''TrendingCompanyResearch''),
          mf_info = pyd_Field [(''descripttion'', ''Comprehensive research on all trending companies'')]\<rparr>]\<rparr>"

definition output_models :: "pyd_model list" where
  "output_models = [TrendingCompany, TrendingCompanyList, TrendingCompanyResearch,
     TrendingCompanyResearchList]"

section \<open>The crew\<close>

text \<open>An \<open>Agent(config=self.agents_config[key], ...)\<close>: its config key, its tools, and the
  boolean keywords it passes as \<open>True\<close>.\<close>

record agent_spec =
  agent_config_key :: string
  agent_tools :: "string list"
  agent_flags :: "string list"

text \<open>A \<open>Task(config=self.tasks_config[key], output_pydantic=M)\<close>.\<close>

record task_spec =
  task_method :: string
  task_config_key :: string
  task_output :: string

datatype crew_process = Sequential | Hierarchical

text \<open>\<open>RAGStorage(embedder_config=..., type=..., path=...)\<close>.\<close>

record rag_storage =
  rag_provider :: string
  rag_model :: string
  rag_type :: string
  rag_path :: string

record crew_spec =
  crew_agents :: "agent_spec list"
  crew_tasks :: "task_spec list"
  crew_process :: crew_process
  crew_verbose :: bool
  crew_manager :: agent_spec
  crew_memory :: bool
  crew_short_term :: rag_storage
  crew_long_term_db :: string
  crew_entity :: rag_storage

text \<open>The \<open>@agent\<close> methods, in definition order.\<close>

definition equity_agents :: "agent_spec list" where
  "equity_agents =
     [\<lparr>agent_config_key = ''trending_company_finder'', agent_tools = [''SerperDevTool''],
       agent_flags = []\<rparr>,
      \<lparr>agent_config_key = ''financial_researcher'', agent_tools = [''SerperDevTool''],
       agent_flags = []\<rparr>,
      \<lparr>agent_config_key = ''stock_picker'', agent_tools = [], agent_flags = [''memory'']\<rparr>]"

text \<open>The \<open>@task\<close> methods, in definition order.\<close>

definition equity_tasks :: "task_spec list" where
  "equity_tasks =
     [\<lparr>task_method = ''find_trending_companies'', task_config_key = ''find_trending_companies'',
       task_output = ''TrendingCompanyList''\<rparr>,
      \<lparr>task_method = ''research_trending_companies'',
       task_config_key = ''research_trending_companies'',
       task_output = ''TrendingCompanyResearchList''\<rparr>,
      \<lparr>task_method = ''pick_best_companies'', task_config_key = ''pick_best_company'',
       task_output = ''TrendingCompanyResearch''\<rparr>]"

text \<open>The embedder configuration both RAG stores pass.\<close>

definition openai_rag :: "string \<Rightarrow> string \<Rightarrow> rag_storage" where
  "openai_rag ty p =
     \<lparr>rag_provider = ''openai'', rag_model = ''text-embedding-3-small'', rag_type = ty, rag_path = p\<rparr>"

text \<open>\<open>crew()\<close>.\<close>

definition equity_crew :: crew_spec where
  "equity_crew =
     \<lparr>crew_agents = equity_agents, crew_tasks = equity_tasks, crew_process = Hierarchical,
      crew_verbose = True,
      crew_manager = \<lparr>agent_config_key = ''manager'', agent_tools = [],
                      agent_flags = [''allow_delegation'', ''tracing'']\<rparr>,
      crew_memory = True,
      crew_short_term = openai_rag ''short_term'' ''./memory/'',
      crew_long_term_db = ''./memory/long_term_memory_storage.db'',
      crew_entity = openai_rag ''short_term'' ''./memory/''\<rparr>"

section \<open>Building the crew from its YAML configuration\<close>

text \<open>\<open>@CrewBase\<close> replaces the class attributes \<open>agents_config\<close> and \<open>tasks_config\<close>
  (lines 43 and 44) by the YAML files they name, read relative to \<open>crew.py\<close>. A YAML
  file is a mapping from a top-level key to the settings of one agent or task; a file
  that does not exist loads as the empty mapping, as current CrewAI releases do (they log
  a warning and proceed; older releases raise \<open>FileNotFoundError\<close> instead, which also
  ends the construction).
  The files are a parameter: which paths exist and what they hold.\<close>

type_synonym yaml_entry = "(string \<times> string) list"
type_synonym yaml_config = "string \<rightharpoonup> yaml_entry"
type_synonym config_files = "string \<Rightarrow> yaml_config option"

datatype crew_error = ConfigKeyError string

definition agents_config_path :: string where
  "agents_config_path = ''config/agents.yaml''"

definition tasks_config_path :: string where
  "tasks_config_path = ''config/tasks.yaml''"

definition crewbase_config :: "config_files \<Rightarrow> string \<Rightarrow> yaml_config" where
  "crewbase_config fs path = (case fs path of None \<Rightarrow> Map.empty | Some cfg \<Rightarrow> cfg)"

text \<open>\<open>self.agents_config[key]\<close>: a missing key raises \<open>KeyError\<close>.\<close>

definition config_lookup :: "yaml_config \<Rightarrow> string \<Rightarrow> crew_error + yaml_entry" where
  "config_lookup cfg key = (case cfg key of None \<Rightarrow> Inl (ConfigKeyError key) | Some c \<Rightarrow> Inr c)"

record agent_obj =
  ao_spec :: agent_spec
  ao_config :: yaml_entry

record task_obj =
  to_spec :: task_spec
  to_config :: yaml_entry

text \<open>An \<open>@agent\<close> method: \<open>Agent(config=self.agents_config[key], ...)\<close>.\<close>

definition make_agent :: "yaml_config \<Rightarrow> agent_spec \<Rightarrow> crew_error + agent_obj" where
  "make_agent agents_config a =
     (case config_lookup agents_config (agent_config_key a) of
        Inl e \<Rightarrow> Inl e
      | Inr c \<Rightarrow> Inr \<lparr>ao_spec = a, ao_config = c\<rparr>)"

text \<open>A \<open>@task\<close> method: \<open>Task(config=self.tasks_config[key], output_pydantic=M)\<close>.\<close>

definition make_task :: "yaml_config \<Rightarrow> task_spec \<Rightarrow> crew_error + task_obj" where
  "make_task tasks_config t =
     (case config_lookup tasks_config (task_config_key t) of
        Inl e \<Rightarrow> Inl e
      | Inr c \<Rightarrow> Inr \<lparr>to_spec = t, to_config = c\<rparr>)"

record crew_obj =
  co_agents :: "agent_obj list"
  co_tasks :: "task_obj list"
  co_manager :: agent_obj
  co_spec :: crew_spec

text \<open>\<open>crew()\<close> as CrewAI's \<open>@crew\<close> wrapper runs it: every \<open>@task\<close> method in definition
  order, then every \<open>@agent\<close> method, then the body, whose first statement builds the
  manager from \<open>self.agents_config['manager']\<close>.\<close>

definition build_crew :: "yaml_config \<Rightarrow> yaml_config \<Rightarrow> crew_error + crew_obj" where
  "build_crew agents_config tasks_config =
     (case map_or_raise (make_task tasks_config) equity_tasks of
        Inl e \<Rightarrow> Inl e
      | Inr tasks \<Rightarrow>
          (case map_or_raise (make_agent agents_config) equity_agents of
             Inl e \<Rightarrow> Inl e
           | Inr agents \<Rightarrow>
               (case make_agent agents_config (crew_manager equity_crew) of
                  Inl e \<Rightarrow> Inl e
                | Inr manager \<Rightarrow>
                    Inr \<lparr>co_agents = agents, co_tasks = tasks, co_manager = manager,
                         co_spec = equity_crew\<rparr>)))"

text \<open>\<open>EquityAnalyst().crew()\<close> on a given set of files.\<close>

definition equity_analyst :: "config_files \<Rightarrow> crew_error + crew_obj" where
  "equity_analyst fs =
     build_crew (crewbase_config fs agents_config_path) (crewbase_config fs tasks_config_path)"

section \<open>Lemmas\<close>

lemmas crew_defs = TrendingCompany_def TrendingCompanyList_def TrendingCompanyResearch_def
  TrendingCompanyResearchList_def output_models_def equity_agents_def equity_tasks_def
  equity_crew_def openai_rag_def

lemma make_agent_ok_iff [simp]:
  "\<not> isl (make_agent cfg a) \<longleftrightarrow> cfg (agent_config_key a) \<noteq> None"
  by (simp add: make_agent_def config_lookup_def split: option.splits)

lemma make_task_ok_iff [simp]:
  "\<not> isl (make_task cfg t) \<longleftrightarrow> cfg (task_config_key t) \<noteq> None"
  by (simp add: make_task_def config_lookup_def split: option.splits)

lemma isl_raise_case:
  "\<not> isl (case m of Inl e \<Rightarrow> Inl e | Inr x \<Rightarrow> g x) \<longleftrightarrow> \<not> isl m \<and> \<not> isl (g (projr m))"
  by (cases m) simp_all

text \<open>The crew is built exactly when both configurations hold every key its methods
  read.\<close>

lemma build_crew_ok_iff:
  "\<not> isl (build_crew acfg tcfg) \<longleftrightarrow>
     list_all (\<lambda>k. acfg k \<noteq> None) (map agent_config_key (equity_agents @ [crew_manager equity_crew])) \<and>
     list_all (\<lambda>k. tcfg k \<noteq> None) (map task_config_key equity_tasks)"
  by (auto simp add: build_crew_def isl_raise_case list_all_iff)

lemma build_crew_error:
  assumes "build_crew acfg tcfg = Inl (ConfigKeyError k)"
  shows "(k \<in> set (map agent_config_key (equity_agents @ [crew_manager equity_crew])) \<and> acfg k = None) \<or>
         (k \<in> set (map task_config_key equity_tasks) \<and> tcfg k = None)"
  using assms
  by (auto simp add: build_crew_def make_agent_def make_task_def config_lookup_def
      dest!: map_or_raise_Inl split: sum.splits option.splits)

lemma make_agent_Inr:
  "make_agent cfg a = Inr x \<Longrightarrow> ao_spec x = a \<and> cfg (agent_config_key a) = Some (ao_config x)"
  by (auto simp add: make_agent_def config_lookup_def split: option.splits)

lemma make_task_Inr:
  "make_task cfg t = Inr x \<Longrightarrow> to_spec x = t \<and> cfg (task_config_key t) = Some (to_config x)"
  by (auto simp add: make_task_def config_lookup_def split: option.splits)

text \<open>A built crew holds the methods' agents and tasks, in order, each configured with
  the entry under its key.\<close>

lemma build_crew_Inr:
  assumes "build_crew acfg tcfg = Inr c"
  shows "map (\<lambda>x. Some (ao_config x)) (co_agents c @ [co_manager c]) =
           map (\<lambda>a. acfg (agent_config_key a)) (equity_agents @ [crew_manager equity_crew])"
    and "map (\<lambda>x. Some (to_config x)) (co_tasks c) = map (\<lambda>t. tcfg (task_config_key t)) equity_tasks"
    and "map to_spec (co_tasks c) = equity_tasks"
    and "map ao_spec (co_agents c) = equity_agents"
proof -
  obtain ts ags m where ts: "map_or_raise (make_task tcfg) equity_tasks = Inr ts"
      and ags: "map_or_raise (make_agent acfg) equity_agents = Inr ags"
      and m: "make_agent acfg (crew_manager equity_crew) = Inr m"
      and c: "c = \<lparr>co_agents = ags, co_tasks = ts, co_manager = m, co_spec = equity_crew\<rparr>"
    using assms by (auto simp add: build_crew_def split: sum.split_asm)
  have a1: "map (\<lambda>x. Some (ao_config x)) ags = map (\<lambda>a. acfg (agent_config_key a)) equity_agents"
    by (rule map_or_raise_Inr_map [OF ags]) (auto dest: make_agent_Inr)
  have a2: "map ao_spec ags = map id equity_agents"
    by (rule map_or_raise_Inr_map [OF ags]) (auto dest: make_agent_Inr)
  have t1: "map (\<lambda>x. Some (to_config x)) ts = map (\<lambda>t. tcfg (task_config_key t)) equity_tasks"
    by (rule map_or_raise_Inr_map [OF ts]) (auto dest: make_task_Inr)
  have t2: "map to_spec ts = map id equity_tasks"
    by (rule map_or_raise_Inr_map [OF ts]) (auto dest: make_task_Inr)
  show "map (\<lambda>x. Some (ao_config x)) (co_agents c @ [co_manager c]) =
           map (\<lambda>a. acfg (agent_config_key a)) (equity_agents @ [crew_manager equity_crew])"
    using a1 make_agent_Inr [OF m] by (simp add: c)
  show "map (\<lambda>x. Some (to_config x)) (co_tasks c) = map (\<lambda>t. tcfg (task_config_key t)) equity_tasks"
    using t1 by (simp add: c)
  show "map to_spec (co_tasks c) = equity_tasks"
    using t2 by (simp add: c)
  show "map ao_spec (co_agents c) = equity_agents"
    using a2 by (simp add: c)
qed

end
