(* ===== verification/Entry_Points.thy ===== *)
theory Entry_Points
  imports Crew_Config
begin

text \<open>
  The two scripts around the agent frameworks, as module-level code with explicit
  effects. Both load \<open>.env\<close> files into the process environment with
  \<open>load_dotenv(..., override=True)\<close>: the environment is a map from variable names to
  values, a \<open>.env\<close> file is the list of its assignments in file order (the parsing of
  the file is python-dotenv's and is not modelled), and a file that does not exist is
  \<open>None\<close>. A raised exception is the \<open>Inl\<close> branch of a sum.

  \<^item> \<open>src/3_crew/equity_analyst/src/equity_analyst/main.py\<close>: the two \<open>.env\<close> paths
    computed from \<open>Path(__file__).resolve().parents\<close>, the loop that loads each existing
    one, and \<open>run()\<close>, which builds the crew of \<open>Crew_Config\<close>, kicks it off with
    \<open>{'sector': 'Technology'}\<close> and prints its raw result. A path is the list of its components from the root;
    \<open>parents[i]\<close> drops \<open>i + 1\<close> of them and raises \<open>IndexError\<close> past the root.
  \<^item> \<open>src/2_openai/deep_research/deep_research.py\<close>: the optional import of Gradio,
    the import of \<open>ResearchManager\<close>, \<open>load_dotenv(override=True)\<close>, the
    \<open>RuntimeError\<close> when Gradio is missing, the Blocks UI with its two event bindings,
    and the \<open>run\<close> handler, an async generator forwarding the research manager's
    chunks. Gradio streams each chunk a handler yields into the output component; the
    research manager itself is a parameter.
\<close>

datatype script_error =
    IndexError nat
  | ImportError string
  | RuntimeError string

type_synonym path = "string list"
type_synonym environ = "string \<rightharpoonup> string"
type_synonym dotenv_fs = "path \<Rightarrow> (string \<times> string) list option"

section \<open>Loading .env files\<close>

text \<open>\<open>PurePath.parents[i]\<close>.\<close>

definition path_parents :: "path \<Rightarrow> nat \<Rightarrow> script_error + path" where
  "path_parents p i = (if i < length p then Inr (take (length p - Suc i) p) else Inl (IndexError i))"

text \<open>\<open>load_dotenv(f, override=True)\<close>: every assignment of the file, in order, sets
  \<open>os.environ[k] = v\<close>.\<close>

definition load_dotenv_override :: "(string \<times> string) list \<Rightarrow> environ \<Rightarrow> environ" where
  "load_dotenv_override kvs env = foldl (\<lambda>e (k, v). e(k \<mapsto> v)) env kvs"

text \<open>\<open>for env_file in (...): if env_file.exists(): load_dotenv(env_file, override=True)\<close>.\<close>

definition load_env_files :: "dotenv_fs \<Rightarrow> path list \<Rightarrow> environ \<Rightarrow> environ" where
  "load_env_files fs files env =
     foldl (\<lambda>e f. case fs f of None \<Rightarrow> e | Some kvs \<Rightarrow> load_dotenv_override kvs e) env files"

text \<open>\<open>_ROOT_ENV = _CURRENT_FILE.parents[4] / ".env"\<close> and
  \<open>_PROJECT_ENV = _CURRENT_FILE.parents[2] / ".env"\<close>.\<close>

definition main_env_paths :: "path \<Rightarrow> script_error + path \<times> path" where
  "main_env_paths current_file =
     (case path_parents current_file 4 of
        Inl e \<Rightarrow> Inl e
      | Inr root_dir \<Rightarrow>
          (case path_parents current_file 2 of
             Inl e \<Rightarrow> Inl e
           | Inr project_dir \<Rightarrow> Inr (root_dir @ [''.env''], project_dir @ [''.env''])))"

text \<open>The module body of \<open>main.py\<close>: the environment it leaves behind.\<close>

definition main_module :: "path \<Rightarrow> dotenv_fs \<Rightarrow> environ \<Rightarrow> script_error + environ" where
  "main_module current_file fs env =
     (case main_env_paths current_file of
        Inl e \<Rightarrow> Inl e
      | Inr (root_env, project_env) \<Rightarrow> Inr (load_env_files fs [root_env, project_env] env))"

text \<open>\<open>run()\<close>: \<open>EquityAnalyst().crew()\<close> is built from the configuration files
  (\<open>equity_analyst\<close>, which raises \<open>KeyError\<close> for a missing key), then the crew's
  \<open>kickoff\<close>, a parameter from the crew and its inputs to the raw text of its result,
  runs; the two \<open>print\<close> calls are the lines written.\<close>

definition main_run ::
  "config_files \<Rightarrow> (crew_obj \<Rightarrow> (string \<times> string) list \<Rightarrow> string) \<Rightarrow> crew_error + string list" where
  "main_run fs kickoff =
     (let inputs = [(''sector'', ''Technology'')] in
      case equity_analyst fs of
        Inl e \<Rightarrow> Inl e
      | Inr crew \<Rightarrow>
          (let result = kickoff crew inputs
           in Inr [[CHR 0x0A, CHR 0x0A] @ ''=== FINAL DECISION==='' @ [CHR 0x0A, CHR 0x0A], result]))"

text \<open>The value a variable has after loading files in order: the last assignment of
  the last file that sets it, or its value before.\<close>

definition file_value :: "dotenv_fs \<Rightarrow> path \<Rightarrow> string \<Rightarrow> string option" where
  "file_value fs f k = (case fs f of None \<Rightarrow> None | Some kvs \<Rightarrow> map_of (rev kvs) k)"

section \<open>The deep-research UI\<close>

text \<open>A Gradio component: its constructor and keyword arguments.\<close>

record gr_component =
  comp_kind :: string
  comp_kwargs :: "(string \<times> string) list"

text \<open>\<open>component.event(fn=..., inputs=..., outputs=...)\<close>: components are named by the
  module's variables, the handler is the function itself, from the input's text to the
  chunks it yields.\<close>

record gr_binding =
  bind_component :: string
  bind_event :: string
  bind_fn :: "string \<Rightarrow> string list"
  bind_inputs :: string
  bind_outputs :: string

record gr_blocks =
  blocks_theme_hue :: string
  blocks_components :: "(string \<times> gr_component) list"
  blocks_bindings :: "gr_binding list"
  blocks_inbrowser :: bool

definition gradio_missing_message :: string where
  "gradio_missing_message =
     ''gradio is required to launch the UI. Install it with `pip install gradio` in the project environment.''"

text \<open>\<open>async def run(query)\<close>: yields every chunk of \<open>ResearchManager().run(query)\<close>.\<close>

definition deep_research_run :: "(string \<Rightarrow> string list) \<Rightarrow> string \<Rightarrow> string list" where
  "deep_research_run manager query = [chunk. chunk \<leftarrow> manager query]"

text \<open>Lines 25 to 34: the UI built inside \<open>with gr.Blocks(...) as ui\<close> and launched.\<close>

definition deep_research_ui :: "(string \<Rightarrow> string list) \<Rightarrow> gr_blocks" where
  "deep_research_ui manager =
     \<lparr>blocks_theme_hue = ''sky'',
      blocks_components =
        [(''_'', \<lparr>comp_kind = ''Markdown'', comp_kwargs = [(''value'', ''# Deep Research'')]\<rparr>),
         (''query_textbox'', \<lparr>comp_kind = ''Textbox'',
            comp_kwargs = [(''label'', ''What topic would you like to research?'')]\<rparr>),
         (''run_button'', \<lparr>comp_kind = ''Button'',
            comp_kwargs = [(''value'', ''Run''), (''variant'', ''primary'')]\<rparr>),
         (''report'', \<lparr>comp_kind = ''Markdown'', comp_kwargs = [(''label'', ''Report'')]\<rparr>)],
      blocks_bindings =
        [\<lparr>bind_component = ''run_button'', bind_event = ''click'', bind_fn = deep_research_run manager,
          bind_inputs = ''query_textbox'', bind_outputs = ''report''\<rparr>,
         \<lparr>bind_component = ''query_textbox'', bind_event = ''submit'', bind_fn = deep_research_run manager,
          bind_inputs = ''query_textbox'', bind_outputs = ''report''\<rparr>],
      blocks_inbrowser = True\<rparr>"

text \<open>The module body, in its order: the guarded import of Gradio (lines 3 to 7), the
  import of \<open>ResearchManager\<close> (line 9), \<open>load_dotenv(override=True)\<close> on the \<open>.env\<close>
  file it finds (line 11, \<open>None\<close> when there is none), the \<open>RuntimeError\<close> (lines 19
  to 23), then the UI.\<close>

definition deep_research_module ::
  "(string \<Rightarrow> string list) \<Rightarrow> bool \<Rightarrow> bool \<Rightarrow> (string \<times> string) list option \<Rightarrow> environ \<Rightarrow>
     script_error + environ \<times> gr_blocks" where
  "deep_research_module manager gradio_installed research_manager_found dotenv env =
     (let gr = (if gradio_installed then Some () else None) in
      if \<not> research_manager_found then Inl (ImportError ''research_manager'')
      else let env' = (case dotenv of None \<Rightarrow> env | Some kvs \<Rightarrow> load_dotenv_override kvs env) in
        if gr = None then Inl (RuntimeError gradio_missing_message)
        else Inr (env', deep_research_ui manager))"

section \<open>Lemmas\<close>

lemma load_dotenv_override_lookup:
  "load_dotenv_override kvs env k = (case map_of (rev kvs) k of Some v \<Rightarrow> Some v | None \<Rightarrow> env k)"
proof (induction kvs arbitrary: env rule: rev_induct)
  case Nil
  then show ?case by (simp add: load_dotenv_override_def)
next
  case (snoc kv kvs)
  then show ?case by (cases kv) (simp add: load_dotenv_override_def)
qed

text \<open>Of two files loaded in order, the second wins.\<close>

lemma load_env_files_pair:
  "load_env_files fs [f1, f2] env k =
     (case file_value fs f2 k of
        Some v \<Rightarrow> Some v
      | None \<Rightarrow> (case file_value fs f1 k of Some v \<Rightarrow> Some v | None \<Rightarrow> env k))"
  by (simp add: load_env_files_def file_value_def load_dotenv_override_lookup split: option.splits)

end
