(* ===== verification/Spec2Isabelle.thy ===== *)
theory Spec2Isabelle
  imports Ledger_Spec Variants Reports Liquidation Concurrency Variant_Refinement Entry_Points
    Crew_Config
begin

text \<open>
  \<^bold>\<open>A verified model of the brokerage ledger of ai_agents.\<close>

  \<^medskip>\<^bold>\<open>The program.\<close> The repository's only component with state and invariants is
  the single-owner brokerage ledger \<open>Account\<close>, of which the sources hold three
  variants generated by an agent crew, all under \<open>src/3_crew/engineering_team/\<close>:
  \<^item> \<open>example_output_4o/accounts.py\<close> (the 4o variant): a \<open>Transaction\<close> dataclass,
    an \<open>Account\<close> with a clamped opening deposit, a \<open>_net_deposits\<close> profit baseline,
    boolean results, and a price oracle passed as a parameter;
  \<^item> \<open>example_output_mini/accounts.py\<close>: raises \<open>ValueError\<close> on invalid input, a
    case-sensitive price table, \<open>initial_deposit\<close> as profit baseline, string reports;
  \<^item> \<open>example_output_new/accounts.py\<close>: boolean results, an upper-casing price table,
    \<open>initial_deposit\<close> as profit baseline, a report dict.
  Each variant's only collaborator is a price oracle \<open>get_share_price\<close> (a fixed table
  with 0.0 for an unknown symbol). A caller (a UI or an agent tool) constructs an account
  and calls its methods in any order, possibly from several threads. Around the ledger
  sit two scripts: the equity-analyst crew (\<open>src/3_crew/equity_analyst/src/
  equity_analyst/crew.py\<close>, its CrewAI configuration, and \<open>main.py\<close>, which loads
  \<open>.env\<close> files and kicks the crew off) and the deep-research Gradio UI
  (\<open>src/2_openai/deep_research/deep_research.py\<close>).

  \<^medskip>\<^bold>\<open>The library, theory by theory.\<close>
  \<^item> \<open>Py_Prelude\<close>: Python dicts as association lists in insertion order
    (\<open>AList.update\<close> is \<open>d[k] = v\<close>, \<open>AList.delete\<close> is \<open>del d[k]\<close>,
    \<open>dict_get\<close> is \<open>d.get(k, dflt)\<close>, \<open>dict_sum\<close> is \<open>sum(...)\<close> over the items),
    \<open>str.upper\<close> on ASCII as \<open>py_upper\<close>; lemmas on lookups after updates and
    deletions, distinct keys, sums over items after an update or a deletion.
  \<^item> \<open>Prices\<close>: \<open>PRICE_MAP\<close>, \<open>get_share_price\<close> (4o), \<open>mini_get_share_price\<close> and
    \<open>new_get_share_price\<close>; when each is positive, and how upper-casing affects it.
  \<^item> \<open>Account\<close>: the 4o variant. The record \<open>account\<close> is the object's fields, the
    record \<open>transaction\<close> the dataclass; \<open>init_account\<close> is \<open>__init__\<close>; \<open>deposit\<close>,
    \<open>withdraw\<close>, \<open>buy_shares\<close>, \<open>sell_shares\<close> return the method's boolean and the new
    state; \<open>get_holdings\<close>, \<open>get_transactions\<close>, \<open>get_profit_or_loss\<close> are the
    accessors. Lemmas: each method's success condition and effect on every field, the
    unchanged account on failure, the value of the holdings after a trade, and the
    invariant \<open>account_inv\<close> (non-negative cash, distinct keys, positive counts) kept
    by every method.
  \<^item> \<open>Account_Runs\<close>: a call as the datatype \<open>account_op\<close>, \<open>apply_op\<close> and
    \<open>run_ops\<close> for sequences of calls, \<open>reachable\<close> (inductive: the constructor, then any
    call with any arguments and any oracle), the accounting invariant
    \<open>log_consistent\<close> that the log explains cash, net deposits and every share count,
    and \<open>txn_wf\<close>, the spec's shape of a logged transaction, kept by every call.
  \<^item> \<open>Ledger_Spec\<close>: the spec's abstract ledger (cash, a multiset portfolio, the owner's
    net contribution) with partial operations \<open>spec_deposit\<close>, \<open>spec_withdraw\<close>,
    \<open>spec_buy\<close>, \<open>spec_sell\<close> and the valuation \<open>spec_profit\<close>; \<open>abs_account\<close> reads
    a 4o account as such a ledger, and the refinement lemmas show each method and the
    profit computation implement their abstract counterpart on well-formed accounts;
    \<open>spec_run\<close> drives the abstract ledger by a sequence of operations, and
    \<open>run_ops\<close> refines it.
  \<^item> \<open>Liquidation\<close>: closing an account out. \<open>liquidate_ops\<close> sells every item of
    \<open>get_holdings()\<close>; \<open>liquidate_loop\<close> is a caller's loop \<open>while get_holdings():
    sell the first item\<close>, a \<open>partial_function (option)\<close> because it spins forever when
    a sale fails. Lemmas: a sale of a whole first holding at a positive price succeeds and
    removes it; the loop returns exactly when every held symbol is priced, and then ends
    where the list of sales ends.
  \<^item> \<open>Concurrency\<close>: the four methods split into their statements
    (\<open>deposit_step\<close>, \<open>withdraw_step\<close>, \<open>buy_step\<close>, \<open>sell_step\<close> on a
    \<open>call_state\<close> holding the call and its locals), with the \<open>KeyError\<close> of
    \<open>self._holdings[symbol]\<close> as a thread's exception, and several calls interleaved by a
    schedule of thread indices. Lemmas: a call run without interruption is the method,
    a serial schedule is \<open>run_ops\<close>, and the races of two buyers and of two sellers on
    any account.
  \<^item> \<open>Account_Mini\<close> and \<open>Account_New\<close>: the other two variants in the same style, with
    \<open>ValueError\<close> as the \<open>Inl\<close> branch of \<open>py_exc + mini_account\<close>, their
    reachable states and invariants.
  \<^item> \<open>Reports\<close>: the mini variant's \<open>report_holdings\<close> and \<open>report_transactions\<close>,
    with Python's \<open>str\<close> of an int (\<open>py_str_int\<close>), \<open>f"{x:.2f}"\<close> (\<open>fmt_2f\<close>:
    the exact value rounded to cents, ties to even) and \<open>", ".join\<close> (\<open>py_join\<close>),
    and parsers for the printed numbers.
  \<^item> \<open>Variants\<close>: the translation of a mini or new call into the same 4o call, and the
    lemmas that the variants take the same decisions from agreeing states.
  \<^item> \<open>Variant_Refinement\<close>: \<open>abs_mini\<close> and \<open>abs_new\<close> read a mini or new account as
    the abstract ledger, with the owner's contribution taken from the logged deposits and
    withdrawals; refinement of every call, and the valuations against the spec's.
  \<^item> \<open>Entry_Points\<close>: \<open>main.py\<close> (the \<open>.env\<close> paths from \<open>Path.parents\<close>, the loading
    loop with \<open>override=True\<close>, \<open>run()\<close> building the crew and kicking it off) and \<open>deep_research.py\<close> (the guarded
    import, \<open>load_dotenv\<close>, the \<open>RuntimeError\<close>, the Blocks UI with its bindings, the
    streaming \<open>run\<close> handler), with the environment as a map and exceptions as \<open>Inl\<close>.
  \<^item> \<open>Crew_Config\<close>: \<open>crew.py\<close>'s Pydantic output schemas (with the \<open>FieldInfo\<close> each
    \<open>Field(...)\<close> call builds), agents, tasks, manager and memory stores as data, and
    \<open>EquityAnalyst().crew()\<close> built from the YAML files that \<open>@CrewBase\<close> loads for
    \<open>agents_config\<close> and \<open>tasks_config\<close>: every \<open>config[key]\<close> of an \<open>@task\<close>,
    \<open>@agent\<close> or the manager is a lookup that raises \<open>KeyError\<close>, in the order CrewAI's
    \<open>@crew\<close> wrapper calls them (tasks, agents, body); lists built by calls that may
    raise are \<open>map_or_raise\<close> of the prelude.
  \<^item> This theory: the properties of the manifest, C1 to C34, with their witnesses.

  \<^medskip>\<^bold>\<open>What the properties show.\<close> Invariants of every reachable state of each variant
  (C1, C7, C11, C14) and the shape of every logged transaction (C24); refinement of the
  spec's abstract ledger by all three variants (C2, C8, C30, C31) and how the variants'
  profit departs from the spec's (C9, C32); failure without effect (C3); the
  transaction-count and append-only laws (C4, C20); the buy/sell round trip (C5); profit
  neutrality of cash movements and of trades at the quoted price (C6, C19); the behaviour
  of single methods (C18, C21); the agreement of the three variants and where they
  diverge from each other and from the spec (C10, C12, C13, C15, C16, C17); the round
  trip of the quantity in the mini variant's printed report and the rounding bound of its
  amounts (C22, C23); that every account can be closed out (C25), when the close-out loop
  terminates (C26) and what it realises (C27); that with a lock concurrent callers behave
  as the spec's ledger run one operation after the other (C28), and that without one, on
  any account, two buyers overdraw it and two sellers credit twice and leave a negative
  holding or raise \<open>KeyError\<close> (C29); and the scripts: which \<open>.env\<close> wins (C33), and
  what building the crew reads from its configuration files (C34).

  \<^medskip>\<^bold>\<open>Modelling choices.\<close> Python floats are real numbers: the model has no rounding
  and no NaN, so its theorems hold for exact arithmetic (for instance the round trip of a
  buy and a sell restores the balance exactly, which binary floats need not do). Python
  ints (share quantities) are \<open>int\<close>. A price oracle is any function from symbols to
  reals: the 4o theorems hold for every oracle, and the default is \<open>get_share_price\<close>.
  Object identity is not modelled: every accessor returns a value, so the defensive copies
  of \<open>get_holdings\<close> and \<open>get_transactions\<close> are the identity here. The reads
  \<open>self._holdings[symbol]\<close> in the sell methods use \<open>the (map_of ...)\<close>; the lemmas
  show the key is present whenever they run, so the \<open>KeyError\<close> branch is unreachable.
  The methods' loops run over a dict's items and are structural recursion (\<open>foldl\<close>,
  \<open>sum_list\<close>), so no fuel is needed and every definition is executable by \<open>simp\<close>.
  The one loop that need not end, the caller's close-out loop, is a
  \<open>partial_function (option)\<close>, and C26 proves exactly when it returns. Threads
  interleave at statement granularity, coarser than CPython's bytecode switches, so
  every interleaving of the model is also one of the interpreter.

  \<^medskip>\<^bold>\<open>Not modelled.\<close> What CrewAI, the language models and the research manager do
  once kicked off: \<open>crew.py\<close> is modelled as the configuration it passes and the
  lookups that build the crew, and the crew's \<open>kickoff\<close> and
  \<open>ResearchManager().run\<close> are parameters. The YAML parsing of the configuration
  files, and CrewAI's checks of the entries they hold (the \<open>role\<close>, \<open>goal\<close> and
  \<open>agent\<close> fields), are the framework's: an entry is the list of its settings. python-dotenv's parsing
  of a \<open>.env\<close> file: a file is the list of assignments it yields. Gradio's runtime
  (event dispatch and streaming): the UI is the data of its components and bindings. The
  import statements of \<open>main.py\<close> are assumed to succeed. A missing YAML file loads as
  an empty configuration, as current CrewAI releases do. The printed reports format the exact real, so they agree with
  Python's output wherever the float is the value written (as for the table prices); a
  binary float such as 0.005 is slightly above its decimal and Python prints it as 0.01,
  the model as 0.00.
\<close>

section \<open>The spec's starting account\<close>

definition scenario_start :: account where
  "scenario_start = init_account ''acct'' 1000"

section \<open>Properties of the 4o ledger\<close>

text \<open>C1. In every reachable state of a 4o account the cash balance is non-negative, every
  holding has a positive share count, and no symbol is held twice.\<close>

theorem reachable_account_invariant:
  "reachable a \<Longrightarrow>
     0 \<le> balance a \<and> (\<forall>kv \<in> set (holdings a). 0 < snd kv) \<and> distinct (map fst (holdings a))"
  using reachable_inv [of a] by (simp add: account_inv_def dict_all_values_def dict_distinct_def)

theorem reachable_account_invariant_witness:
  "reachable (snd (buy_shares scenario_start ''AAPL'' 2 get_share_price)) \<and>
   0 \<le> balance (snd (buy_shares scenario_start ''AAPL'' 2 get_share_price))"
proof -
  have r: "reachable (snd (buy_shares scenario_start ''AAPL'' 2 get_share_price))"
    using reachable.step [OF reachable.init, of "''acct''" 1000 "Buy ''AAPL'' 2 get_share_price"]
    by (simp add: scenario_start_def)
  show ?thesis using reachable_account_invariant [OF r] r by simp
qed

text \<open>C2. On every reachable account, each call of deposit, withdraw, buy_shares or
  sell_shares refines the spec's abstract operation: it succeeds exactly when the abstract
  precondition holds, and then its new state is the abstract result.\<close>

theorem apply_op_refines_spec:
  "reachable a \<Longrightarrow>
     spec_step (abs_account a) op =
       (if fst (apply_op a op) then Some (abs_account (snd (apply_op a op))) else None)"
  using reachable_inv [of a]
  by (cases op) (simp_all add: deposit_refines withdraw_refines buy_shares_refines
      sell_shares_refines)

theorem apply_op_refines_spec_witness:
  "reachable scenario_start \<and>
   spec_step (abs_account scenario_start) (Buy ''AAPL'' 2 get_share_price) =
     Some (abs_account (snd (buy_shares scenario_start ''AAPL'' 2 get_share_price)))"
proof -
  have r: "reachable scenario_start" by (simp add: scenario_start_def reachable.init)
  have ok: "fst (buy_shares scenario_start ''AAPL'' 2 get_share_price)"
    by (simp add: scenario_start_def buy_shares_def init_account_def price_table_defs py_upper_eval)
  show ?thesis using apply_op_refines_spec [OF r, of "Buy ''AAPL'' 2 get_share_price"] r ok
    by simp
qed

text \<open>C3. A call that fails (returns False) leaves the account unchanged: balance, net
  deposits, holdings and the transaction log are all as before.\<close>

theorem failed_call_is_noop:
  "\<not> fst (apply_op a op) \<Longrightarrow> snd (apply_op a op) = a"
  by (rule apply_op_fail)

theorem failed_call_is_noop_witness:
  "\<not> fst (apply_op (snd (buy_shares scenario_start ''AAPL'' 2 get_share_price)) (Withdraw 800)) \<and>
   snd (apply_op (snd (buy_shares scenario_start ''AAPL'' 2 get_share_price)) (Withdraw 800)) =
     snd (buy_shares scenario_start ''AAPL'' 2 get_share_price)"
proof -
  have f: "\<not> fst (apply_op (snd (buy_shares scenario_start ''AAPL'' 2 get_share_price)) (Withdraw 800))"
    by (simp add: scenario_start_def buy_shares_def withdraw_def init_account_def
        price_table_defs py_upper_eval)
  show ?thesis using failed_call_is_noop [OF f] f by simp
qed

text \<open>C4. Transaction-count law: a run of calls from a fresh account leaves one
  transaction per successful call, plus the opening deposit when the initial deposit is
  positive.\<close>

theorem transaction_count_law:
  "length (transactions (snd (run_ops (init_account aid d) ops))) =
     (if 0 < d then 1 else 0) + count_list (fst (run_ops (init_account aid d) ops)) True"
  by (simp add: length_run_ops init_account_def Let_def)

text \<open>C5. Round trip: on a reachable account, buying some shares and then selling the
  same quantity of the same symbol at the same oracle succeeds and restores the balance,
  the net deposits and the holdings dict exactly (a symbol not held before is removed
  again).\<close>

theorem buy_then_sell_restores:
  assumes "reachable a" and "fst (buy_shares a s q p)"
  shows "fst (sell_shares (snd (buy_shares a s q p)) s q p) \<and>
         balance (snd (sell_shares (snd (buy_shares a s q p)) s q p)) = balance a \<and>
         net_deposits (snd (sell_shares (snd (buy_shares a s q p)) s q p)) = net_deposits a \<and>
         holdings (snd (sell_shares (snd (buy_shares a s q p)) s q p)) = holdings a"
proof -
  let ?a1 = "snd (buy_shares a s q p)"
  have inv: "account_inv a" by (rule reachable_inv [OF assms(1)])
  have g: "0 \<le> dict_get (holdings a) s 0" by (rule account_inv_get_nonneg [OF inv])
  from assms(2) have q: "0 < q" "0 < p s" by (simp_all add: buy_shares_success_iff)
  have h1: "holdings ?a1 = AList.update s (dict_get (holdings a) s 0 + q) (holdings a)"
    using assms(2) by (simp add: buy_shares_ok)
  have sell: "fst (sell_shares ?a1 s q p)"
    using q g h1 by (simp add: sell_shares_success_iff)
  have "sold_holdings (holdings ?a1) s q = holdings a"
  proof (cases "dict_get (holdings a) s 0 = 0")
    case True
    then have "s \<notin> dict_keys (holdings a)"
      using account_inv_get_zero [OF inv] by simp
    with True h1 show ?thesis
      by (simp add: sold_holdings_def delete_update_absent)
  next
    case False
    then have "map_of (holdings a) s = Some (dict_get (holdings a) s 0)"
      using g q dict_get_pos_present [of "dict_get (holdings a) s 0" "holdings a" s] by simp
    with False h1 show ?thesis
      by (simp add: sold_holdings_def update_triv)
  qed
  with sell assms(2) show ?thesis
    by (simp add: sell_shares_ok buy_shares_ok)
qed

theorem buy_then_sell_restores_witness:
  "reachable scenario_start \<and> fst (buy_shares scenario_start ''AAPL'' 2 get_share_price) \<and>
   balance (snd (sell_shares (snd (buy_shares scenario_start ''AAPL'' 2 get_share_price))
     ''AAPL'' 2 get_share_price)) = balance scenario_start"
proof -
  have r: "reachable scenario_start" by (simp add: scenario_start_def reachable.init)
  have ok: "fst (buy_shares scenario_start ''AAPL'' 2 get_share_price)"
    by (simp add: scenario_start_def buy_shares_def init_account_def price_table_defs py_upper_eval)
  show ?thesis using buy_then_sell_restores [OF r ok] r ok by simp
qed

text \<open>C6. Depositing or withdrawing cash never changes the 4o variant's profit or loss:
  the net-deposit baseline moves with the cash, whatever the oracle.\<close>

theorem cash_moves_profit_neutral:
  "get_profit_or_loss (snd (deposit a x)) p = get_profit_or_loss a p \<and>
   get_profit_or_loss (snd (withdraw a x)) p = get_profit_or_loss a p"
proof -
  have d: "get_profit_or_loss (snd (deposit a x)) p = get_profit_or_loss a p"
    by (cases "fst (deposit a x)") (simp_all add: deposit_ok ops_fail get_profit_or_loss_def)
  have w: "get_profit_or_loss (snd (withdraw a x)) p = get_profit_or_loss a p"
    by (cases "fst (withdraw a x)") (simp_all add: withdraw_ok ops_fail get_profit_or_loss_def)
  from d w show ?thesis ..
qed

text \<open>C7. The 4o transaction log explains the account: in every reachable state the
  balance is the net cash the logged transactions moved, the net deposits are the logged
  deposits minus withdrawals, every symbol's share count is the logged buys minus sells
  of it, and the last logged balance snapshot is the current balance.\<close>

theorem reachable_log_explains_state:
  "reachable a \<Longrightarrow>
     balance a = log_cash (transactions a) \<and>
     net_deposits a = log_net_deposits (transactions a) \<and>
     dict_get (holdings a) s 0 = log_shares s (transactions a) \<and>
     (transactions a \<noteq> [] \<longrightarrow> tx_balance (last (transactions a)) = balance a)"
  using reachable_log_consistent_aux [of a] by (auto simp add: log_consistent_def)

theorem reachable_log_explains_state_witness:
  "reachable (snd (buy_shares scenario_start ''AAPL'' 2 get_share_price)) \<and>
   dict_get (holdings (snd (buy_shares scenario_start ''AAPL'' 2 get_share_price))) ''AAPL'' 0 =
     log_shares ''AAPL'' (transactions (snd (buy_shares scenario_start ''AAPL'' 2 get_share_price)))"
proof -
  have r: "reachable (snd (buy_shares scenario_start ''AAPL'' 2 get_share_price))"
    using reachable.step [OF reachable.init, of "''acct''" 1000 "Buy ''AAPL'' 2 get_share_price"]
    by (simp add: scenario_start_def)
  show ?thesis using reachable_log_explains_state [OF r, of "''AAPL''"] r by simp
qed

text \<open>C8. On every reachable 4o account, get_profit_or_loss computes the spec's profit:
  the cash plus the quoted value of every held share, minus the net deposits.\<close>

theorem profit_or_loss_refines_spec:
  "reachable a \<Longrightarrow> get_profit_or_loss a p = spec_profit p (abs_account a)"
  using profit_refines [of a p] reachable_inv [of a] by simp

theorem profit_or_loss_refines_spec_witness:
  "reachable scenario_start \<and>
   get_profit_or_loss scenario_start get_share_price =
     spec_profit get_share_price (abs_account scenario_start)"
proof -
  have r: "reachable scenario_start" by (simp add: scenario_start_def reachable.init)
  show ?thesis using profit_or_loss_refines_spec [OF r] r by simp
qed

section \<open>Properties of the mini and new ledgers\<close>

text \<open>C9. In the mini and new variants a deposit raises the reported profit by the amount
  deposited, because their baseline is the fixed initial deposit, not the net deposits.\<close>

theorem deposit_counts_as_profit:
  "0 < x \<Longrightarrow>
     mini_profit_or_loss (mini_deposit m x) = mini_profit_or_loss m + x \<and>
     new_calculate_profit_or_loss (new_deposit_funds n x) = new_calculate_profit_or_loss n + x"
  by (simp add: mini_profit_or_loss_def mini_portfolio_value_def mini_deposit_def
      new_calculate_profit_or_loss_def new_calculate_portfolio_value_def new_deposit_funds_def
      foldl_value_shift)

theorem deposit_counts_as_profit_witness:
  "0 < (100::real) \<and>
   mini_profit_or_loss (mini_deposit (mini_init ''u'' 1000) 100) =
     mini_profit_or_loss (mini_init ''u'' 1000) + 100"
  using deposit_counts_as_profit [of 100 "mini_init ''u'' 1000" "new_init ''u'' 1000"] by simp

text \<open>C10. A negative initial deposit: the mini and new constructors keep it, so the
  account starts with a negative balance; the 4o constructor clamps it to an empty
  account with balance 0 and no opening transaction.\<close>

theorem negative_initial_deposit:
  "d < 0 \<Longrightarrow>
     mini_balance (mini_init uid d) < 0 \<and> new_balance (new_init uid d) < 0 \<and>
     balance (init_account uid d) = 0 \<and> transactions (init_account uid d) = []"
  by (simp add: mini_init_def new_init_def init_account_def Let_def)

theorem negative_initial_deposit_witness:
  "(-100::real) < 0 \<and> mini_balance (mini_init ''u'' (-100)) < 0"
  using negative_initial_deposit [of "-100" "''u''"] by simp

text \<open>C11. Every reachable mini account opened with a non-negative deposit has a
  non-negative balance, positive share counts, distinct symbols, and holds only symbols
  of its price table.\<close>

theorem mini_reachable_invariant:
  "mini_reachable m \<Longrightarrow> 0 \<le> mini_initial_deposit m \<Longrightarrow>
     0 \<le> mini_balance m \<and> (\<forall>kv \<in> set (mini_holdings m). 0 < snd kv) \<and>
     distinct (map fst (mini_holdings m)) \<and>
     fst ` set (mini_holdings m) \<subseteq> {''AAPL'', ''TSLA'', ''GOOGL''}"
  using mini_reachable_inv_aux [of m]
  by (simp add: mini_inv_def dict_all_values_def dict_distinct_def dict_keys_def known_symbols_def)

theorem mini_reachable_invariant_witness:
  "mini_reachable (mini_after (mini_init ''u'' 1000) (Mini_Op_Buy ''AAPL'' 2)) \<and>
   0 \<le> mini_initial_deposit (mini_after (mini_init ''u'' 1000) (Mini_Op_Buy ''AAPL'' 2)) \<and>
   0 \<le> mini_balance (mini_after (mini_init ''u'' 1000) (Mini_Op_Buy ''AAPL'' 2))"
proof -
  have r: "mini_reachable (mini_after (mini_init ''u'' 1000) (Mini_Op_Buy ''AAPL'' 2))"
    by (rule mini_reachable.step [OF mini_reachable.init])
  have d: "0 \<le> mini_initial_deposit (mini_after (mini_init ''u'' 1000) (Mini_Op_Buy ''AAPL'' 2))"
    by (simp add: mini_init_def)
  show ?thesis using mini_reachable_invariant [OF r d] r d by simp
qed

text \<open>C12. The mini sell_shares does not check the price, yet in every reachable mini
  account a sale that succeeds is made at a positive price: only priced symbols are
  ever held.\<close>

theorem mini_sale_is_priced:
  "mini_reachable m \<Longrightarrow> mini_sell_shares m s q = Inr m' \<Longrightarrow> 0 < mini_get_share_price s"
  using mini_reachable_keys_known [of m] dict_get_pos_key [of q "mini_holdings m" s]
  by (auto simp add: mini_keys_known_def mini_sell_shares_Inr mini_get_share_price_pos_iff)

theorem mini_sale_is_priced_witness:
  "mini_reachable (mini_after (mini_init ''u'' 1000) (Mini_Op_Buy ''AAPL'' 2)) \<and>
   mini_sell_shares (mini_after (mini_init ''u'' 1000) (Mini_Op_Buy ''AAPL'' 2)) ''AAPL'' 2 =
     Inr (mini_after (mini_after (mini_init ''u'' 1000) (Mini_Op_Buy ''AAPL'' 2))
       (Mini_Op_Sell ''AAPL'' 2)) \<and>
   0 < mini_get_share_price ''AAPL''"
proof -
  let ?m = "mini_after (mini_init ''u'' 1000) (Mini_Op_Buy ''AAPL'' 2)"
  have r: "mini_reachable ?m" by (rule mini_reachable.step [OF mini_reachable.init])
  have s: "mini_sell_shares ?m ''AAPL'' 2 = Inr (mini_after ?m (Mini_Op_Sell ''AAPL'' 2))"
    by (simp add: mini_after_def mini_init_def mini_buy_shares_def mini_sell_shares_def
        price_table_defs Let_def)
  show ?thesis using mini_sale_is_priced [OF r s] r s by simp
qed

text \<open>C13. The new sell_shares does not check the price either; in every reachable new
  account a successful sale is made at a positive price, because a symbol is only ever
  held after a purchase at a positive price.\<close>

theorem new_sale_is_priced:
  "new_reachable n \<Longrightarrow> fst (new_sell_shares n s q) \<Longrightarrow> 0 < new_get_share_price s"
  using new_reachable_holdings_inv [of n] dict_get_pos_key [of q "new_holdings n" s]
  by (auto simp add: new_holdings_inv_def new_sell_shares_success_iff)

theorem new_sale_is_priced_witness:
  "new_reachable (snd (new_buy_shares (new_init ''u'' 1000) ''aapl'' 2)) \<and>
   fst (new_sell_shares (snd (new_buy_shares (new_init ''u'' 1000) ''aapl'' 2)) ''aapl'' 2) \<and>
   0 < new_get_share_price ''aapl''"
proof -
  let ?n = "snd (new_buy_shares (new_init ''u'' 1000) ''aapl'' 2)"
  have r: "new_reachable ?n"
    using new_reachable.step [OF new_reachable.init, of "''u''" 1000 "New_Op_Buy ''aapl'' 2"]
    by simp
  have s: "fst (new_sell_shares ?n ''aapl'' 2)"
    by (simp add: new_buy_shares_def new_sell_shares_def new_init_def price_table_defs
        py_upper_eval)
  show ?thesis using new_sale_is_priced [OF r s] r s by simp
qed

text \<open>C14. Every reachable new account opened with a non-negative deposit keeps a
  non-negative balance.\<close>

theorem new_reachable_nonneg_balance:
  "new_reachable n \<Longrightarrow> 0 \<le> new_initial_deposit n \<Longrightarrow> 0 \<le> new_balance n"
proof (induction rule: new_reachable.induct)
  case (init uid d)
  then show ?case by (simp add: new_init_def)
next
  case (step a op)
  then show ?case by (simp add: new_balance_step)
qed

theorem new_reachable_nonneg_balance_witness:
  "new_reachable (new_init ''u'' 1000) \<and> 0 \<le> new_initial_deposit (new_init ''u'' 1000) \<and>
   0 \<le> new_balance (new_init ''u'' 1000)"
proof -
  have r: "new_reachable (new_init ''u'' 1000)" by (rule new_reachable.init)
  have d: "0 \<le> new_initial_deposit (new_init ''u'' 1000)" by (simp add: new_init_def)
  show ?thesis using new_reachable_nonneg_balance [OF r d] r d by simp
qed

text \<open>C15. The new variant takes the same decisions as the 4o variant with the default
  oracle: from a reachable new account whose balance and holdings equal a 4o account's,
  withdraw_funds, buy_shares and sell_shares return the same boolean as the 4o calls,
  deposit_funds (which returns None) takes effect exactly when the 4o deposit returns
  True, and afterwards balances and holdings are again equal.\<close>

theorem new_agrees_with_4o:
  assumes "new_reachable n" and "new_balance n = balance a" and "new_holdings n = holdings a"
  shows "fst (new_apply n op) = fst (apply_op a (new_as_4o op)) \<and>
         new_balance (snd (new_apply n op)) = balance (snd (apply_op a (new_as_4o op))) \<and>
         new_holdings (snd (new_apply n op)) = holdings (snd (apply_op a (new_as_4o op)))"
proof (cases op)
  case (New_Op_Buy s q)
  with assms(2,3) show ?thesis by (simp add: new_buy_as_4o)
next
  case (New_Op_Sell s q)
  with assms new_reachable_holdings_inv [OF assms(1)] show ?thesis by (simp add: new_sell_as_4o)
qed (use assms(2,3) in \<open>auto simp add: new_deposit_funds_def new_withdraw_funds_def
      deposit_def withdraw_def Let_def\<close>)

theorem new_agrees_with_4o_witness:
  "new_reachable (new_init ''u'' 1000) \<and> new_balance (new_init ''u'' 1000) = balance scenario_start \<and>
   new_holdings (new_init ''u'' 1000) = holdings scenario_start \<and>
   fst (new_apply (new_init ''u'' 1000) (New_Op_Buy ''TSLA'' 1)) =
     fst (apply_op scenario_start (new_as_4o (New_Op_Buy ''TSLA'' 1)))"
proof -
  have r: "new_reachable (new_init ''u'' 1000)" by (rule new_reachable.init)
  have b: "new_balance (new_init ''u'' 1000) = balance scenario_start"
    by (simp add: new_init_def scenario_start_def init_account_def)
  have h: "new_holdings (new_init ''u'' 1000) = holdings scenario_start"
    by (simp add: new_init_def scenario_start_def init_account_def)
  show ?thesis using new_agrees_with_4o [OF r b h, of "New_Op_Buy ''TSLA'' 1"] r b h by simp
qed

text \<open>C16. The mini variant's exceptions are the 4o variant's False results: from a
  reachable mini account whose balance and holdings equal a 4o account's, a withdraw, buy
  or sell on an upper-case symbol raises ValueError exactly when the 4o call returns
  False, a deposit never raises, and afterwards balances and holdings are again equal.\<close>

theorem mini_agrees_with_4o:
  assumes "mini_reachable m" and "mini_op_upper op"
    and "mini_balance m = balance a" and "mini_holdings m = holdings a"
  shows "mini_balance (mini_after m op) = balance (snd (apply_op a (mini_as_4o op))) \<and>
         mini_holdings (mini_after m op) = holdings (snd (apply_op a (mini_as_4o op))) \<and>
         (case op of Mini_Op_Deposit x \<Rightarrow> \<not> isl (mini_apply m op)
          | _ \<Rightarrow> isl (mini_apply m op) = (\<not> fst (apply_op a (mini_as_4o op))))"
proof (cases op)
  case (Mini_Op_Buy s q)
  with assms(2-4) mini_buy_as_4o [of s m a q] show ?thesis
    by (cases "mini_buy_shares m s q") (auto simp add: mini_after_def buy_shares_fail)
next
  case (Mini_Op_Sell s q)
  with assms mini_reachable_keys_known [OF assms(1)] mini_sell_as_4o [of m s a q] show ?thesis
    by (cases "mini_sell_shares m s q") (auto simp add: mini_after_def sell_shares_fail)
qed (use assms(3,4) in \<open>auto simp add: mini_after_def mini_deposit_def mini_withdraw_def
      deposit_def withdraw_def Let_def\<close>)

theorem mini_agrees_with_4o_witness:
  "mini_reachable (mini_init ''u'' 1000) \<and> mini_op_upper (Mini_Op_Withdraw 2000) \<and>
   mini_balance (mini_init ''u'' 1000) = balance scenario_start \<and>
   mini_holdings (mini_init ''u'' 1000) = holdings scenario_start \<and>
   isl (mini_apply (mini_init ''u'' 1000) (Mini_Op_Withdraw 2000)) =
     (\<not> fst (apply_op scenario_start (mini_as_4o (Mini_Op_Withdraw 2000))))"
proof -
  have r: "mini_reachable (mini_init ''u'' 1000)" by (rule mini_reachable.init)
  have u: "mini_op_upper (Mini_Op_Withdraw 2000)" by simp
  have b: "mini_balance (mini_init ''u'' 1000) = balance scenario_start"
    by (simp add: mini_init_def scenario_start_def init_account_def)
  have h: "mini_holdings (mini_init ''u'' 1000) = holdings scenario_start"
    by (simp add: mini_init_def scenario_start_def init_account_def)
  show ?thesis using mini_agrees_with_4o [OF r u b h] r u b h by simp
qed

text \<open>C17. The variants disagree on spellings of a ticker that are not upper-case (such
  as "aapl" for AAPL). For every such spelling and positive quantity, the mini variant's
  buy_shares raises ValueError "Invalid stock symbol: ..." on every account, its table
  being case-sensitive; the 4o and new variants decide and charge the purchase exactly as
  for the upper-case ticker, but record the shares under the spelling given, so the
  entry of the upper-case ticker is left as it was.\<close>

theorem lowercase_symbol_divergence:
  assumes known: "py_upper s \<in> known_symbols" and spelling: "s \<noteq> py_upper s" and q: "0 < q"
  shows "mini_buy_shares m s q = Inl (ValueError (''Invalid stock symbol: '' @ s)) \<and>
    fst (buy_shares a s q get_share_price) = fst (buy_shares a (py_upper s) q get_share_price) \<and>
    balance (snd (buy_shares a s q get_share_price)) =
      balance (snd (buy_shares a (py_upper s) q get_share_price)) \<and>
    dict_get (holdings (snd (buy_shares a s q get_share_price))) (py_upper s) 0 =
      dict_get (holdings a) (py_upper s) 0 \<and>
    fst (new_buy_shares n s q) = fst (new_buy_shares n (py_upper s) q) \<and>
    new_balance (snd (new_buy_shares n s q)) = new_balance (snd (new_buy_shares n (py_upper s) q)) \<and>
    dict_get (new_holdings (snd (new_buy_shares n s q))) (py_upper s) 0 =
      dict_get (new_holdings n) (py_upper s) 0"
proof -
  have m0: "mini_get_share_price s = 0"
    by (rule mini_get_share_price_other_spelling [OF known spelling])
  have g: "get_share_price (py_upper s) = get_share_price s" by (rule get_share_price_upper)
  have ne: "py_upper s \<noteq> s" using spelling by simp
  show ?thesis
    using m0 g ne q
    by (simp add: mini_buy_shares_def buy_shares_def new_buy_shares_def new_get_share_price_eq Let_def)
qed

theorem lowercase_symbol_divergence_witness:
  "mini_buy_shares (mini_init ''u'' 1000) ''aapl'' 1 = Inl (ValueError ''Invalid stock symbol: aapl'') \<and>
   fst (buy_shares (init_account ''u'' 1000) ''aapl'' 1 get_share_price) =
     fst (buy_shares (init_account ''u'' 1000) ''AAPL'' 1 get_share_price) \<and>
   dict_get (holdings (snd (buy_shares (init_account ''u'' 1000) ''aapl'' 1 get_share_price))) ''AAPL'' 0 = 0"
proof -
  have u: "py_upper ''aapl'' = ''AAPL''" by (simp add: py_upper_eval)
  have k: "py_upper ''aapl'' \<in> known_symbols" by (simp add: u known_symbols_def)
  have d: "''aapl'' \<noteq> py_upper ''aapl''" by (simp add: u)
  note l = lowercase_symbol_divergence [OF k d, of 1 "mini_init ''u'' 1000" "init_account ''u'' 1000"]
  show ?thesis using l by (simp add: u init_account_def)
qed

text \<open>C18. A successful 4o sale lowers the symbol's count by the quantity sold and
  deletes the entry when it reaches zero, so holdings never keep a zero count.\<close>

theorem sell_shares_holdings_entry:
  "fst (sell_shares a s q p) \<Longrightarrow>
     map_of (holdings (snd (sell_shares a s q p))) s =
       (if dict_get (holdings a) s 0 = q then None else Some (dict_get (holdings a) s 0 - q))"
  by (simp add: sell_shares_ok sold_holdings_def delete_conv' update_conv')

theorem sell_shares_holdings_entry_witness:
  "fst (sell_shares (snd (buy_shares scenario_start ''AAPL'' 2 get_share_price)) ''AAPL'' 2 get_share_price) \<and>
   map_of (holdings (snd (sell_shares (snd (buy_shares scenario_start ''AAPL'' 2 get_share_price))
     ''AAPL'' 2 get_share_price))) ''AAPL'' = None"
proof -
  have ok: "fst (sell_shares (snd (buy_shares scenario_start ''AAPL'' 2 get_share_price)) ''AAPL'' 2
      get_share_price)"
    by (simp add: scenario_start_def buy_shares_def sell_shares_def init_account_def
        price_table_defs py_upper_eval)
  have g: "dict_get (holdings (snd (buy_shares scenario_start ''AAPL'' 2 get_share_price))) ''AAPL'' 0 = 2"
    by (simp add: scenario_start_def buy_shares_def init_account_def price_table_defs py_upper_eval)
  show ?thesis using sell_shares_holdings_entry [OF ok] ok g by simp
qed

text \<open>C19. Trading at the oracle's own price never changes the 4o profit or loss: on a
  reachable account, buy_shares and sell_shares move cash and the quoted value of the
  holdings by the same amount.\<close>

theorem trades_at_quote_keep_profit:
  "reachable a \<Longrightarrow>
     get_profit_or_loss (snd (buy_shares a s q p)) p = get_profit_or_loss a p \<and>
     get_profit_or_loss (snd (sell_shares a s q p)) p = get_profit_or_loss a p"
proof -
  assume "reachable a"
  then have dd: "dict_distinct (holdings a)"
    using reachable_inv [of a] by (simp add: account_inv_def)
  show ?thesis
    by (simp add: buy_shares_profit_at_quote [OF dd] sell_shares_profit_at_quote [OF dd])
qed

theorem trades_at_quote_keep_profit_witness:
  "reachable scenario_start \<and>
   get_profit_or_loss (snd (buy_shares scenario_start ''AAPL'' 2 get_share_price)) get_share_price =
     get_profit_or_loss scenario_start get_share_price"
proof -
  have r: "reachable scenario_start" by (simp add: scenario_start_def reachable.init)
  show ?thesis using trades_at_quote_keep_profit [OF r, of "''AAPL''" 2 get_share_price] r by simp
qed

text \<open>C20. The transaction log is append-only and the account id immutable: after any
  run of calls the old log is a prefix of the new one, extended by exactly one entry per
  successful call.\<close>

theorem log_append_only:
  "\<exists>ts. transactions (snd (run_ops a ops)) = transactions a @ ts \<and>
        length ts = count_list (fst (run_ops a ops)) True \<and>
        account_id (snd (run_ops a ops)) = account_id a"
proof (induction ops arbitrary: a)
  case Nil
  show ?case by simp
next
  case (Cons op ops)
  obtain ts where ts: "transactions (snd (run_ops (snd (apply_op a op)) ops)) =
      transactions (snd (apply_op a op)) @ ts"
    and n: "length ts = count_list (fst (run_ops (snd (apply_op a op)) ops)) True"
    and i: "account_id (snd (run_ops (snd (apply_op a op)) ops)) = account_id (snd (apply_op a op))"
    using Cons.IH by blast
  obtain x where x: "transactions (snd (apply_op a op)) = transactions a @ x"
    and lx: "length x = (if fst (apply_op a op) then 1 else 0)"
    using apply_op_appends [of a op] by blast
  show ?case
  proof (intro exI conjI)
    show "transactions (snd (run_ops a (op # ops))) = transactions a @ (x @ ts)"
      using ts x by simp
    show "length (x @ ts) = count_list (fst (run_ops a (op # ops))) True"
      using n lx by simp
    show "account_id (snd (run_ops a (op # ops))) = account_id a"
      using i by simp
  qed
qed

text \<open>C21. A successful 4o buy_shares quotes the price once and uses that same quote for
  the affordability check, the cash moved and the logged transaction, whose amount and
  total are both price times quantity and whose balance is the new balance.\<close>

theorem buy_shares_records_quote:
  "fst (buy_shares a s q p) \<Longrightarrow>
     p s * of_int q \<le> balance a \<and>
     balance (snd (buy_shares a s q p)) = balance a - p s * of_int q \<and>
     last (transactions (snd (buy_shares a s q p))) =
       \<lparr>tx_type = ''buy'', tx_amount = p s * of_int q,
        tx_balance = balance (snd (buy_shares a s q p)), tx_symbol = Some s,
        tx_quantity = Some q, tx_price = Some (p s), tx_total = Some (p s * of_int q)\<rparr>"
  by (simp add: buy_shares_success_iff buy_shares_ok trade_transaction_def)

theorem buy_shares_records_quote_witness:
  "fst (buy_shares scenario_start ''AAPL'' 2 get_share_price) \<and>
   tx_price (last (transactions (snd (buy_shares scenario_start ''AAPL'' 2 get_share_price)))) =
     Some (get_share_price ''AAPL'')"
proof -
  have ok: "fst (buy_shares scenario_start ''AAPL'' 2 get_share_price)"
    by (simp add: scenario_start_def buy_shares_def init_account_def price_table_defs py_upper_eval)
  show ?thesis using buy_shares_records_quote [OF ok] ok by simp
qed

section \<open>The mini variant's reports\<close>

text \<open>C22. Round trip of report_transactions' quantity: the number printed after "Buy: "
  in a buy line is Python's str of the quantity, and it parses back to the quantity
  (negative ones included).\<close>

theorem report_quantity_roundtrip:
  "parse_int (takeWhile (\<lambda>c. c \<noteq> CHR '' '') (drop 5 (mini_txn_line (Mini_Buy s q p)))) = Some q"
proof -
  have "takeWhile (\<lambda>c. c \<noteq> CHR '' '') (py_str_int q) = py_str_int q"
    using py_str_int_no_space [of q] by (auto simp add: takeWhile_eq_all_conv)
  then show ?thesis using parse_int_py_str_int [of q] by simp
qed

text \<open>C23. Bound on report_transactions' amounts: for any non-negative deposit amount, the
  ".2f" text in its line parses to a value within half a cent of the amount.\<close>

theorem report_amount_half_cent:
  "0 \<le> x \<Longrightarrow> \<exists>y. parse_2f (drop 10 (mini_txn_line (Mini_Deposit x))) = Some y \<and> \<bar>y - x\<bar> \<le> 1 / 200"
  using fmt_2f_amount_bound [of x] by simp

theorem report_amount_half_cent_witness:
  "0 \<le> (1 / 8 :: real) \<and>
   (\<exists>y. parse_2f (drop 10 (mini_txn_line (Mini_Deposit (1 / 8)))) = Some y \<and> \<bar>y - 1 / 8\<bar> \<le> 1 / 200)"
  using report_amount_half_cent [of "1 / 8"] by simp

section \<open>The shape of the log, closing out, concurrent callers\<close>

text \<open>C24. Every transaction in the log of a reachable 4o account has the shape of the
  spec's Transaction: its kind is deposit, withdraw, buy or sell; a cash transaction has no
  symbol, quantity, price or total; a trade has all of them, with a positive quantity and
  price and an amount equal to its total, price times quantity; every amount is positive
  and every balance snapshot non-negative.\<close>

theorem reachable_log_well_typed:
  "reachable a \<Longrightarrow> \<forall>t \<in> set (transactions a). txn_wf t"
  using reachable_log_wf_aux [of a] by (simp add: log_wf_def)

theorem reachable_log_well_typed_witness:
  "reachable (snd (buy_shares scenario_start ''AAPL'' 2 get_share_price)) \<and>
   list_all txn_wf (transactions (snd (buy_shares scenario_start ''AAPL'' 2 get_share_price)))"
proof -
  have r: "reachable (snd (buy_shares scenario_start ''AAPL'' 2 get_share_price))"
    using reachable.step [OF reachable.init, of "''acct''" 1000 "Buy ''AAPL'' 2 get_share_price"]
    by (simp add: scenario_start_def)
  show ?thesis using reachable_log_well_typed [OF r] r by (simp add: list_all_iff)
qed

text \<open>C25. Every reachable 4o account can always be closed out: some sequence of calls,
  each of which succeeds, sells every holding and withdraws all the cash, leaving no
  holdings and a zero balance.\<close>

theorem reachable_can_close_out:
  "reachable a \<Longrightarrow>
     \<exists>ops. list_all id (fst (run_ops a ops)) \<and> holdings (snd (run_ops a ops)) = [] \<and>
           balance (snd (run_ops a ops)) = 0"
proof -
  assume r: "reachable a"
  let ?p = "\<lambda>s::symbol. 1::real"
  let ?L = "liquidate_ops (holdings a) ?p"
  let ?a1 = "snd (run_ops a ?L)"
  have inv: "account_inv a" by (rule reachable_inv [OF r])
  have pr: "all_priced ?p a" by (simp add: all_priced_def)
  note liq = run_liquidate_ops [OF inv pr]
  have b1: "0 \<le> balance ?a1"
    using reachable_inv [OF reachable_run_ops [OF r, of ?L]] by (simp add: account_inv_def)
  show ?thesis
  proof (cases "balance ?a1 = 0")
    case True
    with liq show ?thesis by blast
  next
    case False
    with b1 have pos: "0 < balance ?a1" by simp
    have "list_all id (fst (run_ops a (?L @ [Withdraw (balance ?a1)]))) \<and>
          holdings (snd (run_ops a (?L @ [Withdraw (balance ?a1)]))) = [] \<and>
          balance (snd (run_ops a (?L @ [Withdraw (balance ?a1)]))) = 0"
      using liq pos by (simp add: run_ops_append_split withdraw_success_iff withdraw_ok)
    then show ?thesis by blast
  qed
qed

theorem reachable_can_close_out_witness:
  "reachable (snd (buy_shares scenario_start ''AAPL'' 2 get_share_price)) \<and>
   (\<exists>ops. list_all id (fst (run_ops (snd (buy_shares scenario_start ''AAPL'' 2 get_share_price)) ops)) \<and>
      holdings (snd (run_ops (snd (buy_shares scenario_start ''AAPL'' 2 get_share_price)) ops)) = [] \<and>
      balance (snd (run_ops (snd (buy_shares scenario_start ''AAPL'' 2 get_share_price)) ops)) = 0)"
proof -
  have r: "reachable (snd (buy_shares scenario_start ''AAPL'' 2 get_share_price))"
    using reachable.step [OF reachable.init, of "''acct''" 1000 "Buy ''AAPL'' 2 get_share_price"]
    by (simp add: scenario_start_def)
  show ?thesis using reachable_can_close_out [OF r] r by simp
qed

text \<open>C26. The caller's loop that sells the first holding until none is left terminates
  on a reachable 4o account exactly when the oracle gives every held symbol a positive
  price; otherwise a sale fails, changes nothing, and the loop repeats it forever.\<close>

theorem liquidate_loop_terminates:
  "reachable a \<Longrightarrow> liquidate_loop p a \<noteq> None \<longleftrightarrow> (\<forall>s \<in> dict_keys (holdings a). 0 < p s)"
proof -
  assume r: "reachable a"
  have inv: "account_inv a" by (rule reachable_inv [OF r])
  show ?thesis
  proof
    assume "liquidate_loop p a \<noteq> None"
    then obtain r' where "liquidate_loop p a = Some r'" by blast
    with inv show "\<forall>s \<in> dict_keys (holdings a). 0 < p s"
      using liquidate_loop_returns_priced by (auto simp add: all_priced_def)
  next
    assume "\<forall>s \<in> dict_keys (holdings a). 0 < p s"
    then show "liquidate_loop p a \<noteq> None"
      using liquidate_loop_run [OF inv] by (simp add: all_priced_def)
  qed
qed

theorem liquidate_loop_terminates_witness:
  "reachable (snd (buy_shares scenario_start ''AAPL'' 2 get_share_price)) \<and>
   liquidate_loop get_share_price (snd (buy_shares scenario_start ''AAPL'' 2 get_share_price)) \<noteq> None \<and>
   liquidate_loop (\<lambda>s. 0) (snd (buy_shares scenario_start ''AAPL'' 2 get_share_price)) = None"
proof -
  have r: "reachable (snd (buy_shares scenario_start ''AAPL'' 2 get_share_price))"
    using reachable.step [OF reachable.init, of "''acct''" 1000 "Buy ''AAPL'' 2 get_share_price"]
    by (simp add: scenario_start_def)
  have k: "dict_keys (holdings (snd (buy_shares scenario_start ''AAPL'' 2 get_share_price))) = {''AAPL''}"
    by (simp add: scenario_start_def buy_shares_def init_account_def dict_keys_def
        price_table_defs py_upper_eval)
  have "0 < get_share_price ''AAPL''" by (simp add: price_table_defs py_upper_eval)
  then show ?thesis
    using liquidate_loop_terminates [OF r, of get_share_price]
      liquidate_loop_terminates [OF r, of "\<lambda>s. 0"] r k by simp
qed

text \<open>C27. When the oracle prices every held symbol, the close-out loop on a reachable 4o
  account returns a reachable account with no holdings whose balance is the old balance
  plus the quoted value of the holdings: selling at the quotes realises the valuation,
  and the profit or loss at that oracle is unchanged.\<close>

theorem liquidation_realises_value:
  assumes "reachable a" and "\<forall>s \<in> dict_keys (holdings a). 0 < p s"
  shows "\<exists>a'. liquidate_loop p a = Some a' \<and> reachable a' \<and> holdings a' = [] \<and>
           balance a' = balance a + dict_sum (\<lambda>s q. p s * of_int q) (holdings a) \<and>
           get_profit_or_loss a' p = get_profit_or_loss a p"
proof -
  let ?a' = "snd (run_ops a (liquidate_ops (holdings a) p))"
  have inv: "account_inv a" by (rule reachable_inv [OF assms(1)])
  have pr: "all_priced p a" using assms(2) by (simp add: all_priced_def)
  note liq = run_liquidate_ops [OF inv pr]
  have "liquidate_loop p a = Some ?a'" by (rule liquidate_loop_run [OF inv pr])
  moreover have "reachable ?a'" by (rule reachable_run_ops [OF assms(1)])
  moreover have "get_profit_or_loss ?a' p = get_profit_or_loss a p"
    using liq by (simp add: get_profit_or_loss_def holdings_value_def)
  ultimately show ?thesis using liq by (auto simp add: holdings_value_def)
qed

theorem liquidation_realises_value_witness:
  "reachable (snd (buy_shares scenario_start ''AAPL'' 2 get_share_price)) \<and>
   dict_keys (holdings (snd (buy_shares scenario_start ''AAPL'' 2 get_share_price))) = {''AAPL''} \<and>
   0 < get_share_price ''AAPL'' \<and>
   (\<exists>a'. liquidate_loop get_share_price (snd (buy_shares scenario_start ''AAPL'' 2 get_share_price)) =
      Some a' \<and> holdings a' = [] \<and> balance a' = 1000)"
proof -
  let ?a = "snd (buy_shares scenario_start ''AAPL'' 2 get_share_price)"
  have r: "reachable ?a"
    using reachable.step [OF reachable.init, of "''acct''" 1000 "Buy ''AAPL'' 2 get_share_price"]
    by (simp add: scenario_start_def)
  have h: "holdings ?a = [(''AAPL'', 2)]" and b: "balance ?a = 700"
    by (simp_all add: scenario_start_def buy_shares_def init_account_def price_table_defs
        py_upper_eval)
  have p: "\<forall>s \<in> dict_keys (holdings ?a). 0 < get_share_price s"
    using h by (simp add: dict_keys_def price_table_defs py_upper_eval)
  have v: "get_share_price ''AAPL'' = 150" by (simp add: price_table_defs py_upper_eval)
  have k: "dict_keys (holdings ?a) = {''AAPL''}" using h by (simp add: dict_keys_def)
  show ?thesis using liquidation_realises_value [OF r p] r h b v k by auto
qed

text \<open>C28. With a lock per account (each call of deposit, withdraw, buy_shares or
  sell_shares runs its statements without interruption), concurrent callers on a
  reachable account behave as the spec's ledger run one operation after the other: the
  serial schedule ends in a state whose abstraction is the spec's final ledger, every
  thread returns (none raises), and it returns True exactly when the spec accepts its
  operation at its turn.\<close>

theorem serial_calls_are_sequential:
  "reachable a \<Longrightarrow>
     abs_account (fst (run_schedule (a, call_threads ops) (serial_schedule ops))) =
       snd (spec_run (abs_account a) ops) \<and>
     map call_result (snd (run_schedule (a, call_threads ops) (serial_schedule ops))) =
       map (\<lambda>r. Some (Inr r)) (fst (spec_run (abs_account a) ops))"
  using serial_schedule_run_ops [of a ops] run_ops_refines_spec [OF reachable_inv, of a ops]
  by simp

theorem serial_calls_are_sequential_witness:
  "reachable scenario_start \<and>
   map call_result (snd (run_schedule (scenario_start,
       call_threads [Buy ''AAPL'' 4 get_share_price, Buy ''AAPL'' 4 get_share_price])
       (serial_schedule [Buy ''AAPL'' 4 get_share_price, Buy ''AAPL'' 4 get_share_price]))) =
     map (\<lambda>r. Some (Inr r)) (fst (spec_run (abs_account scenario_start)
       [Buy ''AAPL'' 4 get_share_price, Buy ''AAPL'' 4 get_share_price]))"
proof -
  have r: "reachable scenario_start" by (simp add: scenario_start_def reachable.init)
  show ?thesis
    using serial_calls_are_sequential [OF r, of "[Buy ''AAPL'' 4 get_share_price,
        Buy ''AAPL'' 4 get_share_price]"] r by simp
qed

text \<open>C29. Without a lock, interleaved calls corrupt any 4o account. Whenever an account
  can afford a purchase of q shares at the oracle's positive price once but not twice,
  one after the other the second purchase is refused, but in the schedule where both
  threads pass the affordability check before either debits, both return True and the
  balance ends at the old balance minus twice the cost, below zero. Whenever an account
  holds exactly q > 0 shares of a priced symbol, one after the other the second sale of q
  is refused, but two concurrent sales that both pass the holdings check credit the
  revenue twice: in the schedule alternating statement by statement both return True
  and leave a holding of -q shares; in the schedule where the first runs to its end
  after both checks, the second raises KeyError after its credit, leaving no holding.\<close>

theorem unsynchronised_calls_corrupt_ledger:
  assumes q: "0 < q" and p: "0 < p s"
    and afford: "p s * of_int q \<le> balance a" and not_twice: "balance a < 2 * (p s * of_int q)"
    and r: "0 < r" and p': "0 < p' t" and held: "map_of (holdings b) t = Some r"
  shows "fst (run_ops a [Buy s q p, Buy s q p]) = [True, False] \<and>
    map call_result (snd (run_schedule (a, call_threads [Buy s q p, Buy s q p])
      [0, 1, 0, 0, 0, 1, 1, 1])) = [Some (Inr True), Some (Inr True)] \<and>
    balance (fst (run_schedule (a, call_threads [Buy s q p, Buy s q p])
      [0, 1, 0, 0, 0, 1, 1, 1])) < 0 \<and>
    fst (run_ops b [Sell t r p', Sell t r p']) = [True, False] \<and>
    map call_result (snd (run_schedule (b, call_threads [Sell t r p', Sell t r p'])
      [0, 1, 0, 1, 0, 1, 0, 1, 0, 1])) = [Some (Inr True), Some (Inr True)] \<and>
    balance (fst (run_schedule (b, call_threads [Sell t r p', Sell t r p'])
      [0, 1, 0, 1, 0, 1, 0, 1, 0, 1])) = balance b + 2 * (p' t * of_int r) \<and>
    map_of (holdings (fst (run_schedule (b, call_threads [Sell t r p', Sell t r p'])
      [0, 1, 0, 1, 0, 1, 0, 1, 0, 1]))) t = Some (- r) \<and>
    map call_result (snd (run_schedule (b, call_threads [Sell t r p', Sell t r p'])
      [0, 1, 0, 0, 0, 0, 1, 1])) = [Some (Inr True), Some (Inl (KeyError t))] \<and>
    balance (fst (run_schedule (b, call_threads [Sell t r p', Sell t r p'])
      [0, 1, 0, 0, 0, 0, 1, 1])) = balance b + 2 * (p' t * of_int r) \<and>
    map_of (holdings (fst (run_schedule (b, call_threads [Sell t r p', Sell t r p'])
      [0, 1, 0, 0, 0, 0, 1, 1]))) t = None"
  using buy_race [of q p s a, OF q p afford not_twice] sell_race [of r p' t b, OF r p' held] not_twice
  by simp

theorem unsynchronised_calls_corrupt_ledger_witness:
  "balance (fst (run_schedule (init_account ''acct'' 1000,
      call_threads [Buy ''AAPL'' 4 get_share_price, Buy ''AAPL'' 4 get_share_price])
      [0, 1, 0, 0, 0, 1, 1, 1])) < 0 \<and>
   map call_result (snd (run_schedule (snd (buy_shares scenario_start ''AAPL'' 2 get_share_price),
      call_threads [Sell ''AAPL'' 2 get_share_price, Sell ''AAPL'' 2 get_share_price])
      [0, 1, 0, 0, 0, 0, 1, 1])) = [Some (Inr True), Some (Inl (KeyError ''AAPL''))]"
proof -
  have p: "get_share_price ''AAPL'' = 150" by (simp add: price_table_defs py_upper_eval)
  have bal: "balance (init_account ''acct'' 1000) = 1000" by (simp add: init_account_def)
  have held: "map_of (holdings (snd (buy_shares scenario_start ''AAPL'' 2 get_share_price))) ''AAPL'' =
      Some 2"
    by (simp add: scenario_start_def init_account_def buy_shares_def p)
  show ?thesis
    using unsynchronised_calls_corrupt_ledger [of 4 get_share_price "''AAPL''"
        "init_account ''acct'' 1000" 2 get_share_price "''AAPL''"
        "snd (buy_shares scenario_start ''AAPL'' 2 get_share_price)"] p bal held
    by simp
qed

section \<open>The mini and new ledgers against the abstract ledger\<close>

text \<open>C30. The mini ledger refines the spec's abstract ledger with its own price table
  as oracle and the logged cash flows as the owner's contribution: on every reachable mini
  account a call raises ValueError or returns without effect exactly when the abstract
  operation fails, and otherwise its new state is the abstract result. The calls that
  return without effect are the deposits of a non-positive amount, which the spec rejects.\<close>

theorem mini_refines_spec:
  "mini_reachable m \<Longrightarrow>
     spec_step (abs_mini m) (mini_to_spec op) =
       (case mini_apply m op of Inl e \<Rightarrow> None | Inr m' \<Rightarrow> if m' = m then None else Some (abs_mini m'))"
  by (rule mini_apply_refines [OF mini_reachable_holdings_inv])

theorem mini_refines_spec_witness:
  "mini_reachable (mini_init ''u'' 1000) \<and>
   spec_step (abs_mini (mini_init ''u'' 1000)) (mini_to_spec (Mini_Op_Buy ''AAPL'' 2)) =
     Some (abs_mini (mini_after (mini_init ''u'' 1000) (Mini_Op_Buy ''AAPL'' 2)))"
proof -
  have r: "mini_reachable (mini_init ''u'' 1000)" by (rule mini_reachable.init)
  have ok: "mini_apply (mini_init ''u'' 1000) (Mini_Op_Buy ''AAPL'' 2) =
      Inr (mini_after (mini_init ''u'' 1000) (Mini_Op_Buy ''AAPL'' 2))"
    and ne: "mini_after (mini_init ''u'' 1000) (Mini_Op_Buy ''AAPL'' 2) \<noteq> mini_init ''u'' 1000"
    by (simp_all add: mini_after_def mini_init_def mini_buy_shares_def price_table_defs Let_def)
  show ?thesis
    using mini_refines_spec [OF r, of "Mini_Op_Buy ''AAPL'' 2"] r ok ne by simp
qed

text \<open>C31. The new ledger refines the spec's abstract ledger with its own price table as
  oracle and the logged cash flows as the owner's contribution: on every reachable new
  account a call takes effect exactly when the abstract operation is defined, and then its
  new state is the abstract result (including sell_shares, which does not check the price).\<close>

theorem new_refines_spec:
  "new_reachable n \<Longrightarrow>
     spec_step (abs_new n) (new_to_spec op) =
       (if fst (new_apply n op) then Some (abs_new (snd (new_apply n op))) else None)"
  by (rule new_apply_refines [OF new_reachable_holdings_inv])

theorem new_refines_spec_witness:
  "new_reachable (new_init ''u'' 1000) \<and>
   spec_step (abs_new (new_init ''u'' 1000)) (new_to_spec (New_Op_Buy ''TSLA'' 1)) =
     Some (abs_new (snd (new_apply (new_init ''u'' 1000) (New_Op_Buy ''TSLA'' 1))))"
proof -
  have r: "new_reachable (new_init ''u'' 1000)" by (rule new_reachable.init)
  have ok: "fst (new_apply (new_init ''u'' 1000) (New_Op_Buy ''TSLA'' 1))"
    by (simp add: new_buy_shares_def new_init_def price_table_defs py_upper_eval)
  show ?thesis using new_refines_spec [OF r, of "New_Op_Buy ''TSLA'' 1"] r ok by simp
qed

text \<open>C32. The mini portfolio_value and the new get_report value the portfolio as the
  spec does, but their profit or loss is the spec's profit plus the owner's net cash flows
  after opening (every deposit counts as profit, every withdrawal as loss); get_report's
  balance and holdings are the account's.\<close>

theorem variant_profit_counts_flows:
  "mini_reachable m \<Longrightarrow> new_reachable n \<Longrightarrow>
     mini_portfolio_value m = spec_value mini_get_share_price (abs_mini m) \<and>
     mini_profit_or_loss m = spec_profit mini_get_share_price (abs_mini m) + mini_net_flows m \<and>
     report_portfolio_value (new_get_report n) = spec_value new_get_share_price (abs_new n) \<and>
     report_profit_or_loss (new_get_report n) =
       spec_profit new_get_share_price (abs_new n) + new_net_flows n \<and>
     report_balance (new_get_report n) = cash (abs_new n) \<and>
     report_holdings (new_get_report n) = new_holdings n"
  using mini_value_spec [OF mini_reachable_holdings_inv, of m]
    new_value_spec [OF new_reachable_holdings_inv, of n]
  by (simp add: mini_profit_or_loss_def new_get_report_def new_calculate_profit_or_loss_def
      spec_profit_def abs_mini_def abs_new_def new_get_holdings_def)

theorem variant_profit_counts_flows_witness:
  "mini_reachable (mini_after (mini_init ''u'' 1000) (Mini_Op_Deposit 50)) \<and>
   new_reachable (new_init ''u'' 1000) \<and>
   mini_profit_or_loss (mini_after (mini_init ''u'' 1000) (Mini_Op_Deposit 50)) =
     spec_profit mini_get_share_price (abs_mini (mini_after (mini_init ''u'' 1000) (Mini_Op_Deposit 50))) + 50"
proof -
  let ?m = "mini_after (mini_init ''u'' 1000) (Mini_Op_Deposit 50)"
  have r: "mini_reachable ?m" by (rule mini_reachable.step [OF mini_reachable.init])
  have n: "new_reachable (new_init ''u'' 1000)" by (rule new_reachable.init)
  have f: "mini_net_flows ?m = 50"
    by (simp add: mini_net_flows_def mini_after_def mini_init_def mini_deposit_def)
  show ?thesis using variant_profit_counts_flows [OF r n] r n f by simp
qed

section \<open>The scripts around the ledger\<close>

text \<open>C33. main.py, placed as in the repository at 3_crew/equity_analyst/src/
  equity_analyst/main.py under any directory R, never raises while computing its .env
  paths, and leaves every variable with the value of the project's .env
  (3_crew/equity_analyst/.env) if it sets it, else of the repository's R/.env, else
  unchanged: the project file, loaded second with override=True, wins.\<close>

theorem main_env_precedence:
  "main_module (R @ [''3_crew'', ''equity_analyst'', ''src'', ''equity_analyst'', ''main.py'']) fs env =
     Inr (\<lambda>k. case file_value fs (R @ [''3_crew'', ''equity_analyst'', ''.env'']) k of
               Some v \<Rightarrow> Some v
             | None \<Rightarrow> (case file_value fs (R @ [''.env'']) k of Some v \<Rightarrow> Some v | None \<Rightarrow> env k))"
proof -
  have "main_env_paths (R @ [''3_crew'', ''equity_analyst'', ''src'', ''equity_analyst'', ''main.py'']) =
      Inr (R @ [''.env''], R @ [''3_crew'', ''equity_analyst'', ''.env''])"
    by (simp add: main_env_paths_def path_parents_def)
  then show ?thesis by (simp add: main_module_def fun_eq_iff load_env_files_pair)
qed

text \<open>C34. What EquityAnalyst().crew() reads from its configuration. If the crew is
  built, agents.yaml holds the keys trending_company_finder, financial_researcher,
  stock_picker and manager, and tasks.yaml holds find_trending_companies,
  research_trending_companies and pick_best_company (not the method's name
  pick_best_companies); each agent, the manager and each task is configured with the
  entry under its own key, and the tasks carry the output schemas TrendingCompanyList,
  TrendingCompanyResearchList and TrendingCompanyResearch. If building raises
  KeyError, the key it names is one of those seven and is missing from its file.\<close>

theorem crew_config_findings:
  "(build_crew acfg tcfg = Inr c \<longrightarrow>
      list_all (\<lambda>k. acfg k \<noteq> None)
        [''trending_company_finder'', ''financial_researcher'', ''stock_picker'', ''manager''] \<and>
      list_all (\<lambda>k. tcfg k \<noteq> None)
        [''find_trending_companies'', ''research_trending_companies'', ''pick_best_company''] \<and>
      map (\<lambda>x. Some (ao_config x)) (co_agents c @ [co_manager c]) =
        map acfg [''trending_company_finder'', ''financial_researcher'', ''stock_picker'', ''manager''] \<and>
      map (\<lambda>x. Some (to_config x)) (co_tasks c) =
        map tcfg [''find_trending_companies'', ''research_trending_companies'', ''pick_best_company''] \<and>
      map (\<lambda>x. task_output (to_spec x)) (co_tasks c) =
        [''TrendingCompanyList'', ''TrendingCompanyResearchList'', ''TrendingCompanyResearch'']) \<and>
   (build_crew acfg tcfg = Inl (ConfigKeyError k) \<longrightarrow>
      (k \<in> {''trending_company_finder'', ''financial_researcher'', ''stock_picker'', ''manager''} \<and>
       acfg k = None) \<or>
      (k \<in> {''find_trending_companies'', ''research_trending_companies'', ''pick_best_company''} \<and>
       tcfg k = None))"
proof (intro conjI impI)
  assume ok: "build_crew acfg tcfg = Inr c"
  then show "list_all (\<lambda>k. acfg k \<noteq> None)
        [''trending_company_finder'', ''financial_researcher'', ''stock_picker'', ''manager'']"
    and "list_all (\<lambda>k. tcfg k \<noteq> None)
        [''find_trending_companies'', ''research_trending_companies'', ''pick_best_company'']"
    using build_crew_ok_iff [of acfg tcfg] by (simp_all add: crew_defs)
  show "map (\<lambda>x. Some (ao_config x)) (co_agents c @ [co_manager c]) =
        map acfg [''trending_company_finder'', ''financial_researcher'', ''stock_picker'', ''manager'']"
    and "map (\<lambda>x. Some (to_config x)) (co_tasks c) =
        map tcfg [''find_trending_companies'', ''research_trending_companies'', ''pick_best_company'']"
    using build_crew_Inr(1,2) [OF ok] by (simp_all add: crew_defs)
  have "map (\<lambda>x. task_output (to_spec x)) (co_tasks c) = map task_output (map to_spec (co_tasks c))"
    by simp
  also have "\<dots> = map task_output equity_tasks" using build_crew_Inr(3) [OF ok] by simp
  finally show "map (\<lambda>x. task_output (to_spec x)) (co_tasks c) =
        [''TrendingCompanyList'', ''TrendingCompanyResearchList'', ''TrendingCompanyResearch'']"
    by (simp add: crew_defs)
next
  assume "build_crew acfg tcfg = Inl (ConfigKeyError k)"
  then show "(k \<in> {''trending_company_finder'', ''financial_researcher'', ''stock_picker'', ''manager''} \<and>
       acfg k = None) \<or>
      (k \<in> {''find_trending_companies'', ''research_trending_companies'', ''pick_best_company''} \<and>
       tcfg k = None)"
    using build_crew_error [of acfg tcfg k] by (simp add: crew_defs)
qed

theorem crew_config_findings_witness:
  "build_crew (Map.empty(''trending_company_finder'' \<mapsto> [], ''financial_researcher'' \<mapsto> [],
      ''stock_picker'' \<mapsto> [], ''manager'' \<mapsto> []))
     (Map.empty(''find_trending_companies'' \<mapsto> [], ''research_trending_companies'' \<mapsto> [],
      ''pick_best_companies'' \<mapsto> [])) = Inl (ConfigKeyError ''pick_best_company'') \<and>
   ''pick_best_company'' \<in> {''find_trending_companies'', ''research_trending_companies'', ''pick_best_company''}"
proof -
  have b: "build_crew (Map.empty(''trending_company_finder'' \<mapsto> [], ''financial_researcher'' \<mapsto> [],
      ''stock_picker'' \<mapsto> [], ''manager'' \<mapsto> []))
     (Map.empty(''find_trending_companies'' \<mapsto> [], ''research_trending_companies'' \<mapsto> [],
      ''pick_best_companies'' \<mapsto> [])) = Inl (ConfigKeyError ''pick_best_company'')"
    by (simp add: build_crew_def make_task_def config_lookup_def crew_defs)
  show ?thesis
    using crew_config_findings [of "Map.empty(''trending_company_finder'' \<mapsto> [],
        ''financial_researcher'' \<mapsto> [], ''stock_picker'' \<mapsto> [], ''manager'' \<mapsto> [])"
        "Map.empty(''find_trending_companies'' \<mapsto> [], ''research_trending_companies'' \<mapsto> [],
        ''pick_best_companies'' \<mapsto> [])"] b
    by simp
qed

end
